theory Spec2Isabelle
  imports Complex_Main "HOL-Library.Word"
begin

unbundle bit_operations_syntax

section \<open>Common data model\<close>

text \<open>
  A dive blob is the byte array \<open>abstract->data\<close> together with \<open>abstract->size\<close>;
  it is modelled as a list of bytes whose length is the size. Offsets and sizes are
  natural numbers: they agree with the C \<open>unsigned int\<close> arithmetic as long as the
  blob size plus one sample stays below \<open>2 ^ 32\<close>. A read \<open>data ! i\<close> beyond the
  length of the list is unspecified, as the out-of-bounds read is in C.
  The C \<open>double\<close> values are idealised as real numbers.
\<close>

type_synonym byte = "8 word"

datatype dc_status =
    DC_STATUS_SUCCESS
  | DC_STATUS_DONE
  | DC_STATUS_UNSUPPORTED
  | DC_STATUS_INVALIDARGS
  | DC_STATUS_NOMEMORY
  | DC_STATUS_NODEVICE
  | DC_STATUS_NOACCESS
  | DC_STATUS_IO
  | DC_STATUS_TIMEOUT
  | DC_STATUS_PROTOCOL
  | DC_STATUS_DATAFORMAT
  | DC_STATUS_CANCELLED

record dc_datetime =
  year :: int
  month :: int
  day :: int
  hour :: int
  minute :: int
  second :: int

datatype dc_field_type =
    DC_FIELD_DIVETIME
  | DC_FIELD_MAXDEPTH
  | DC_FIELD_AVGDEPTH
  | DC_FIELD_GASMIX_COUNT
  | DC_FIELD_GASMIX
  | DC_FIELD_SALINITY
  | DC_FIELD_ATMOSPHERIC
  | DC_FIELD_TEMPERATURE_SURFACE
  | DC_FIELD_TEMPERATURE_MINIMUM
  | DC_FIELD_TEMPERATURE_MAXIMUM
  | DC_FIELD_TANK_COUNT
  | DC_FIELD_TANK
  | DC_FIELD_DIVEMODE
  | DC_FIELD_STRING

record dc_gasmix =
  helium :: real
  oxygen :: real
  nitrogen :: real

datatype dc_water = DC_WATER_FRESH | DC_WATER_SALT

datatype dc_divemode = DC_DIVEMODE_FREEDIVE | DC_DIVEMODE_GAUGE | DC_DIVEMODE_OC | DC_DIVEMODE_CC

text \<open>What \<open>get_field\<close> stores through its \<open>void *value\<close> argument.\<close>

datatype dc_tankvolume = DC_TANKVOLUME_NONE | DC_TANKVOLUME_METRIC | DC_TANKVOLUME_IMPERIAL

record dc_tank =
  tank_gasmix :: nat
  tank_type :: dc_tankvolume
  tank_volume :: real
  tank_workpressure :: real
  tank_beginpressure :: real
  tank_endpressure :: real

datatype dc_field_value =
    FieldUInt nat
  | FieldDouble real
  | FieldGasmix dc_gasmix
  | FieldSalinity dc_water real
  | FieldDivemode dc_divemode
  | FieldTank dc_tank
  | FieldString string string

datatype dc_deco = DC_DECO_NDL | DC_DECO_SAFETYSTOP | DC_DECO_DECOSTOP | DC_DECO_DEEPSTOP

datatype sample_event =
    SAMPLE_EVENT_DECOSTOP
  | SAMPLE_EVENT_RBT
  | SAMPLE_EVENT_ASCENT
  | SAMPLE_EVENT_CEILING
  | SAMPLE_EVENT_WORKLOAD
  | SAMPLE_EVENT_TRANSMITTER
  | SAMPLE_EVENT_SURFACE
  | SAMPLE_EVENT_GASCHANGE
  | SAMPLE_EVENT_GASCHANGE2

datatype sample_vendor =
    SAMPLE_VENDOR_UWATEC_ALADIN
  | SAMPLE_VENDOR_UWATEC_SMART
  | SAMPLE_VENDOR_OCEANIC_VTPRO
  | SAMPLE_VENDOR_OCEANIC_ATOM2

text \<open>
  One call of the sample callback: the sample type together with the member of
  \<open>dc_sample_value_t\<close> that the parser has just set. \<open>samples_foreach\<close> returns its
  status and the calls it made, in order.
\<close>

datatype dc_sample =
    DC_SAMPLE_TIME nat
  | DC_SAMPLE_DEPTH real
  | DC_SAMPLE_PRESSURE nat real
  | DC_SAMPLE_TEMPERATURE real
  | DC_SAMPLE_EVENT sample_event nat nat nat
  | DC_SAMPLE_RBT nat
  | DC_SAMPLE_HEARTBEAT nat
  | DC_SAMPLE_BEARING nat
  | DC_SAMPLE_VENDOR sample_vendor "byte list"
  | DC_SAMPLE_PPO2 real
  | DC_SAMPLE_CNS real
  | DC_SAMPLE_DECO dc_deco real nat

subsection \<open>Byte array utilities\<close>

text \<open>
  Modelled from the spec: \<open>array.c\<close> is not among the sources. The spec describes these
  routines as integer decoders at arbitrary offsets, little- and big-endian, BCD to
  decimal conversion and equality scans.
\<close>

definition array_uint16_le :: "byte list \<Rightarrow> nat \<Rightarrow> nat" where
  "array_uint16_le data off = unat (data ! off) + 256 * unat (data ! (off + 1))"

definition array_uint16_be :: "byte list \<Rightarrow> nat \<Rightarrow> nat" where
  "array_uint16_be data off = 256 * unat (data ! off) + unat (data ! (off + 1))"

definition array_uint32_le :: "byte list \<Rightarrow> nat \<Rightarrow> nat" where
  "array_uint32_le data off =
     unat (data ! off) + 256 * unat (data ! (off + 1)) +
     65536 * unat (data ! (off + 2)) + 16777216 * unat (data ! (off + 3))"

definition array_uint32_be :: "byte list \<Rightarrow> nat \<Rightarrow> nat" where
  "array_uint32_be data off =
     16777216 * unat (data ! off) + 65536 * unat (data ! (off + 1)) +
     256 * unat (data ! (off + 2)) + unat (data ! (off + 3))"

definition array_isequal :: "byte list \<Rightarrow> nat \<Rightarrow> nat \<Rightarrow> byte \<Rightarrow> bool" where
  "array_isequal data off n v = list_all (\<lambda>i. data ! (off + i) = v) [0..<n]"

definition bcd2dec :: "byte \<Rightarrow> nat" where
  "bcd2dec v = unat (drop_bit 4 v) * 10 + unat (v AND 0x0F)"

section \<open>Cressi Leonardo parser\<close>

definition cressi_SZ_HEADER :: nat where
  "cressi_SZ_HEADER = 82"

definition cressi_leonardo_parser_get_datetime :: "byte list \<Rightarrow> dc_status + dc_datetime" where
  "cressi_leonardo_parser_get_datetime p =
     (if length p < cressi_SZ_HEADER then Inl DC_STATUS_DATAFORMAT
      else Inr \<lparr> year = int (unat (p ! 8)) + 2000,
                 month = int (unat (p ! 9)),
                 day = int (unat (p ! 10)),
                 hour = int (unat (p ! 11)),
                 minute = int (unat (p ! 12)),
                 second = 0 \<rparr>)"

definition cressi_leonardo_parser_get_field ::
  "byte list \<Rightarrow> dc_field_type \<Rightarrow> dc_status + dc_field_value" where
  "cressi_leonardo_parser_get_field data type =
     (if length data < cressi_SZ_HEADER then Inl DC_STATUS_DATAFORMAT
      else case type of
          DC_FIELD_DIVETIME \<Rightarrow> Inr (FieldUInt (array_uint16_le data 0x06 * 20))
        | DC_FIELD_MAXDEPTH \<Rightarrow> Inr (FieldDouble (real (array_uint16_le data 0x20) / 10))
        | DC_FIELD_GASMIX_COUNT \<Rightarrow> Inr (FieldUInt 1)
        | DC_FIELD_GASMIX \<Rightarrow>
            (let he = 0; o2 = real (unat (data ! 0x19)) / 100
             in Inr (FieldGasmix \<lparr> helium = he, oxygen = o2, nitrogen = 1 - o2 - he \<rparr>))
        | DC_FIELD_TEMPERATURE_MINIMUM \<Rightarrow> Inr (FieldDouble (real (unat (data ! 0x22))))
        | _ \<Rightarrow> Inl DC_STATUS_UNSUPPORTED)"

text \<open>
  The sample loop, from \<open>offset\<close> with the running \<open>time\<close>, an \<open>unsigned int\<close>
  that wraps; it returns the calls made.
\<close>

function cressi_leonardo_samples :: "byte list \<Rightarrow> nat \<Rightarrow> nat \<Rightarrow> dc_sample list" where
  "cressi_leonardo_samples data time offset =
     (if offset + 2 \<le> length data then
        (let value = array_uint16_le data offset;
             depth = value AND 0x07FF;
             ascent = drop_bit 14 (value AND 0xC000);
             time' = (time + 20) mod 2 ^ 32
         in [DC_SAMPLE_TIME time', DC_SAMPLE_DEPTH (real depth / 10)] @
            (if ascent \<noteq> 0 then [DC_SAMPLE_EVENT SAMPLE_EVENT_ASCENT 0 0 ascent] else []) @
            cressi_leonardo_samples data time' (offset + 2))
      else [])"
  by pat_completeness auto
termination
  by (relation "measure (\<lambda>(data, time, offset). Suc (length data) - offset)") auto

declare cressi_leonardo_samples.simps [simp del]

definition cressi_leonardo_parser_samples_foreach :: "byte list \<Rightarrow> dc_status \<times> dc_sample list" where
  "cressi_leonardo_parser_samples_foreach data =
     (DC_STATUS_SUCCESS, cressi_leonardo_samples data 0 cressi_SZ_HEADER)"

text \<open>An 82-byte header carrying the bytes of the header scenario.\<close>

definition cressi_example_header :: "byte list" where
  "cressi_example_header =
     replicate 6 0 @ [0x3C, 0x00, 0x18, 0x03, 0x0F, 0x0A, 0x1E] @ replicate 12 0 @ [0x28] @
     replicate 6 0 @ [0x64, 0x00, 0x14] @ replicate 47 0"

section \<open>DiveSystem iDive parser\<close>

definition idive_SZ_HEADER :: nat where
  "idive_SZ_HEADER = 0x32"

definition idive_SZ_SAMPLE :: nat where
  "idive_SZ_SAMPLE = 0x2A"

definition idive_NGASMIXES :: nat where
  "idive_NGASMIXES = 8"

definition idive_EPOCH :: nat where
  "idive_EPOCH = 1199145600"

record divesystem_idive_parser =
  idive_cached :: bool
  idive_divetime :: nat
  idive_maxdepth :: nat
  idive_ngasmixes :: nat
  idive_oxygen :: "nat list"
  idive_helium :: "nat list"

definition divesystem_idive_parser_create :: divesystem_idive_parser where
  "divesystem_idive_parser_create =
     \<lparr> idive_cached = False, idive_divetime = 0, idive_maxdepth = 0, idive_ngasmixes = 0,
       idive_oxygen = replicate idive_NGASMIXES 0, idive_helium = replicate idive_NGASMIXES 0 \<rparr>"

definition divesystem_idive_parser_set_data :: "divesystem_idive_parser \<Rightarrow> divesystem_idive_parser" where
  "divesystem_idive_parser_set_data parser =
     parser \<lparr> idive_cached := False, idive_divetime := 0, idive_maxdepth := 0,
              idive_ngasmixes := 0,
              idive_oxygen := replicate idive_NGASMIXES 0,
              idive_helium := replicate idive_NGASMIXES 0 \<rparr>"

text \<open>
  \<open>dc_datetime_localtime\<close> and \<open>dc_datetime_gmtime\<close> belong to the absent
  \<open>datetime.c\<close> and the former depends on the host's time zone: the parsers take them
  as parameters, \<open>None\<close> standing for the NULL result. The sum of the 32-bit timestamp
  and the epoch is computed in \<open>unsigned int\<close> and wraps.
\<close>

definition divesystem_idive_parser_get_datetime ::
  "(int \<Rightarrow> dc_datetime option) \<Rightarrow> byte list \<Rightarrow> dc_status + dc_datetime" where
  "divesystem_idive_parser_get_datetime dc_datetime_localtime data =
     (if length data < idive_SZ_HEADER then Inl DC_STATUS_DATAFORMAT
      else let ticks = int ((array_uint32_le data 7 + idive_EPOCH) mod 2 ^ 32)
           in case dc_datetime_localtime ticks of
                None \<Rightarrow> Inl DC_STATUS_DATAFORMAT
              | Some datetime \<Rightarrow> Inr datetime)"

text \<open>
  The local variables of \<open>samples_foreach\<close>. The local arrays are not initialised in
  the source; their entries at or above \<open>ngasmixes\<close> are never read.
\<close>

record idive_locals =
  l_time :: nat
  l_maxdepth :: nat
  l_ngasmixes :: nat
  l_oxygen :: "nat list"
  l_helium :: "nat list"
  l_o2_previous :: nat
  l_he_previous :: nat

function idive_find_gasmix :: "nat list \<Rightarrow> nat list \<Rightarrow> nat \<Rightarrow> nat \<Rightarrow> nat \<Rightarrow> nat \<Rightarrow> nat" where
  "idive_find_gasmix oxygens heliums ngasmixes o2 he i =
     (if i < ngasmixes then
        (if o2 = oxygens ! i \<and> he = heliums ! i then i
         else idive_find_gasmix oxygens heliums ngasmixes o2 he (i + 1))
      else i)"
  by pat_completeness auto
termination
  by (relation "measure (\<lambda>(oxygens, heliums, ngasmixes, o2, he, i). ngasmixes - i)") auto

declare idive_find_gasmix.simps [simp del]

text \<open>The gas change part of one sample: the event emitted and the updated locals.\<close>

definition idive_gaschange ::
  "idive_locals \<Rightarrow> nat \<Rightarrow> nat \<Rightarrow> dc_status + (dc_sample list \<times> idive_locals)" where
  "idive_gaschange st o2 he =
     (if o2 \<noteq> l_o2_previous st \<or> he \<noteq> l_he_previous st then
        (let i = idive_find_gasmix (l_oxygen st) (l_helium st) (l_ngasmixes st) o2 he 0
         in if i \<ge> l_ngasmixes st \<and> i \<ge> idive_NGASMIXES then Inl DC_STATUS_DATAFORMAT
            else
              (let st' = (if i \<ge> l_ngasmixes st
                          then st \<lparr> l_oxygen := (l_oxygen st)[i := o2],
                                    l_helium := (l_helium st)[i := he],
                                    l_ngasmixes := i + 1 \<rparr>
                          else st)
               in Inr ([DC_SAMPLE_EVENT SAMPLE_EVENT_GASCHANGE2 0 0 (o2 OR push_bit 16 he)],
                       st' \<lparr> l_o2_previous := o2, l_he_previous := he \<rparr>)))
      else Inr ([], st))"

text \<open>
  One pass through the body of the sample loop: the callbacks made and either the
  status of the early return or the locals for the next pass.
\<close>

definition idive_sample ::
  "byte list \<Rightarrow> idive_locals \<Rightarrow> nat \<Rightarrow> dc_sample list \<times> (dc_status + idive_locals)" where
  "idive_sample data st offset =
     (let timestamp = array_uint32_le data (offset + 2)
      in if timestamp \<le> l_time st then ([], Inl DC_STATUS_DATAFORMAT)
         else
           (let depth = array_uint16_le data (offset + 6);
                maxdepth = (if l_maxdepth st < depth then depth else l_maxdepth st);
                temperature = sint (word_of_nat (array_uint16_le data (offset + 8)) :: 16 word);
                s1 = [DC_SAMPLE_TIME timestamp,
                      DC_SAMPLE_DEPTH (real depth / 10),
                      DC_SAMPLE_TEMPERATURE (real_of_int temperature / 10)];
                o2 = unat (data ! (offset + 10));
                he = unat (data ! (offset + 11))
            in case idive_gaschange (st \<lparr> l_time := timestamp, l_maxdepth := maxdepth \<rparr>) o2 he of
                 Inl rc \<Rightarrow> (s1, Inl rc)
               | Inr (s2, st') \<Rightarrow>
                   (let deco = array_uint16_le data (offset + 21);
                        tts = array_uint16_le data (offset + 23);
                        s3 = (if tts \<noteq> 0xFFFF then
                                [if deco \<noteq> 0 then DC_SAMPLE_DECO DC_DECO_DECOSTOP (real deco / 10) tts
                                 else DC_SAMPLE_DECO DC_DECO_NDL 0 tts]
                              else []);
                        cns = array_uint16_le data (offset + 29)
                    in (s1 @ s2 @ s3 @ [DC_SAMPLE_CNS (real cns / 100)], Inr st'))))"

function idive_samples ::
  "byte list \<Rightarrow> idive_locals \<Rightarrow> nat \<Rightarrow> dc_status \<times> dc_sample list \<times> idive_locals" where
  "idive_samples data st offset =
     (if offset + idive_SZ_SAMPLE \<le> length data then
        (case idive_sample data st offset of
           (ss, Inl rc) \<Rightarrow> (rc, ss, st)
         | (ss, Inr st') \<Rightarrow>
             (case idive_samples data st' (offset + idive_SZ_SAMPLE) of
                (rc, ss', st'') \<Rightarrow> (rc, ss @ ss', st'')))
      else (DC_STATUS_SUCCESS, [], st))"
  by pat_completeness auto
termination
  by (relation "measure (\<lambda>(data, st, offset). Suc (length data) - offset)")
     (auto simp: idive_SZ_SAMPLE_def)

declare idive_samples.simps [simp del]

definition idive_locals_init :: idive_locals where
  "idive_locals_init =
     \<lparr> l_time = 0, l_maxdepth = 0, l_ngasmixes = 0,
       l_oxygen = replicate idive_NGASMIXES 0, l_helium = replicate idive_NGASMIXES 0,
       l_o2_previous = 0xFFFFFFFF, l_he_previous = 0xFFFFFFFF \<rparr>"

text \<open>
  \<open>samples_foreach\<close> returns the status, the callbacks made and the parser, whose
  cache is written only when the loop ran to its end.
\<close>

definition divesystem_idive_parser_samples_foreach ::
  "divesystem_idive_parser \<Rightarrow> byte list \<Rightarrow> dc_status \<times> dc_sample list \<times> divesystem_idive_parser" where
  "divesystem_idive_parser_samples_foreach parser data =
     (case idive_samples data idive_locals_init idive_SZ_HEADER of
        (rc, ss, st) \<Rightarrow>
          if rc \<noteq> DC_STATUS_SUCCESS then (rc, ss, parser)
          else (DC_STATUS_SUCCESS, ss,
                parser \<lparr> idive_helium := take (l_ngasmixes st) (l_helium st) @
                                          drop (l_ngasmixes st) (idive_helium parser),
                         idive_oxygen := take (l_ngasmixes st) (l_oxygen st) @
                                          drop (l_ngasmixes st) (idive_oxygen parser),
                         idive_ngasmixes := l_ngasmixes st,
                         idive_maxdepth := l_maxdepth st,
                         idive_divetime := l_time st,
                         idive_cached := True \<rparr>))"

definition divesystem_idive_parser_get_field ::
  "divesystem_idive_parser \<Rightarrow> byte list \<Rightarrow> dc_field_type \<Rightarrow> nat \<Rightarrow>
   (dc_status + dc_field_value) \<times> divesystem_idive_parser" where
  "divesystem_idive_parser_get_field parser data type flags =
     (if length data < idive_SZ_HEADER then (Inl DC_STATUS_DATAFORMAT, parser)
      else
        (let (rc, parser') =
               (if \<not> idive_cached parser then
                  (case divesystem_idive_parser_samples_foreach parser data of
                     (rc, ss, parser') \<Rightarrow> (rc, parser'))
                else (DC_STATUS_SUCCESS, parser))
         in if rc \<noteq> DC_STATUS_SUCCESS then (Inl rc, parser')
            else
              (case type of
                 DC_FIELD_DIVETIME \<Rightarrow> Inr (FieldUInt (idive_divetime parser'))
               | DC_FIELD_MAXDEPTH \<Rightarrow> Inr (FieldDouble (real (idive_maxdepth parser') / 10))
               | DC_FIELD_GASMIX_COUNT \<Rightarrow> Inr (FieldUInt (idive_ngasmixes parser'))
               | DC_FIELD_GASMIX \<Rightarrow>
                   (let he = real (idive_helium parser' ! flags) / 100;
                        o2 = real (idive_oxygen parser' ! flags) / 100
                    in Inr (FieldGasmix \<lparr> helium = he, oxygen = o2, nitrogen = 1 - o2 - he \<rparr>))
               | DC_FIELD_ATMOSPHERIC \<Rightarrow> Inr (FieldDouble (real (array_uint16_le data 11) / 1000))
               | _ \<Rightarrow> Inl DC_STATUS_UNSUPPORTED,
               parser')))"

section \<open>Shearwater Predator and Petrel parser\<close>

definition SZ_BLOCK :: nat where
  "SZ_BLOCK = 0x80"

definition SZ_SAMPLE_PREDATOR :: nat where
  "SZ_SAMPLE_PREDATOR = 0x10"

definition SZ_SAMPLE_PETREL :: nat where
  "SZ_SAMPLE_PETREL = 0x20"

definition METRIC :: nat where
  "METRIC = 0"

definition IMPERIAL :: nat where
  "IMPERIAL = 1"

text \<open>
  Modelled from the spec: \<open>units.h\<close> is not among the sources. The spec gives the
  foot as 0.3048 m (scenario 4 of its testable properties).
\<close>

definition FEET :: real where
  "FEET = 0.3048"

record shearwater_predator_parser =
  sw_petrel :: bool
  sw_cached :: bool
  sw_ngasmixes :: nat
  sw_oxygen :: "nat list"
  sw_helium :: "nat list"
  sw_serial :: nat

definition shearwater_common_parser_create :: "nat \<Rightarrow> bool \<Rightarrow> shearwater_predator_parser" where
  "shearwater_common_parser_create serial petrel =
     \<lparr> sw_petrel = petrel, sw_cached = False, sw_ngasmixes = 0,
       sw_oxygen = replicate 10 0, sw_helium = replicate 10 0, sw_serial = serial \<rparr>"

definition shearwater_predator_parser_create :: "nat \<Rightarrow> shearwater_predator_parser" where
  "shearwater_predator_parser_create serial = shearwater_common_parser_create serial False"

definition shearwater_petrel_parser_create :: "nat \<Rightarrow> shearwater_predator_parser" where
  "shearwater_petrel_parser_create serial = shearwater_common_parser_create serial True"

definition shearwater_samplesize :: "bool \<Rightarrow> nat" where
  "shearwater_samplesize petrel = (if petrel then SZ_SAMPLE_PETREL else SZ_SAMPLE_PREDATOR)"

record shearwater_locals =
  sw_time :: nat
  sw_o2_previous :: nat
  sw_he_previous :: nat

text \<open>The callbacks made for one non-empty sample, and the locals after it.\<close>

definition shearwater_sample ::
  "bool \<Rightarrow> nat \<Rightarrow> byte list \<Rightarrow> shearwater_locals \<Rightarrow> nat \<Rightarrow> dc_sample list \<times> shearwater_locals" where
  "shearwater_sample petrel units data st offset =
     (let time' = sw_time st + 10;
          depth = array_uint16_be data offset;
          temperature = unat (data ! (offset + 13));
          o2 = unat (data ! (offset + 7));
          he = unat (data ! (offset + 8));
          gaschange = (o2 \<noteq> sw_o2_previous st \<or> he \<noteq> sw_he_previous st);
          decostop = array_uint16_be data (offset + 2);
          decotime = unat (data ! (offset + 9)) * 60
      in ([DC_SAMPLE_TIME time',
           DC_SAMPLE_DEPTH (if units = IMPERIAL then real depth * FEET / 10 else real depth / 10),
           DC_SAMPLE_TEMPERATURE (if units = IMPERIAL then (real temperature - 32) * (5 / 9)
                                  else real temperature),
           DC_SAMPLE_PPO2 (real (unat (data ! (offset + 6))) / 100)] @
          (if petrel then [DC_SAMPLE_CNS (real (unat (data ! (offset + 22))) / 100)] else []) @
          (if gaschange then [DC_SAMPLE_EVENT SAMPLE_EVENT_GASCHANGE2 0 0 (o2 OR push_bit 16 he)]
           else []) @
          [if decostop \<noteq> 0
           then DC_SAMPLE_DECO DC_DECO_DECOSTOP
                  (if units = IMPERIAL then real decostop * FEET else real decostop) decotime
           else DC_SAMPLE_DECO DC_DECO_NDL 0 decotime],
          if gaschange then st \<lparr> sw_time := time', sw_o2_previous := o2, sw_he_previous := he \<rparr>
          else st \<lparr> sw_time := time' \<rparr>))"

function shearwater_samples ::
  "bool \<Rightarrow> nat \<Rightarrow> byte list \<Rightarrow> nat \<Rightarrow> shearwater_locals \<Rightarrow> nat \<Rightarrow> dc_sample list" where
  "shearwater_samples petrel units data footer st offset =
     (if offset < footer then
        (if array_isequal data offset (shearwater_samplesize petrel) 0x00
         then shearwater_samples petrel units data footer st (offset + shearwater_samplesize petrel)
         else (case shearwater_sample petrel units data st offset of
                 (ss, st') \<Rightarrow>
                   ss @ shearwater_samples petrel units data footer st'
                          (offset + shearwater_samplesize petrel)))
      else [])"
  by pat_completeness auto
termination
  by (relation "measure (\<lambda>(petrel, units, data, footer, st, offset). footer - offset)")
     (auto simp: shearwater_samplesize_def SZ_SAMPLE_PETREL_def SZ_SAMPLE_PREDATOR_def)

declare shearwater_samples.simps [simp del]

definition shearwater_predator_parser_samples_foreach ::
  "shearwater_predator_parser \<Rightarrow> byte list \<Rightarrow> dc_status \<times> dc_sample list" where
  "shearwater_predator_parser_samples_foreach parser data =
     (if length data < 2 * SZ_BLOCK then (DC_STATUS_DATAFORMAT, [])
      else
        (case (if sw_petrel parser \<or> array_uint16_be data (length data - SZ_BLOCK) = 0xFFFD
               then (if length data < 3 * SZ_BLOCK then None
                     else Some (length data - SZ_BLOCK - SZ_BLOCK))
               else Some (length data - SZ_BLOCK)) of
           None \<Rightarrow> (DC_STATUS_DATAFORMAT, [])
         | Some footer \<Rightarrow>
             (DC_STATUS_SUCCESS,
              shearwater_samples (sw_petrel parser) (unat (data ! 8)) data footer
                \<lparr> sw_time = 0, sw_o2_previous = 0, sw_he_previous = 0 \<rparr> SZ_BLOCK)))"

text \<open>
  A Petrel blob: a header block whose unit-system byte is \<open>IMPERIAL\<close>, one sample of
  32 bytes whose depth field is 100, and the two footer blocks.
\<close>

definition petrel_example_blob :: "byte list" where
  "petrel_example_blob =
     replicate 8 0 @ [0x01] @ replicate 119 0 @
     ([0x00, 0x64, 0x00, 0x00, 0x00, 0x00, 0x62, 0x15, 0x00, 0x05] @ replicate 3 0 @ [0x44] @
      replicate 18 0) @
     replicate 256 0"

section \<open>Clock synchronisation\<close>

text \<open>
  The Reefnet and Uwatec parsers are constructed with the pair \<open>(devtime, systime)\<close>.
  \<open>devtime\<close> and the timestamp of the dive are \<open>unsigned int\<close> values, whose
  difference wraps; \<open>systime\<close> and the result are \<open>dc_ticks_t\<close> values, a signed
  type of the absent \<open>datetime.h\<close> that is taken wide enough for the result.
\<close>

record reefnet_sensuspro_parser =
  rsp_atmospheric :: real
  rsp_hydrostatic :: real
  rsp_devtime :: "32 word"
  rsp_systime :: int
  rsp_cached :: bool
  rsp_divetime :: nat
  rsp_maxdepth :: nat

definition reefnet_sensuspro_parser_get_datetime ::
  "(int \<Rightarrow> dc_datetime option) \<Rightarrow> reefnet_sensuspro_parser \<Rightarrow> byte list \<Rightarrow>
   dc_status + dc_datetime" where
  "reefnet_sensuspro_parser_get_datetime dc_datetime_localtime parser data =
     (if length data < 6 + 4 then Inl DC_STATUS_DATAFORMAT
      else
        (let timestamp = (word_of_nat (array_uint32_le data 6) :: 32 word);
             ticks = rsp_systime parser - int (unat (rsp_devtime parser - timestamp))
         in case dc_datetime_localtime ticks of
              None \<Rightarrow> Inl DC_STATUS_DATAFORMAT
            | Some datetime \<Rightarrow> Inr datetime))"

text \<open>
  The cache of \<open>get_field\<close>: the scan of the samples up to the footer \<open>0xFF 0xFF\<close>,
  returning the maximum depth and the number of samples.
\<close>

function reefnet_sensuspro_scan :: "byte list \<Rightarrow> nat \<Rightarrow> nat \<Rightarrow> nat \<Rightarrow> nat \<times> nat" where
  "reefnet_sensuspro_scan data maxdepth nsamples offset =
     (if offset + 2 \<le> length data \<and> take 2 (drop offset data) \<noteq> [0xFF, 0xFF] then
        (let value = array_uint16_le data offset;
             depth = value AND 0x01FF
         in reefnet_sensuspro_scan data (if depth > maxdepth then depth else maxdepth)
              (nsamples + 1) (offset + 2))
      else (maxdepth, nsamples))"
  by pat_completeness auto
termination
  by (relation "measure (\<lambda>(data, maxdepth, nsamples, offset). Suc (length data) - offset)") auto

declare reefnet_sensuspro_scan.simps [simp del]

text \<open>
  \<open>FSW\<close>, the pressure of a foot of sea water, is a constant of the absent
  \<open>units.h\<close>: the operations that use it take it as a parameter.
\<close>

definition reefnet_sensuspro_parser_get_field ::
  "real \<Rightarrow> reefnet_sensuspro_parser \<Rightarrow> byte list \<Rightarrow> dc_field_type \<Rightarrow>
   (dc_status + dc_field_value) \<times> reefnet_sensuspro_parser" where
  "reefnet_sensuspro_parser_get_field FSW parser data type =
     (if length data < 12 then (Inl DC_STATUS_DATAFORMAT, parser)
      else
        (let parser' =
               (if \<not> rsp_cached parser then
                  (let interval = array_uint16_le data 4
                   in case reefnet_sensuspro_scan data 0 0 10 of
                        (maxdepth, nsamples) \<Rightarrow>
                          parser \<lparr> rsp_cached := True,
                                   rsp_divetime := (nsamples * interval) mod 2 ^ 32,
                                   rsp_maxdepth := maxdepth \<rparr>)
                else parser)
         in (case type of
               DC_FIELD_DIVETIME \<Rightarrow> Inr (FieldUInt (rsp_divetime parser'))
             | DC_FIELD_MAXDEPTH \<Rightarrow>
                 Inr (FieldDouble ((real (rsp_maxdepth parser') * FSW - rsp_atmospheric parser')
                                   / rsp_hydrostatic parser'))
             | DC_FIELD_GASMIX_COUNT \<Rightarrow> Inr (FieldUInt 0)
             | DC_FIELD_DIVEMODE \<Rightarrow> Inr (FieldDivemode DC_DIVEMODE_GAUGE)
             | _ \<Rightarrow> Inl DC_STATUS_UNSUPPORTED,
             parser')))"

function reefnet_sensuspro_samples ::
  "real \<Rightarrow> reefnet_sensuspro_parser \<Rightarrow> byte list \<Rightarrow> nat \<Rightarrow> nat \<Rightarrow> nat \<Rightarrow> dc_sample list" where
  "reefnet_sensuspro_samples FSW parser data interval time offset =
     (if offset + 2 \<le> length data \<and> take 2 (drop offset data) \<noteq> [0xFF, 0xFF] then
        (let value = array_uint16_le data offset;
             depth = value AND 0x01FF;
             temperature = drop_bit 9 (value AND 0xFE00);
             time' = (time + interval) mod 2 ^ 32
         in [DC_SAMPLE_TIME time',
             DC_SAMPLE_TEMPERATURE ((real temperature - 32) * (5 / 9)),
             DC_SAMPLE_DEPTH ((real depth * FSW - rsp_atmospheric parser) / rsp_hydrostatic parser)] @
            reefnet_sensuspro_samples FSW parser data interval time' (offset + 2))
      else [])"
  by pat_completeness auto
termination
  by (relation "measure (\<lambda>(FSW, parser, data, interval, time, offset). Suc (length data) - offset)")
     auto

declare reefnet_sensuspro_samples.simps [simp del]

text \<open>The outer loop, which looks for the header of four zero bytes.\<close>

function reefnet_sensuspro_find ::
  "real \<Rightarrow> reefnet_sensuspro_parser \<Rightarrow> byte list \<Rightarrow> nat \<Rightarrow> dc_status \<times> dc_sample list" where
  "reefnet_sensuspro_find FSW parser data offset =
     (if offset + 4 \<le> length data then
        (if take 4 (drop offset data) = [0x00, 0x00, 0x00, 0x00] then
           (if offset + 10 > length data then (DC_STATUS_DATAFORMAT, [])
            else (DC_STATUS_SUCCESS,
                  reefnet_sensuspro_samples FSW parser data (array_uint16_le data (offset + 4)) 0
                    (offset + 10)))
         else reefnet_sensuspro_find FSW parser data (offset + 1))
      else (DC_STATUS_SUCCESS, []))"
  by pat_completeness auto
termination
  by (relation "measure (\<lambda>(FSW, parser, data, offset). Suc (length data) - offset)") auto

declare reefnet_sensuspro_find.simps [simp del]

definition reefnet_sensuspro_parser_samples_foreach ::
  "real \<Rightarrow> reefnet_sensuspro_parser \<Rightarrow> byte list \<Rightarrow> dc_status \<times> dc_sample list" where
  "reefnet_sensuspro_parser_samples_foreach FSW parser data =
     reefnet_sensuspro_find FSW parser data 0"

record reefnet_sensusultra_parser =
  rsu_atmospheric :: real
  rsu_hydrostatic :: real
  rsu_devtime :: "32 word"
  rsu_systime :: int
  rsu_cached :: bool
  rsu_divetime :: nat
  rsu_maxdepth :: nat

definition reefnet_sensusultra_parser_get_datetime ::
  "(int \<Rightarrow> dc_datetime option) \<Rightarrow> reefnet_sensusultra_parser \<Rightarrow> byte list \<Rightarrow>
   dc_status + dc_datetime" where
  "reefnet_sensusultra_parser_get_datetime dc_datetime_localtime parser data =
     (if length data < 4 + 4 then Inl DC_STATUS_DATAFORMAT
      else
        (let timestamp = (word_of_nat (array_uint32_le data 4) :: 32 word);
             ticks = rsu_systime parser - int (unat (rsu_devtime parser - timestamp))
         in case dc_datetime_localtime ticks of
              None \<Rightarrow> Inl DC_STATUS_DATAFORMAT
            | Some datetime \<Rightarrow> Inr datetime))"

record uwatec_memomouse_parser =
  mm_devtime :: "32 word"
  mm_systime :: int

definition uwatec_memomouse_parser_create :: "32 word \<Rightarrow> int \<Rightarrow> uwatec_memomouse_parser" where
  "uwatec_memomouse_parser_create devtime systime = \<lparr> mm_devtime = devtime, mm_systime = systime \<rparr>"

definition uwatec_memomouse_parser_get_datetime ::
  "(int \<Rightarrow> dc_datetime option) \<Rightarrow> uwatec_memomouse_parser \<Rightarrow> byte list \<Rightarrow>
   dc_status + dc_datetime" where
  "uwatec_memomouse_parser_get_datetime dc_datetime_localtime parser data =
     (if length data < 11 + 4 then Inl DC_STATUS_DATAFORMAT
      else
        (let timestamp = (word_of_nat (array_uint32_le data 11) :: 32 word);
             ticks = mm_systime parser - int (unat ((mm_devtime parser - timestamp) div 2))
         in case dc_datetime_localtime ticks of
              None \<Rightarrow> Inl DC_STATUS_DATAFORMAT
            | Some datetime \<Rightarrow> Inr datetime))"

section \<open>Uwatec Smart parser\<close>

definition NBITS :: nat where
  "NBITS = 8"

definition SMARTPRO :: nat where "SMARTPRO = 0x10"
definition GALILEO :: nat where "GALILEO = 0x11"
definition ALADINTEC :: nat where "ALADINTEC = 0x12"
definition ALADINTEC2G :: nat where "ALADINTEC2G = 0x13"
definition SMARTCOM :: nat where "SMARTCOM = 0x14"
definition ALADIN2G :: nat where "ALADIN2G = 0x15"
definition SMARTTEC :: nat where "SMARTTEC = 0x18"
definition GALILEOTRIMIX :: nat where "GALILEOTRIMIX = 0x19"
definition SMARTZ :: nat where "SMARTZ = 0x1C"
definition MERIDIAN :: nat where "MERIDIAN = 0x20"
definition CHROMIS :: nat where "CHROMIS = 0x24"

definition UNSUPPORTED :: nat where
  "UNSUPPORTED = 0xFFFFFFFF"

datatype uwatec_smart_sample_t =
    PRESSURE_DEPTH
  | RBT
  | TEMPERATURE
  | PRESSURE
  | DEPTH
  | HEARTRATE
  | BEARING
  | ALARMS
  | TIME
  | UNKNOWN1
  | UNKNOWN2

record uwatec_smart_header_info_t =
  hdr_maxdepth :: nat
  hdr_divetime :: nat
  hdr_gasmix :: nat
  hdr_ngases :: nat
  hdr_temp_minimum :: nat
  hdr_temp_maximum :: nat
  hdr_temp_surface :: nat
  hdr_tankpressure :: nat
  hdr_salinity :: nat
  hdr_timezone :: nat

record uwatec_smart_sample_info_t =
  si_type :: uwatec_smart_sample_t
  si_absolute :: bool
  si_index :: nat
  si_ntypebits :: nat
  si_ignoretype :: bool
  si_extrabytes :: nat

text \<open>One row of a sample table, in the order of the fields of the C initialiser.\<close>

definition sample_info ::
  "uwatec_smart_sample_t \<Rightarrow> bool \<Rightarrow> nat \<Rightarrow> nat \<Rightarrow> bool \<Rightarrow> nat \<Rightarrow> uwatec_smart_sample_info_t" where
  "sample_info t a i n g e =
     \<lparr> si_type = t, si_absolute = a, si_index = i, si_ntypebits = n, si_ignoretype = g,
       si_extrabytes = e \<rparr>"

record uwatec_smart_tank_t =
  beginpressure :: nat
  endpressure :: nat

record uwatec_smart_parser =
  us_model :: nat
  us_devtime :: "32 word"
  us_systime :: int
  us_samples :: "uwatec_smart_sample_info_t list"
  us_header :: uwatec_smart_header_info_t
  us_headersize :: nat
  us_nsamples :: nat
  us_cached :: bool
  us_trimix :: bool
  us_ngasmixes :: nat
  us_oxygen :: "nat list"
  us_ntanks :: nat
  us_tank :: "uwatec_smart_tank_t list"
  us_watertype :: dc_water

definition uwatec_smart_pro_header :: uwatec_smart_header_info_t where
  "uwatec_smart_pro_header =
     \<lparr> hdr_maxdepth = 18, hdr_divetime = 20, hdr_gasmix = 24, hdr_ngases = 1,
       hdr_temp_minimum = 22, hdr_temp_maximum = UNSUPPORTED, hdr_temp_surface = UNSUPPORTED,
       hdr_tankpressure = UNSUPPORTED, hdr_salinity = UNSUPPORTED,
       hdr_timezone = UNSUPPORTED \<rparr>"

definition uwatec_smart_galileo_header :: uwatec_smart_header_info_t where
  "uwatec_smart_galileo_header =
     \<lparr> hdr_maxdepth = 22, hdr_divetime = 26, hdr_gasmix = 44, hdr_ngases = 3,
       hdr_temp_minimum = 30, hdr_temp_maximum = 28, hdr_temp_surface = 32,
       hdr_tankpressure = 50, hdr_salinity = 94, hdr_timezone = 16 \<rparr>"

definition uwatec_smart_aladin_tec_header :: uwatec_smart_header_info_t where
  "uwatec_smart_aladin_tec_header =
     \<lparr> hdr_maxdepth = 22, hdr_divetime = 24, hdr_gasmix = 30, hdr_ngases = 1,
       hdr_temp_minimum = 26, hdr_temp_maximum = 28, hdr_temp_surface = 32,
       hdr_tankpressure = UNSUPPORTED, hdr_salinity = UNSUPPORTED, hdr_timezone = 16 \<rparr>"

definition uwatec_smart_aladin_tec2g_header :: uwatec_smart_header_info_t where
  "uwatec_smart_aladin_tec2g_header =
     \<lparr> hdr_maxdepth = 22, hdr_divetime = 26, hdr_gasmix = 34, hdr_ngases = 2,
       hdr_temp_minimum = 30, hdr_temp_maximum = 28, hdr_temp_surface = 32,
       hdr_tankpressure = UNSUPPORTED, hdr_salinity = UNSUPPORTED,
       hdr_timezone = UNSUPPORTED \<rparr>"

definition uwatec_smart_com_header :: uwatec_smart_header_info_t where
  "uwatec_smart_com_header =
     \<lparr> hdr_maxdepth = 18, hdr_divetime = 20, hdr_gasmix = 24, hdr_ngases = 1,
       hdr_temp_minimum = 22, hdr_temp_maximum = UNSUPPORTED, hdr_temp_surface = UNSUPPORTED,
       hdr_tankpressure = 30, hdr_salinity = UNSUPPORTED, hdr_timezone = UNSUPPORTED \<rparr>"

definition uwatec_smart_tec_header :: uwatec_smart_header_info_t where
  "uwatec_smart_tec_header =
     \<lparr> hdr_maxdepth = 18, hdr_divetime = 20, hdr_gasmix = 28, hdr_ngases = 3,
       hdr_temp_minimum = 22, hdr_temp_maximum = UNSUPPORTED, hdr_temp_surface = UNSUPPORTED,
       hdr_tankpressure = 34, hdr_salinity = UNSUPPORTED, hdr_timezone = UNSUPPORTED \<rparr>"

definition uwatec_smart_pro_samples :: "uwatec_smart_sample_info_t list" where
  "uwatec_smart_pro_samples =
     [sample_info DEPTH False 0 1 False 0,
      sample_info TEMPERATURE False 0 2 False 0,
      sample_info TIME True 0 3 False 0,
      sample_info ALARMS True 0 4 False 0,
      sample_info DEPTH False 0 5 False 1,
      sample_info TEMPERATURE False 0 6 False 1,
      sample_info DEPTH True 0 7 True 2,
      sample_info TEMPERATURE True 0 8 False 2]"

definition uwatec_smart_galileo_samples :: "uwatec_smart_sample_info_t list" where
  "uwatec_smart_galileo_samples =
     [sample_info DEPTH False 0 1 False 0,
      sample_info RBT False 0 3 False 0,
      sample_info PRESSURE False 0 4 False 0,
      sample_info TEMPERATURE False 0 4 False 0,
      sample_info TIME True 0 4 False 0,
      sample_info HEARTRATE False 0 4 False 0,
      sample_info ALARMS True 0 4 False 0,
      sample_info ALARMS True 1 8 False 1,
      sample_info DEPTH True 0 8 False 2,
      sample_info RBT True 0 8 False 1,
      sample_info TEMPERATURE True 0 8 False 2,
      sample_info PRESSURE True 0 8 False 2,
      sample_info PRESSURE True 1 8 False 2,
      sample_info PRESSURE True 2 8 False 2,
      sample_info HEARTRATE True 0 8 False 1,
      sample_info BEARING True 0 8 False 2,
      sample_info ALARMS True 2 8 False 1,
      sample_info UNKNOWN1 True 0 8 False 0,
      sample_info UNKNOWN2 True 0 8 False 1]"

definition uwatec_smart_aladin_samples :: "uwatec_smart_sample_info_t list" where
  "uwatec_smart_aladin_samples =
     [sample_info DEPTH False 0 1 False 0,
      sample_info TEMPERATURE False 0 2 False 0,
      sample_info TIME True 0 3 False 0,
      sample_info ALARMS True 0 4 False 0,
      sample_info DEPTH False 0 5 False 1,
      sample_info TEMPERATURE False 0 6 False 1,
      sample_info DEPTH True 0 7 True 2,
      sample_info TEMPERATURE True 0 8 False 2,
      sample_info ALARMS True 1 9 False 0]"

definition uwatec_smart_com_samples :: "uwatec_smart_sample_info_t list" where
  "uwatec_smart_com_samples =
     [sample_info PRESSURE_DEPTH False 0 1 False 1,
      sample_info RBT False 0 2 False 0,
      sample_info TEMPERATURE False 0 3 False 0,
      sample_info PRESSURE False 0 4 False 1,
      sample_info DEPTH False 0 5 False 1,
      sample_info TEMPERATURE False 0 6 False 1,
      sample_info ALARMS True 0 7 True 1,
      sample_info TIME True 0 8 False 1,
      sample_info DEPTH True 0 9 True 2,
      sample_info PRESSURE True 0 10 True 2,
      sample_info TEMPERATURE True 0 11 True 2,
      sample_info RBT True 0 12 True 1]"

definition uwatec_smart_tec_samples :: "uwatec_smart_sample_info_t list" where
  "uwatec_smart_tec_samples =
     [sample_info PRESSURE_DEPTH False 0 1 False 1,
      sample_info RBT False 0 2 False 0,
      sample_info TEMPERATURE False 0 3 False 0,
      sample_info PRESSURE False 0 4 False 1,
      sample_info DEPTH False 0 5 False 1,
      sample_info TEMPERATURE False 0 6 False 1,
      sample_info ALARMS True 0 7 True 1,
      sample_info TIME True 0 8 False 1,
      sample_info DEPTH True 0 9 True 2,
      sample_info TEMPERATURE True 0 10 True 2,
      sample_info PRESSURE True 0 11 True 2,
      sample_info PRESSURE True 1 12 True 2,
      sample_info PRESSURE True 2 13 True 2,
      sample_info RBT True 0 14 True 1]"

text \<open>The switch on the model in \<open>uwatec_smart_parser_create\<close>.\<close>

definition uwatec_smart_model_tables ::
  "nat \<Rightarrow> (nat \<times> uwatec_smart_header_info_t \<times> uwatec_smart_sample_info_t list) option" where
  "uwatec_smart_model_tables model =
     (if model = SMARTPRO then Some (92, uwatec_smart_pro_header, uwatec_smart_pro_samples)
      else if model = GALILEO \<or> model = GALILEOTRIMIX \<or> model = ALADIN2G \<or>
              model = MERIDIAN \<or> model = CHROMIS
        then Some (152, uwatec_smart_galileo_header, uwatec_smart_galileo_samples)
      else if model = ALADINTEC
        then Some (108, uwatec_smart_aladin_tec_header, uwatec_smart_aladin_samples)
      else if model = ALADINTEC2G
        then Some (116, uwatec_smart_aladin_tec2g_header, uwatec_smart_aladin_samples)
      else if model = SMARTCOM
        then Some (100, uwatec_smart_com_header, uwatec_smart_com_samples)
      else if model = SMARTTEC \<or> model = SMARTZ
        then Some (132, uwatec_smart_tec_header, uwatec_smart_tec_samples)
      else None)"

definition uwatec_smart_parser_create ::
  "nat \<Rightarrow> 32 word \<Rightarrow> int \<Rightarrow> dc_status + uwatec_smart_parser" where
  "uwatec_smart_parser_create model devtime systime =
     (case uwatec_smart_model_tables model of
        None \<Rightarrow> Inl DC_STATUS_INVALIDARGS
      | Some (headersize, header, samples) \<Rightarrow>
          Inr \<lparr> us_model = model, us_devtime = devtime, us_systime = systime,
                us_samples = samples, us_header = header, us_headersize = headersize,
                us_nsamples = length samples,
                us_cached = False, us_trimix = False, us_ngasmixes = 0,
                us_oxygen = replicate 3 0, us_ntanks = 0,
                us_tank = replicate 3 \<lparr> beginpressure = 0, endpressure = 0 \<rparr>,
                us_watertype = DC_WATER_FRESH \<rparr>)"

definition uwatec_smart_parser_get_datetime ::
  "(int \<Rightarrow> dc_datetime option) \<Rightarrow> (int \<Rightarrow> dc_datetime option) \<Rightarrow>
   uwatec_smart_parser \<Rightarrow> byte list \<Rightarrow> dc_status + dc_datetime" where
  "uwatec_smart_parser_get_datetime dc_datetime_localtime dc_datetime_gmtime parser data =
     (if length data < us_headersize parser then Inl DC_STATUS_DATAFORMAT
      else
        (let timestamp = (word_of_nat (array_uint32_le data 8) :: 32 word);
             ticks = us_systime parser - int (unat ((us_devtime parser - timestamp) div 2))
         in if hdr_timezone (us_header parser) \<noteq> UNSUPPORTED then
              (let utc_offset = sint (data ! hdr_timezone (us_header parser))
               in case dc_datetime_gmtime (ticks + utc_offset * 900) of
                    None \<Rightarrow> Inl DC_STATUS_DATAFORMAT
                  | Some datetime \<Rightarrow> Inr datetime)
            else
              (case dc_datetime_localtime ticks of
                 None \<Rightarrow> Inl DC_STATUS_DATAFORMAT
               | Some datetime \<Rightarrow> Inr datetime)))"

text \<open>
  \<open>uwatec_smart_identify\<close>: the inner loop over the bits of one byte either returns
  the count (\<open>Inl\<close>) or falls through with the count after the byte (\<open>Inr\<close>);
  the outer loop runs over the \<open>size\<close> bytes at \<open>data\<close>. The counter is an
  \<open>unsigned int\<close>.
\<close>

function uwatec_smart_identify_bits :: "byte \<Rightarrow> nat \<Rightarrow> 32 word \<Rightarrow> 32 word + 32 word" where
  "uwatec_smart_identify_bits v j count =
     (if j < NBITS then
        (let mask = (push_bit (NBITS - 1 - j) 1 :: byte)
         in if v AND mask = 0 then Inl count
            else uwatec_smart_identify_bits v (j + 1) (count + 1))
      else Inr count)"
  by pat_completeness auto
termination
  by (relation "measure (\<lambda>(v, j, count). NBITS - j)") auto

declare uwatec_smart_identify_bits.simps [simp del]

fun uwatec_smart_identify_bytes :: "byte list \<Rightarrow> 32 word \<Rightarrow> 32 word" where
  "uwatec_smart_identify_bytes [] count = - 1"
| "uwatec_smart_identify_bytes (v # rest) count =
     (case uwatec_smart_identify_bits v 0 count of
        Inl c \<Rightarrow> c
      | Inr c \<Rightarrow> uwatec_smart_identify_bytes rest c)"

definition uwatec_smart_identify :: "byte list \<Rightarrow> 32 word" where
  "uwatec_smart_identify data = uwatec_smart_identify_bytes data 0"

definition uwatec_galileo_identify :: "byte \<Rightarrow> 32 word" where
  "uwatec_galileo_identify v =
     (if v AND 0x80 = 0 then 0
      else if v AND 0xE0 = 0x80 then 1
      else if v AND 0xF0 \<noteq> 0xF0 then ucast (drop_bit 4 (v AND 0x70))
      else ucast (v AND 0x0F) + 7)"

text \<open>
  The words of the spec for the Smart identifier style: the number of leading 1-bits
  of the input bytes, most significant bit first, continuing into further bytes.
\<close>

definition byte_bits :: "byte \<Rightarrow> bool list" where
  "byte_bits v = map (\<lambda>j. bit v (NBITS - 1 - j)) [0..<NBITS]"

definition leading_one_bits :: "byte list \<Rightarrow> nat" where
  "leading_one_bits data = length (takeWhile (\<lambda>b. b) (concat (map byte_bits data)))"

text \<open>
  A stand-in for the host's time conversion that keeps the ticks visible, and example
  parsers constructed with the clock pair \<open>devtime = 10\<close>, \<open>systime = 100\<close>.
\<close>

definition epoch_seconds :: "int \<Rightarrow> dc_datetime option" where
  "epoch_seconds t = Some \<lparr> year = 1970, month = 1, day = 1, hour = 0, minute = 0, second = t \<rparr>"

definition smart_example_parser :: uwatec_smart_parser where
  "smart_example_parser = projr (uwatec_smart_parser_create SMARTPRO 10 100)"

definition sensuspro_example_parser :: reefnet_sensuspro_parser where
  "sensuspro_example_parser =
     \<lparr> rsp_atmospheric = 101325, rsp_hydrostatic = 10055, rsp_devtime = 10, rsp_systime = 100,
       rsp_cached = False, rsp_divetime = 0, rsp_maxdepth = 0 \<rparr>"

definition sensusultra_example_parser :: reefnet_sensusultra_parser where
  "sensusultra_example_parser =
     \<lparr> rsu_atmospheric = 101325, rsu_hydrostatic = 10055, rsu_devtime = 10, rsu_systime = 100,
       rsu_cached = False, rsu_divetime = 0, rsu_maxdepth = 0 \<rparr>"

section \<open>Oceanic Atom2 parser\<close>

definition ATOM1 :: nat where "ATOM1 = 0x4250"
definition EPICA :: nat where "EPICA = 0x4257"
definition VT3 :: nat where "VT3 = 0x4258"
definition T3A :: nat where "T3A = 0x4259"
definition ATOM2 :: nat where "ATOM2 = 0x4342"
definition GEO :: nat where "GEO = 0x4344"
definition MANTA :: nat where "MANTA = 0x4345"
definition DATAMASK :: nat where "DATAMASK = 0x4347"
definition COMPUMASK :: nat where "COMPUMASK = 0x4348"
definition OC1A :: nat where "OC1A = 0x434E"
definition F10 :: nat where "F10 = 0x434D"
definition WISDOM2 :: nat where "WISDOM2 = 0x4350"
definition INSIGHT2 :: nat where "INSIGHT2 = 0x4353"
definition ELEMENT2 :: nat where "ELEMENT2 = 0x4357"
definition VEO20 :: nat where "VEO20 = 0x4359"
definition VEO30 :: nat where "VEO30 = 0x435A"
definition ZEN :: nat where "ZEN = 0x4441"
definition ZENAIR :: nat where "ZENAIR = 0x4442"
definition ATMOSAI2 :: nat where "ATMOSAI2 = 0x4443"
definition PROPLUS21 :: nat where "PROPLUS21 = 0x4444"
definition GEO20 :: nat where "GEO20 = 0x4446"
definition VT4 :: nat where "VT4 = 0x4447"
definition OC1B :: nat where "OC1B = 0x4449"
definition VOYAGER2G :: nat where "VOYAGER2G = 0x444B"
definition ATOM3 :: nat where "ATOM3 = 0x444C"
definition DG03 :: nat where "DG03 = 0x444D"
definition OCS :: nat where "OCS = 0x4450"
definition OC1C :: nat where "OC1C = 0x4451"
definition VT41 :: nat where "VT41 = 0x4452"
definition EPICB :: nat where "EPICB = 0x4453"
definition T3B :: nat where "T3B = 0x4455"
definition ATOM31 :: nat where "ATOM31 = 0x4456"
definition A300AI :: nat where "A300AI = 0x4457"
definition WISDOM3 :: nat where "WISDOM3 = 0x4458"
definition A300 :: nat where "A300 = 0x445A"
definition TX1 :: nat where "TX1 = 0x4542"
definition AMPHOS :: nat where "AMPHOS = 0x4545"
definition AMPHOSAIR :: nat where "AMPHOSAIR = 0x4546"
definition PROPLUS3 :: nat where "PROPLUS3 = 0x4548"
definition F11 :: nat where "F11 = 0x4549"
definition OCI :: nat where "OCI = 0x454B"
definition A300CS :: nat where "A300CS = 0x454C"
definition VTX :: nat where "VTX = 0x4557"

definition NORMAL :: nat where "NORMAL = 0"
definition GAUGE :: nat where "GAUGE = 1"
definition FREEDIVE :: nat where "FREEDIVE = 2"

text \<open>
  Modelled from the spec: \<open>oceanic_common.h\<close> is not among the sources. The spec gives
  the half-page as 8 bytes, hence a page of 16 bytes.
\<close>

definition PAGESIZE :: nat where
  "PAGESIZE = 0x10"

record oceanic_atom2_parser =
  oa_model :: nat
  oa_headersize :: nat
  oa_footersize :: nat
  oa_serial :: nat
  oa_cached :: bool
  oa_divetime :: nat
  oa_maxdepth :: real

definition oceanic_atom2_parser_create :: "nat \<Rightarrow> nat \<Rightarrow> oceanic_atom2_parser" where
  "oceanic_atom2_parser_create model serial =
     (let headersize = 9 * PAGESIZE div 2;
          footersize = 2 * PAGESIZE div 2;
          sizes =
            (if model = DATAMASK \<or> model = COMPUMASK \<or> model = GEO \<or> model = GEO20 \<or>
                model = VEO20 \<or> model = VEO30 \<or> model = OCS \<or> model = PROPLUS3 \<or>
                model = A300 \<or> model = MANTA \<or> model = INSIGHT2 \<or> model = ZEN
               then (headersize - PAGESIZE, footersize)
             else if model = VT4 \<or> model = VT41 then (headersize + PAGESIZE, footersize)
             else if model = TX1 then (headersize + 2 * PAGESIZE, footersize)
             else if model = ATOM1 then (headersize - 2 * PAGESIZE, footersize)
             else if model = F10 then (3 * PAGESIZE, PAGESIZE div 2)
             else if model = F11 then (5 * PAGESIZE, PAGESIZE div 2)
             else if model = A300CS \<or> model = VTX then (5 * PAGESIZE, footersize)
             else (headersize, footersize))
      in \<lparr> oa_model = model, oa_headersize = fst sizes, oa_footersize = snd sizes,
           oa_serial = serial, oa_cached = False, oa_divetime = 0, oa_maxdepth = 0 \<rparr>)"

text \<open>The byte \<open>data[i]\<close> promoted to an \<open>unsigned int\<close>.\<close>

definition byte_at :: "byte list \<Rightarrow> nat \<Rightarrow> 32 word" where
  "byte_at data i = ucast (data ! i)"

text \<open>The settings that \<open>samples_foreach\<close> computes before its loop.\<close>

definition atom2_mode :: "nat \<Rightarrow> byte list \<Rightarrow> nat" where
  "atom2_mode model data =
     (if model = F10 \<or> model = F11 then FREEDIVE
      else if model = T3B \<or> model = VT3 \<or> model = DG03
        then unat (drop_bit 6 (data ! 2 AND 0xC0))
      else if model = VEO20 \<or> model = VEO30
        then unat (drop_bit 5 (data ! 1 AND 0x60))
      else NORMAL)"

definition atom2_interval :: "nat \<Rightarrow> nat \<Rightarrow> byte list \<Rightarrow> nat" where
  "atom2_interval model mode data =
     (if mode \<noteq> FREEDIVE then
        (let idx = (if model = A300CS \<or> model = VTX then 0x1f else 0x17);
             sel = unat (data ! idx AND 0x03)
         in if sel = 0 then 2 else if sel = 1 then 15 else if sel = 2 then 30 else 60)
      else 1)"

definition atom2_samplesize :: "nat \<Rightarrow> nat \<Rightarrow> nat" where
  "atom2_samplesize model mode =
     (if mode = FREEDIVE then (if model = F10 \<or> model = F11 then 2 else 4)
      else if model = OC1A \<or> model = OC1B \<or> model = OC1C \<or> model = OCI \<or>
              model = TX1 \<or> model = A300CS \<or> model = VTX
        then PAGESIZE
      else PAGESIZE div 2)"

definition atom2_have_temperature :: "nat \<Rightarrow> bool" where
  "atom2_have_temperature mode = (mode \<noteq> FREEDIVE)"

definition atom2_have_pressure0 :: "nat \<Rightarrow> nat \<Rightarrow> bool" where
  "atom2_have_pressure0 model mode =
     (if mode = FREEDIVE then False
      else if model = VEO30 \<or> model = OCS \<or> model = ELEMENT2 \<or> model = VEO20 \<or>
              model = A300 \<or> model = ZEN \<or> model = GEO \<or> model = GEO20 \<or> model = MANTA
        then False
      else True)"

text \<open>The sample type and the length of the sample at \<open>offset\<close>.\<close>

definition atom2_sampletype :: "nat \<Rightarrow> byte list \<Rightarrow> nat \<Rightarrow> byte" where
  "atom2_sampletype mode data offset = (if mode = FREEDIVE then 0 else data ! offset)"

definition atom2_length :: "nat \<Rightarrow> nat \<Rightarrow> byte list \<Rightarrow> nat \<Rightarrow> nat" where
  "atom2_length model mode data offset =
     (if atom2_sampletype mode data offset = 0xBB then PAGESIZE else atom2_samplesize model mode)"

record atom2_locals =
  a2_time :: nat
  a2_complete :: bool
  a2_tank :: "32 word"
  a2_pressure :: "32 word"
  a2_temperature :: "32 word"

text \<open>The tank switch sample \<open>0xAA\<close>: the new tank and tank pressure.\<close>

definition atom2_tank_switch :: "nat \<Rightarrow> byte list \<Rightarrow> nat \<Rightarrow> 32 word \<times> 32 word" where
  "atom2_tank_switch model data offset =
     (if model = DATAMASK \<or> model = COMPUMASK then
        (0, (push_bit 8 (byte_at data (offset + 7)) + byte_at data (offset + 6)) AND 0x0FFF)
      else if model = A300CS \<or> model = VTX then
        ((byte_at data (offset + 1) AND 0x03) - 1,
         (push_bit 8 (byte_at data (offset + 7)) + byte_at data (offset + 6)) AND 0x0FFF)
      else
        ((byte_at data (offset + 1) AND 0x03) - 1,
         if model = ATOM2 \<or> model = EPICA \<or> model = EPICB
         then ((push_bit 8 (byte_at data (offset + 3)) + byte_at data (offset + 4)) AND 0x0FFF) * 2
         else ((push_bit 8 (byte_at data (offset + 4)) + byte_at data (offset + 5)) AND 0x0FFF) * 2))"

text \<open>
  The surface interval sample \<open>0xBB\<close>: the loop that inserts \<open>nsamples\<close> samples of
  depth zero, from the values \<open>cmpl\<close> and \<open>time\<close> of the variables \<open>complete\<close> and
  \<open>time\<close>. It returns the callbacks made and the two variables.
\<close>

fun atom2_surface :: "nat \<Rightarrow> nat \<Rightarrow> bool \<Rightarrow> nat \<Rightarrow> dc_sample list \<times> bool \<times> nat" where
  "atom2_surface 0 interval cmpl time = ([], cmpl, time)"
| "atom2_surface (Suc n) interval cmpl time =
     (let time' = (if cmpl then (time + interval) mod 2 ^ 32 else time)
      in case atom2_surface n interval True time' of
           (ss, cmpl', time'') \<Rightarrow>
             ((if cmpl then [DC_SAMPLE_TIME time'] else []) @ [DC_SAMPLE_DEPTH 0] @ ss,
              cmpl', time''))"

text \<open>The fields of an ordinary sample.\<close>

definition atom2_temperature :: "nat \<Rightarrow> byte list \<Rightarrow> nat \<Rightarrow> 32 word \<Rightarrow> 32 word" where
  "atom2_temperature model data offset temperature =
     (if model = GEO \<or> model = ATOM1 \<or> model = ELEMENT2 then byte_at data (offset + 6)
      else if model = GEO20 \<or> model = VEO20 \<or> model = VEO30 \<or> model = OC1A \<or>
              model = OC1B \<or> model = OC1C \<or> model = OCI \<or> model = A300
        then byte_at data (offset + 3)
      else if model = OCS \<or> model = TX1 then byte_at data (offset + 1)
      else if model = VT4 \<or> model = VT41 \<or> model = ATOM3 \<or> model = ATOM31 \<or>
              model = A300AI
        then drop_bit 4 (byte_at data (offset + 7) AND 0xF0) OR
             push_bit 2 (byte_at data (offset + 7) AND 0x0C) OR
             push_bit 4 (byte_at data (offset + 5) AND 0x0C)
      else if model = A300CS \<or> model = VTX then byte_at data (offset + 11)
      else
        (let sign =
               (if model = DG03 \<or> model = PROPLUS3
                  then drop_bit 2 (NOT (byte_at data (offset + 5)) AND 0x04)
                else if model = VOYAGER2G \<or> model = AMPHOS \<or> model = AMPHOSAIR
                  then drop_bit 2 (byte_at data (offset + 5) AND 0x04)
                else if model = ATOM2 \<or> model = PROPLUS21 \<or> model = EPICA \<or>
                        model = EPICB \<or> model = ATMOSAI2 \<or> model = WISDOM2 \<or>
                        model = WISDOM3
                  then drop_bit 7 (byte_at data offset AND 0x80)
                else drop_bit 7 (NOT (byte_at data offset) AND 0x80))
         in if sign \<noteq> 0 then temperature - drop_bit 2 (byte_at data (offset + 7) AND 0x0C)
            else temperature + drop_bit 2 (byte_at data (offset + 7) AND 0x0C)))"

definition atom2_pressure :: "nat \<Rightarrow> byte list \<Rightarrow> nat \<Rightarrow> 32 word \<Rightarrow> 32 word" where
  "atom2_pressure model data offset pressure =
     (if model = OC1A \<or> model = OC1B \<or> model = OC1C \<or> model = OCI
        then (byte_at data (offset + 10) + push_bit 8 (byte_at data (offset + 11))) AND 0x0FFF
      else if model = VT4 \<or> model = VT41 \<or> model = ATOM3 \<or> model = ATOM31 \<or>
              model = ZENAIR \<or> model = A300AI \<or> model = DG03 \<or> model = PROPLUS3 \<or>
              model = AMPHOSAIR
        then (push_bit 8 (byte_at data offset AND 0x03) + byte_at data (offset + 1)) * 5
      else if model = TX1 \<or> model = A300CS \<or> model = VTX
        then word_of_nat (array_uint16_le data (offset + 4))
      else pressure - byte_at data (offset + 1))"

definition atom2_depth :: "nat \<Rightarrow> nat \<Rightarrow> byte list \<Rightarrow> nat \<Rightarrow> 32 word" where
  "atom2_depth model mode data offset =
     (if mode = FREEDIVE then word_of_nat (array_uint16_le data offset)
      else if model = GEO20 \<or> model = VEO20 \<or> model = VEO30 \<or> model = OC1A \<or>
              model = OC1B \<or> model = OC1C \<or> model = OCI \<or> model = A300
        then (byte_at data (offset + 4) + push_bit 8 (byte_at data (offset + 5))) AND 0x0FFF
      else if model = ATOM1 then byte_at data (offset + 3) * 16
      else (byte_at data (offset + 2) + push_bit 8 (byte_at data (offset + 3))) AND 0x0FFF)"

text \<open>
  One pass through the body of the sample loop for a sample that is not empty. \<open>PSI\<close>
  and \<open>BAR\<close> are constants of the absent \<open>units.h\<close> and are parameters.
\<close>

definition atom2_sample ::
  "real \<Rightarrow> real \<Rightarrow> nat \<Rightarrow> nat \<Rightarrow> nat \<Rightarrow> bool \<Rightarrow> byte list \<Rightarrow> atom2_locals \<Rightarrow> nat \<Rightarrow>
   dc_sample list \<times> (dc_status + atom2_locals)" where
  "atom2_sample PSI BAR model mode interval have_pressure data st offset =
     (let time' = (if a2_complete st then (a2_time st + interval) mod 2 ^ 32 else a2_time st);
          s1 = (if a2_complete st then [DC_SAMPLE_TIME time'] else []);
          st1 = st \<lparr> a2_time := time', a2_complete := False \<rparr>;
          sampletype = atom2_sampletype mode data offset;
          len = atom2_length model mode data offset
      in if sampletype = 0xBB \<and> offset + len > length data - PAGESIZE
         then (s1, Inl DC_STATUS_DATAFORMAT)
         else
           (let s2 = [DC_SAMPLE_VENDOR SAMPLE_VENDOR_OCEANIC_ATOM2 (take len (drop offset data))]
            in if sampletype = 0xAA then
                 (case atom2_tank_switch model data offset of
                    (tank, pressure) \<Rightarrow>
                      (s1 @ s2, Inr (st1 \<lparr> a2_tank := tank, a2_pressure := pressure \<rparr>)))
               else if sampletype = 0xBB then
                 (let surftime = 60 * bcd2dec (data ! (offset + 1)) + bcd2dec (data ! (offset + 2));
                      nsamples = surftime div interval
                  in case atom2_surface nsamples interval False time' of
                       (s3, complete', time'') \<Rightarrow>
                         (s1 @ s2 @ s3,
                          Inr (st1 \<lparr> a2_time := time'', a2_complete := complete' \<rparr>)))
               else
                 (let temperature =
                        (if atom2_have_temperature mode
                         then atom2_temperature model data offset (a2_temperature st)
                         else a2_temperature st);
                      s3 = (if atom2_have_temperature mode
                            then [DC_SAMPLE_TEMPERATURE ((real (unat temperature) - 32) * (5 / 9))]
                            else []);
                      pressure =
                        (if have_pressure then atom2_pressure model data offset (a2_pressure st)
                         else a2_pressure st);
                      s4 = (if have_pressure
                            then [DC_SAMPLE_PRESSURE (unat (a2_tank st))
                                    (real (unat pressure) * PSI / BAR)]
                            else []);
                      depth = atom2_depth model mode data offset;
                      s5 = [DC_SAMPLE_DEPTH (real (unat depth) / 16 * FEET)];
                      s6 = (if model = A300CS \<or> model = VTX then
                              (let deco = unat (drop_bit 4 (data ! (offset + 15) AND 0x70));
                                   decotime = array_uint16_le data (offset + 6) AND 0x03FF
                               in [if deco \<noteq> 0
                                   then DC_SAMPLE_DECO DC_DECO_DECOSTOP (real deco * 10 * FEET) decotime
                                   else DC_SAMPLE_DECO DC_DECO_NDL 0 decotime])
                            else [])
                  in (s1 @ s2 @ s3 @ s4 @ s5 @ s6,
                      Inr (st1 \<lparr> a2_temperature := temperature, a2_pressure := pressure,
                                 a2_complete := True \<rparr>)))))"

function atom2_samples ::
  "real \<Rightarrow> real \<Rightarrow> nat \<Rightarrow> nat \<Rightarrow> nat \<Rightarrow> bool \<Rightarrow> nat \<Rightarrow> byte list \<Rightarrow> atom2_locals \<Rightarrow> nat \<Rightarrow>
   dc_status \<times> dc_sample list" where
  "atom2_samples PSI BAR model mode interval have_pressure footersize data st offset =
     (if offset + atom2_samplesize model mode \<le> length data - footersize then
        (if array_isequal data offset (atom2_samplesize model mode) 0x00 \<or>
            array_isequal data offset (atom2_samplesize model mode) 0xFF
         then atom2_samples PSI BAR model mode interval have_pressure footersize data st
                (offset + atom2_samplesize model mode)
         else
           (case atom2_sample PSI BAR model mode interval have_pressure data st offset of
              (ss, Inl rc) \<Rightarrow> (rc, ss)
            | (ss, Inr st') \<Rightarrow>
                (case atom2_samples PSI BAR model mode interval have_pressure footersize data st'
                        (offset + atom2_length model mode data offset) of
                   (rc, ss') \<Rightarrow> (rc, ss @ ss'))))
      else (DC_STATUS_SUCCESS, []))"
  by pat_completeness auto
termination
proof -
  have p: "0 < atom2_samplesize model mode" for model mode
    unfolding atom2_samplesize_def
    by (simp only: split: if_split) (simp add: PAGESIZE_def)
  have q: "0 < atom2_length model mode data offset" for model mode data offset
    unfolding atom2_length_def
    using p [of model mode] by (simp only: split: if_split) (simp add: PAGESIZE_def)
  have r: "(Suc n - (a + atom2_samplesize model mode) < Suc n - a) = (a \<le> n)"
    for n a model mode
    using p [of model mode] by arith
  have s: "(Suc n - (a + atom2_length model mode data offset) < Suc n - a) = (a \<le> n)"
    for n a model mode data offset
    using q [of model mode data offset] by arith
  show ?thesis
    by (relation "measure (\<lambda>(PSI, BAR, model, mode, interval, have_pressure, footersize, data,
          st, offset). Suc (length data) - offset)")
       (auto simp: r s)
qed

declare atom2_samples.simps [simp del]

text \<open>
  \<open>samples_foreach\<close>. The parser comes from \<open>oceanic_atom2_parser_create\<close>, whose header
  size is at least three pages, so that the subtractions \<open>headersize - PAGESIZE / 2\<close>
  and \<open>size - PAGESIZE\<close> do not wrap once the size check has passed.
\<close>

definition oceanic_atom2_parser_samples_foreach ::
  "real \<Rightarrow> real \<Rightarrow> oceanic_atom2_parser \<Rightarrow> byte list \<Rightarrow> dc_status \<times> dc_sample list" where
  "oceanic_atom2_parser_samples_foreach PSI BAR parser data =
     (let model = oa_model parser;
          headersize = oa_headersize parser;
          footersize = oa_footersize parser
      in if length data < headersize + footersize then (DC_STATUS_DATAFORMAT, [])
         else
           (let header = (if model = VT4 \<or> model = VT41 \<or> model = A300AI then 3 * PAGESIZE
                          else headersize - PAGESIZE div 2);
                mode = atom2_mode model data;
                interval = atom2_interval model mode data;
                temperature = (if atom2_have_temperature mode then byte_at data (header + 7) else 0);
                idx = (if model = A300CS \<or> model = VTX then 16 else 2);
                pressure = (if atom2_have_pressure0 model mode
                            then byte_at data (header + idx) + push_bit 8 (byte_at data (header + idx + 1))
                            else 0);
                have_pressure = (atom2_have_pressure0 model mode \<and> pressure \<noteq> 10000)
            in atom2_samples PSI BAR model mode interval have_pressure footersize data
                 \<lparr> a2_time = 0, a2_complete = True, a2_tank = 0, a2_pressure = pressure,
                   a2_temperature = temperature \<rparr> headersize))"




text \<open>
  The variables with which \<open>samples_foreach\<close> enters its loop: whether tank pressures
  are reported, and the time, the \<open>complete\<close> flag, the tank, the tank pressure and the
  temperature.
\<close>

definition atom2_header :: "oceanic_atom2_parser \<Rightarrow> nat" where
  "atom2_header parser =
     (if oa_model parser = VT4 \<or> oa_model parser = VT41 \<or> oa_model parser = A300AI
      then 3 * PAGESIZE else oa_headersize parser - PAGESIZE div 2)"

definition atom2_pressure0 :: "oceanic_atom2_parser \<Rightarrow> byte list \<Rightarrow> 32 word" where
  "atom2_pressure0 parser data =
     (let idx = (if oa_model parser = A300CS \<or> oa_model parser = VTX then 16 else 2)
      in if atom2_have_pressure0 (oa_model parser) (atom2_mode (oa_model parser) data)
         then byte_at data (atom2_header parser + idx) +
              push_bit 8 (byte_at data (atom2_header parser + idx + 1))
         else 0)"

definition atom2_have_pressure :: "oceanic_atom2_parser \<Rightarrow> byte list \<Rightarrow> bool" where
  "atom2_have_pressure parser data \<longleftrightarrow>
     atom2_have_pressure0 (oa_model parser) (atom2_mode (oa_model parser) data) \<and>
     atom2_pressure0 parser data \<noteq> 10000"

definition atom2_initial :: "oceanic_atom2_parser \<Rightarrow> byte list \<Rightarrow> atom2_locals" where
  "atom2_initial parser data =
     \<lparr> a2_time = 0, a2_complete = True, a2_tank = 0, a2_pressure = atom2_pressure0 parser data,
       a2_temperature =
         (if atom2_have_temperature (atom2_mode (oa_model parser) data)
          then byte_at data (atom2_header parser + 7) else 0) \<rparr>"

text \<open>
  An Atom2 blob with three samples between the header of 72 bytes, whose sample
  interval field selects 30 seconds, and the footer of 16 bytes: a sample with a depth
  field of 32, a surface interval sample \<open>0xBB\<close> of 16 bytes with a surface time of
  1 minute and 30 seconds, and a sample with a depth field of 48.
\<close>

definition atom2_example_dive :: "byte list" where
  "atom2_example_dive =
     replicate 0x17 0 @ [0x02] @ replicate 48 0 @
     [0x01, 0x00, 0x20, 0x00, 0x00, 0x00, 0x00, 0x00] @
     ([0xBB, 0x01, 0x30] @ replicate 13 0) @
     [0x01, 0x00, 0x30, 0x00, 0x00, 0x00, 0x00, 0x00] @
     replicate 16 0"

text \<open>The values of the TIME samples among the callbacks made, in order.\<close>

definition sample_times :: "dc_sample list \<Rightarrow> nat list" where
  "sample_times ss = concat (map (\<lambda>s. case s of DC_SAMPLE_TIME t \<Rightarrow> [t] | _ \<Rightarrow> []) ss)"

text \<open>The timestamp field of the \<open>k\<close>-th sample record of an iDive blob.\<close>

definition idive_timestamp :: "byte list \<Rightarrow> nat \<Rightarrow> nat" where
  "idive_timestamp data k = array_uint32_le data (idive_SZ_HEADER + k * idive_SZ_SAMPLE + 2)"

text \<open>
  A sample record of 0x2A bytes with timestamp \<open>t\<close>, depth 10.0 m, temperature
  20.0 degrees, air, no deco information and a CNS of 5 percent.
\<close>

definition idive_example_sample :: "byte \<Rightarrow> byte list" where
  "idive_example_sample t =
     [0x00, 0x00, t, 0x00, 0x00, 0x00, 0x64, 0x00, 0xC8, 0x00, 0x15, 0x00] @ replicate 9 0 @
     [0x00, 0x00, 0xFF, 0xFF] @ replicate 4 0 @ [0x05, 0x00] @ replicate 11 0"

definition idive_example_blob :: "byte \<Rightarrow> byte \<Rightarrow> byte list" where
  "idive_example_blob t1 t2 =
     replicate 0x32 0 @ idive_example_sample t1 @ idive_example_sample t2"

text \<open>The example header followed by one sample of depth 1.0 m.\<close>

definition cressi_example_blob :: "byte list" where
  "cressi_example_blob = cressi_example_header @ [0x0A, 0x00]"

section \<open>Suunto Common2 device\<close>

definition MAXRETRIES :: nat where
  "MAXRETRIES = 2"

definition SZ_PACKET :: nat where
  "SZ_PACKET = 0x78"

definition SZ_MINIMUM :: nat where
  "SZ_MINIMUM = 8"

text \<open>
  The layout and the device. Their declarations are in the absent
  \<open>suunto_common2.h\<close>: the records hold the fields that the source uses, and the size of
  the fingerprint is the length of the list.
\<close>

record suunto_common2_layout =
  lay_memsize :: "32 word"
  lay_fingerprint :: "32 word"
  lay_serial :: "32 word"
  lay_rb_profile_begin :: "32 word"
  lay_rb_profile_end :: "32 word"

record suunto_common2_device =
  dev_layout :: suunto_common2_layout
  dev_version :: "byte list"
  dev_fingerprint :: "byte list"

text \<open>
  Modelled from the spec: \<open>ringbuffer.c\<close> is not among the sources. The spec describes
  the distance as the modular distance in the arena \<open>[begin, end)\<close>; \<open>mode\<close> says
  whether equal pointers mean a full buffer.
\<close>

definition ringbuffer_distance :: "32 word \<Rightarrow> 32 word \<Rightarrow> bool \<Rightarrow> 32 word \<Rightarrow> 32 word \<Rightarrow> 32 word" where
  "ringbuffer_distance a b mode rb_begin rb_end =
     (if a < b then (b - a) mod (rb_end - rb_begin)
      else if b < a then (rb_end - rb_begin) - (a - b) mod (rb_end - rb_begin)
      else if mode then rb_end - rb_begin else 0)"

text \<open>
  Modelled from the spec: \<open>checksum.c\<close> is not among the sources. The spec describes the
  checksum of a packet as the XOR of its bytes from an initial value.
\<close>

definition checksum_xor_uint8 :: "byte list \<Rightarrow> byte \<Rightarrow> byte" where
  "checksum_xor_uint8 data init = fold (\<lambda>b crc. crc XOR b) data init"

text \<open>
  The device is reached through the \<open>packet\<close> function of its vtable. It is a parameter
  that takes the state of the device \<open>'d\<close>, the command, the size of the answer buffer
  and the payload size, and returns the new state, a status and the answer buffer.
\<close>

type_synonym 'd packet_fn = "'d \<Rightarrow> byte list \<Rightarrow> nat \<Rightarrow> nat \<Rightarrow> 'd \<times> dc_status \<times> byte list"

function suunto_common2_transfer_loop ::
  "'d packet_fn \<Rightarrow> 'd \<Rightarrow> byte list \<Rightarrow> nat \<Rightarrow> nat \<Rightarrow> nat \<Rightarrow> 'd \<times> dc_status \<times> byte list" where
  "suunto_common2_transfer_loop packet dev command asize psize nretries =
     (case packet dev command asize psize of
        (dev', rc, answer) \<Rightarrow>
          if rc = DC_STATUS_SUCCESS then (dev', rc, answer)
          else if rc \<noteq> DC_STATUS_TIMEOUT \<and> rc \<noteq> DC_STATUS_PROTOCOL then (dev', rc, answer)
          else if nretries \<ge> MAXRETRIES then (dev', rc, answer)
          else suunto_common2_transfer_loop packet dev' command asize psize (nretries + 1))"
  by pat_completeness auto
termination
  by (relation "measure (\<lambda>(packet, dev, command, asize, psize, nretries). MAXRETRIES - nretries)")
     auto

declare suunto_common2_transfer_loop.simps [simp del]

definition suunto_common2_transfer ::
  "'d packet_fn option \<Rightarrow> 'd \<Rightarrow> byte list \<Rightarrow> nat \<Rightarrow> nat \<Rightarrow> 'd \<times> dc_status \<times> byte list" where
  "suunto_common2_transfer vtable_packet dev command asize psize =
     (case vtable_packet of
        None \<Rightarrow> (dev, DC_STATUS_UNSUPPORTED, replicate asize 0)
      | Some packet \<Rightarrow> suunto_common2_transfer_loop packet dev command asize psize 0)"

text \<open>
  \<open>suunto_common2_device_read\<close> returns the bytes it has copied to its \<open>data\<close>
  argument; \<open>acc\<close> holds those of the packets read so far.
\<close>

function suunto_common2_device_read_loop ::
  "'d packet_fn option \<Rightarrow> 'd \<Rightarrow> 32 word \<Rightarrow> nat \<Rightarrow> nat \<Rightarrow> byte list \<Rightarrow> 'd \<times> dc_status \<times> byte list" where
  "suunto_common2_device_read_loop vtable_packet dev address rsize nbytes acc =
     (if nbytes < rsize then
        (let len = (if rsize - nbytes > SZ_PACKET then SZ_PACKET else rsize - nbytes);
             command = [0x05, 0x00, 0x03,
                        ucast (drop_bit 8 address AND 0xFF), ucast (address AND 0xFF),
                        word_of_nat len];
             command' = command @ [checksum_xor_uint8 command 0x00]
         in case suunto_common2_transfer vtable_packet dev command' (len + 7) len of
              (dev', rc, answer) \<Rightarrow>
                if rc \<noteq> DC_STATUS_SUCCESS then (dev', rc, acc)
                else suunto_common2_device_read_loop vtable_packet dev' (address + word_of_nat len)
                       rsize (nbytes + len) (acc @ take len (drop 6 answer)))
      else (dev, DC_STATUS_SUCCESS, acc))"
  by pat_completeness auto
termination
  by (relation "measure (\<lambda>(vtable_packet, dev, address, rsize, nbytes, acc). rsize - nbytes)")
     (auto simp: SZ_PACKET_def)

declare suunto_common2_device_read_loop.simps [simp del]

definition suunto_common2_device_read ::
  "'d packet_fn option \<Rightarrow> 'd \<Rightarrow> 32 word \<Rightarrow> nat \<Rightarrow> 'd \<times> dc_status \<times> byte list" where
  "suunto_common2_device_read vtable_packet dev address rsize =
     suunto_common2_device_read_loop vtable_packet dev address rsize 0 []"

text \<open>The bytes \<open>bytes\<close> stored in the buffer \<open>buf\<close> from index \<open>i\<close>.\<close>

definition write_at :: "byte list \<Rightarrow> nat \<Rightarrow> byte list \<Rightarrow> byte list" where
  "write_at buf i bytes = take i buf @ bytes @ drop (i + length bytes) buf"

text \<open>
  The inner loop of \<open>suunto_common2_device_foreach\<close>, which reads packages backwards
  until the current dive is in the buffer. The variables are \<open>unsigned int\<close> values
  and wrap. The loop has no bound of its own: the value \<open>None\<close> stands for a loop that
  does not end. It returns the state of the device and either the status of a failed
  read or the variables \<open>nbytes\<close>, \<open>address\<close>, \<open>offset\<close> and the buffer.
\<close>

partial_function (option) suunto_common2_download ::
  "'d packet_fn option \<Rightarrow> suunto_common2_layout \<Rightarrow> 32 word \<Rightarrow> 32 word \<Rightarrow>
   'd \<Rightarrow> 32 word \<Rightarrow> 32 word \<Rightarrow> 32 word \<Rightarrow> byte list \<Rightarrow>
   ('d \<times> (dc_status + 32 word \<times> 32 word \<times> 32 word \<times> byte list)) option" where
  "suunto_common2_download vtable_packet layout remaining dsize dev nbytes address offset data =
     (if nbytes < dsize then
        (let address1 = (if address = lay_rb_profile_begin layout then lay_rb_profile_end layout
                         else address);
             len1 = (if lay_rb_profile_begin layout + word_of_nat SZ_PACKET > address1
                     then address1 - lay_rb_profile_begin layout else word_of_nat SZ_PACKET);
             len = (if nbytes + len1 > remaining then remaining - nbytes else len1);
             offset' = offset - len;
             address' = address1 - len;
             extra = (if len < word_of_nat SZ_MINIMUM then word_of_nat SZ_MINIMUM - len else 0)
         in case suunto_common2_device_read vtable_packet dev (address' - extra) (unat (len + extra)) of
              (dev', rc, bytes) \<Rightarrow>
                if rc \<noteq> DC_STATUS_SUCCESS then Some (dev', Inl rc)
                else suunto_common2_download vtable_packet layout remaining dsize dev'
                       (nbytes + len) address' offset'
                       (write_at data (unat (offset' - extra)) bytes))
      else Some (dev, Inr (nbytes, address, offset, data)))"

text \<open>
  The return statement by which \<open>suunto_common2_device_foreach\<close> ends: the final
  \<open>return status\<close> after the loop, a return of \<open>DC_STATUS_SUCCESS\<close> on a matching
  fingerprint or a callback that asks to stop, or the return of an error.
\<close>

datatype foreach_exit = Completed | Stopped | Aborted

text \<open>
  The user callback takes the user data \<open>'u\<close>, the dive and its fingerprint, and
  returns the new user data and whether to go on.
\<close>

type_synonym 'u dive_callback = "'u \<Rightarrow> byte list \<Rightarrow> byte list \<Rightarrow> 'u \<times> bool"

record foreach_state =
  fs_status :: dc_status
  fs_remaining :: "32 word"
  fs_available :: "32 word"
  fs_current :: "32 word"
  fs_previous :: "32 word"
  fs_address :: "32 word"
  fs_offset :: "32 word"
  fs_data :: "byte list"

text \<open>
  The outer loop over the dives. \<open>delivered\<close> are the dives passed to the callback so
  far, each with its fingerprint. The result is the state of the device, the user data,
  the exit taken, the status returned and the dives passed to the callback.
\<close>

partial_function (option) suunto_common2_dives ::
  "'d packet_fn option \<Rightarrow> 'u dive_callback option \<Rightarrow> suunto_common2_device \<Rightarrow>
   'd \<Rightarrow> 'u \<Rightarrow> (byte list \<times> byte list) list \<Rightarrow> foreach_state \<Rightarrow>
   ('d \<times> 'u \<times> foreach_exit \<times> dc_status \<times> (byte list \<times> byte list) list) option" where
  "suunto_common2_dives vtable_packet callback device dev user delivered st =
     (if fs_remaining st \<noteq> 0 then
        (let layout = dev_layout device;
             dsize = ringbuffer_distance (fs_current st) (fs_previous st) True
                       (lay_rb_profile_begin layout) (lay_rb_profile_end layout)
         in if dsize < 4 \<or> dsize > fs_remaining st
            then Some (dev, user, Aborted, DC_STATUS_DATAFORMAT, delivered)
            else
              Option.bind
                (suunto_common2_download vtable_packet layout (fs_remaining st) dsize dev
                   (fs_available st) (fs_address st) (fs_offset st) (fs_data st))
                (\<lambda>(dev', r).
                   case r of
                     Inl rc \<Rightarrow> Some (dev', user, Aborted, rc, delivered)
                   | Inr (nbytes, address, offset, data) \<Rightarrow>
                       (let remaining = fs_remaining st - dsize;
                            available = nbytes - dsize;
                            p = unat (offset + available);
                            prev = (word_of_nat (array_uint16_le data p) :: 32 word);
                            next = (word_of_nat (array_uint16_le data (p + 2)) :: 32 word);
                            st' = \<lparr> fs_status = fs_status st, fs_remaining = remaining,
                                    fs_available = available, fs_current = prev,
                                    fs_previous = fs_current st, fs_address = address,
                                    fs_offset = offset, fs_data = data \<rparr>
                        in if prev < lay_rb_profile_begin layout \<or>
                              prev \<ge> lay_rb_profile_end layout \<or>
                              next < lay_rb_profile_begin layout \<or>
                              next \<ge> lay_rb_profile_end layout
                           then Some (dev', user, Aborted, DC_STATUS_DATAFORMAT, delivered)
                           else if next \<noteq> fs_previous st \<and> next \<noteq> fs_current st
                           then Some (dev', user, Aborted, DC_STATUS_DATAFORMAT, delivered)
                           else if next \<noteq> fs_current st then
                             (let fp_offset = unat (lay_fingerprint layout + 4);
                                  fp = take (length (dev_fingerprint device)) (drop (p + fp_offset) data);
                                  dive = take (unat (dsize - 4)) (drop (p + 4) data)
                              in if fp = dev_fingerprint device
                                 then Some (dev', user, Stopped, DC_STATUS_SUCCESS, delivered)
                                 else
                                   (case callback of
                                      None \<Rightarrow>
                                        suunto_common2_dives vtable_packet callback device dev' user
                                          delivered st'
                                    | Some cb \<Rightarrow>
                                        (case cb user dive fp of
                                           (user', continue) \<Rightarrow>
                                             if \<not> continue
                                             then Some (dev', user', Stopped, DC_STATUS_SUCCESS,
                                                        delivered @ [(dive, fp)])
                                             else suunto_common2_dives vtable_packet callback device
                                                    dev' user' (delivered @ [(dive, fp)]) st')))
                           else suunto_common2_dives vtable_packet callback device dev' user delivered
                                  (st' \<lparr> fs_status := DC_STATUS_DATAFORMAT \<rparr>))))
      else Some (dev, user, Completed, fs_status st, delivered))"

text \<open>
  \<open>suunto_common2_device_foreach\<close>. The events sent to the context (progress, vendor,
  device information) and the log messages are left out, and the allocation of the
  buffer is taken to succeed; the buffer is not initialised in the source and the loop
  reads only bytes that it has stored before.
\<close>

definition suunto_common2_device_foreach ::
  "'d packet_fn option \<Rightarrow> 'u dive_callback option \<Rightarrow> suunto_common2_device \<Rightarrow> 'd \<Rightarrow> 'u \<Rightarrow>
   ('d \<times> 'u \<times> foreach_exit \<times> dc_status \<times> (byte list \<times> byte list) list) option" where
  "suunto_common2_device_foreach vtable_packet callback device dev user =
     (let layout = dev_layout device
      in case suunto_common2_device_read vtable_packet dev (lay_serial layout) SZ_MINIMUM of
           (dev1, rc1, serial) \<Rightarrow>
             if rc1 \<noteq> DC_STATUS_SUCCESS then Some (dev1, user, Aborted, rc1, [])
             else
               (case suunto_common2_device_read vtable_packet dev1 0x0190 8 of
                  (dev2, rc2, header) \<Rightarrow>
                    if rc2 \<noteq> DC_STATUS_SUCCESS then Some (dev2, user, Aborted, rc2, [])
                    else
                      (let last = (word_of_nat (array_uint16_le header 0) :: 32 word);
                           count = (word_of_nat (array_uint16_le header 2) :: 32 word);
                           end = (word_of_nat (array_uint16_le header 4) :: 32 word);
                           begin = (word_of_nat (array_uint16_le header 6) :: 32 word)
                       in if last < lay_rb_profile_begin layout \<or>
                             last \<ge> lay_rb_profile_end layout \<or>
                             end < lay_rb_profile_begin layout \<or>
                             end \<ge> lay_rb_profile_end layout \<or>
                             begin < lay_rb_profile_begin layout \<or>
                             begin \<ge> lay_rb_profile_end layout
                          then Some (dev2, user, Aborted, DC_STATUS_DATAFORMAT, [])
                          else
                            (let remaining = ringbuffer_distance begin end (count \<noteq> 0)
                                               (lay_rb_profile_begin layout)
                                               (lay_rb_profile_end layout)
                             in suunto_common2_dives vtable_packet callback device dev2 user []
                                  \<lparr> fs_status = DC_STATUS_SUCCESS, fs_remaining = remaining,
                                    fs_available = 0, fs_current = last, fs_previous = end,
                                    fs_address = end,
                                    fs_offset = remaining + word_of_nat SZ_MINIMUM,
                                    fs_data = replicate
                                      (unat (lay_rb_profile_end layout - lay_rb_profile_begin layout
                                             + word_of_nat SZ_MINIMUM)) 0 \<rparr>))))"

text \<open>
  An example device: a ring buffer from 0x20 to 0x60 that holds two dives of 16 bytes,
  the older at 0x20 and the newer at 0x30, and the header at 0x0190 with
  \<open>last = 0x30\<close>, \<open>count = 2\<close>, \<open>end = 0x40\<close> and \<open>begin = 0x20\<close>. The low byte of the
  next pointer of the newer dive is the parameter \<open>nxt\<close>; a continuous memory has
  \<open>nxt = 0x40\<close>. The packet function answers every read from this memory, and the
  callback counts the dives and goes on.
\<close>

definition suunto_example_layout :: suunto_common2_layout where
  "suunto_example_layout =
     \<lparr> lay_memsize = 0x200, lay_fingerprint = 0, lay_serial = 0x10,
       lay_rb_profile_begin = 0x20, lay_rb_profile_end = 0x60 \<rparr>"

definition suunto_example_device :: suunto_common2_device where
  "suunto_example_device =
     \<lparr> dev_layout = suunto_example_layout, dev_version = replicate 4 0,
       dev_fingerprint = replicate 7 0 \<rparr>"

definition suunto_example_older_dive :: "byte list" where
  "suunto_example_older_dive = [0x50, 0x00, 0x30, 0x00] @ replicate 12 0xA1"

definition suunto_example_newer_dive :: "byte \<Rightarrow> byte list" where
  "suunto_example_newer_dive nxt = [0x20, 0x00, nxt, 0x00] @ replicate 12 0xB2"

definition suunto_example_memory :: "byte \<Rightarrow> byte list" where
  "suunto_example_memory nxt =
     replicate 0x20 0 @ suunto_example_older_dive @ suunto_example_newer_dive nxt @
     replicate 0x150 0 @ [0x30, 0x00, 0x02, 0x00, 0x40, 0x00, 0x20, 0x00] @ replicate 0x68 0"

definition suunto_example_packet :: "byte list \<Rightarrow> unit packet_fn" where
  "suunto_example_packet mem dev command asize psize =
     (dev, DC_STATUS_SUCCESS,
      take 6 command @
      take psize (drop (256 * unat (command ! 3) + unat (command ! 4)) mem) @ [0x00])"

definition suunto_example_callback :: "nat dive_callback" where
  "suunto_example_callback user dive fp = (user + 1, True)"

text \<open>
  The layouts and the loop states for which the enumeration is shown to return. The
  profile ring buffer is not empty and a packet above its end is still an
  \<open>unsigned int\<close>; the bytes left to read fit in the ring buffer, those read ahead are
  among them, and the read address is in the ring buffer or at its end.
\<close>

definition suunto_layout_ok :: "suunto_common2_layout \<Rightarrow> bool" where
  "suunto_layout_ok layout \<longleftrightarrow>
     lay_rb_profile_begin layout < lay_rb_profile_end layout \<and>
     unat (lay_rb_profile_end layout) + SZ_PACKET < 2 ^ 32"

definition foreach_state_ok :: "suunto_common2_layout \<Rightarrow> foreach_state \<Rightarrow> bool" where
  "foreach_state_ok layout st \<longleftrightarrow>
     fs_remaining st \<le> lay_rb_profile_end layout - lay_rb_profile_begin layout \<and>
     fs_available st \<le> fs_remaining st \<and>
     lay_rb_profile_begin layout \<le> fs_address st \<and>
     fs_address st \<le> lay_rb_profile_end layout"

section \<open>Header fields of the Shearwater parser\<close>

definition shearwater_NGASMIXES :: nat where
  "shearwater_NGASMIXES = 10"

definition shearwater_BUFLEN :: nat where
  "shearwater_BUFLEN = 16"

definition shearwater_predator_parser_set_data ::
  "shearwater_predator_parser \<Rightarrow> shearwater_predator_parser" where
  "shearwater_predator_parser_set_data parser =
     parser \<lparr> sw_cached := False, sw_ngasmixes := 0,
              sw_oxygen := replicate shearwater_NGASMIXES 0,
              sw_helium := replicate shearwater_NGASMIXES 0 \<rparr>"

definition shearwater_predator_parser_get_datetime ::
  "(int \<Rightarrow> dc_datetime option) \<Rightarrow> byte list \<Rightarrow> dc_status + dc_datetime" where
  "shearwater_predator_parser_get_datetime dc_datetime_gmtime data =
     (if length data < 2 * SZ_BLOCK then Inl DC_STATUS_DATAFORMAT
      else case dc_datetime_gmtime (int (array_uint32_be data 12)) of
             None \<Rightarrow> Inl DC_STATUS_DATAFORMAT
           | Some datetime \<Rightarrow> Inr datetime)"

text \<open>
  The cache of the gas mixes: the mixes of the ten slots that are not empty, in order.
  The entries of the parser at or above \<open>ngasmixes\<close> keep their values.
\<close>

definition shearwater_predator_parser_cache ::
  "shearwater_predator_parser \<Rightarrow> byte list \<Rightarrow> shearwater_predator_parser" where
  "shearwater_predator_parser_cache parser data =
     (if sw_cached parser then parser
      else
        (let mixes = filter (\<lambda>(o2, he). \<not> (o2 = 0 \<and> he = 0))
                       (map (\<lambda>i. (unat (data ! (20 + i)), unat (data ! (30 + i))))
                          [0..<shearwater_NGASMIXES]);
             ngasmixes = length mixes
         in parser \<lparr> sw_ngasmixes := ngasmixes,
                     sw_oxygen := map fst mixes @ drop ngasmixes (sw_oxygen parser),
                     sw_helium := map snd mixes @ drop ngasmixes (sw_helium parser),
                     sw_cached := True \<rparr>))"

text \<open>
  The offset of the footer record, or \<open>None\<close> where the source returns
  \<open>DC_STATUS_DATAFORMAT\<close>; the size is at least two blocks.
\<close>

definition shearwater_footer :: "shearwater_predator_parser \<Rightarrow> byte list \<Rightarrow> nat option" where
  "shearwater_footer parser data =
     (if sw_petrel parser \<or> array_uint16_be data (length data - SZ_BLOCK) = 0xFFFD
      then (if length data < 3 * SZ_BLOCK then None
            else Some (length data - SZ_BLOCK - SZ_BLOCK))
      else Some (length data - SZ_BLOCK))"

text \<open>
  \<open>snprintf\<close> belongs to the C library: \<open>get_field\<close> takes it as a parameter, with
  the size of the buffer, the format and the argument.
\<close>

datatype printf_arg = ArgDouble real | ArgUInt nat

definition shearwater_predator_parser_get_field ::
  "(nat \<Rightarrow> string \<Rightarrow> printf_arg \<Rightarrow> string) \<Rightarrow> shearwater_predator_parser \<Rightarrow> byte list \<Rightarrow>
   dc_field_type \<Rightarrow> nat \<Rightarrow> (dc_status + dc_field_value) \<times> shearwater_predator_parser" where
  "shearwater_predator_parser_get_field snprintf parser data type flags =
     (if length data < 2 * SZ_BLOCK then (Inl DC_STATUS_DATAFORMAT, parser)
      else
        (case shearwater_footer parser data of
           None \<Rightarrow> (Inl DC_STATUS_DATAFORMAT, parser)
         | Some footer \<Rightarrow>
             (let units = unat (data ! 8);
                  parser' = shearwater_predator_parser_cache parser data
              in (case type of
                    DC_FIELD_DIVETIME \<Rightarrow> Inr (FieldUInt (array_uint16_be data (footer + 6) * 60))
                  | DC_FIELD_MAXDEPTH \<Rightarrow>
                      Inr (FieldDouble
                             (if units = IMPERIAL then real (array_uint16_be data (footer + 4)) * FEET
                              else real (array_uint16_be data (footer + 4))))
                  | DC_FIELD_GASMIX_COUNT \<Rightarrow> Inr (FieldUInt (sw_ngasmixes parser'))
                  | DC_FIELD_GASMIX \<Rightarrow>
                      (let o2 = real (sw_oxygen parser' ! flags) / 100;
                           he = real (sw_helium parser' ! flags) / 100
                       in Inr (FieldGasmix \<lparr> helium = he, oxygen = o2, nitrogen = 1 - o2 - he \<rparr>))
                  | DC_FIELD_SALINITY \<Rightarrow>
                      (let density = array_uint16_be data 83
                       in Inr (FieldSalinity
                                 (if density = 1000 then DC_WATER_FRESH else DC_WATER_SALT)
                                 (real density)))
                  | DC_FIELD_ATMOSPHERIC \<Rightarrow>
                      Inr (FieldDouble (real (array_uint16_be data 47) / 1000))
                  | DC_FIELD_STRING \<Rightarrow>
                      (if flags = 0 then
                         Inr (FieldString ''Battery at end''
                                (snprintf shearwater_BUFLEN ''%.1f''
                                   (ArgDouble (real (unat (data ! 9)) / 10))))
                       else if flags = 1 then
                         Inr (FieldString ''Serial''
                                (snprintf shearwater_BUFLEN ''%08x'' (ArgUInt (sw_serial parser'))))
                       else if flags = 2 then
                         Inr (FieldString ''FW Version''
                                (snprintf shearwater_BUFLEN ''%2x'' (ArgUInt (unat (data ! 19)))))
                       else Inl DC_STATUS_UNSUPPORTED)
                  | _ \<Rightarrow> Inl DC_STATUS_UNSUPPORTED,
                  parser'))))"

section \<open>Header fields of the Oceanic Atom2 parser\<close>

definition oceanic_atom2_parser_set_data :: "oceanic_atom2_parser \<Rightarrow> oceanic_atom2_parser" where
  "oceanic_atom2_parser_set_data parser =
     parser \<lparr> oa_cached := False, oa_divetime := 0, oa_maxdepth := 0 \<rparr>"

text \<open>
  The fields of the date and time as the models store them, before the conversion to a
  24-hour clock: year, month, day, hour, minute and the flag of the afternoon.
\<close>

definition atom2_datetime_fields :: "nat \<Rightarrow> byte list \<Rightarrow> int \<times> int \<times> int \<times> int \<times> int \<times> bool" where
  "atom2_datetime_fields model p =
     (if model = OC1A \<or> model = OC1B \<or> model = OC1C \<or> model = OCS \<or> model = VT4 \<or>
         model = VT41 \<or> model = ATOM3 \<or> model = ATOM31 \<or> model = A300AI \<or> model = OCI
      then
        (int (unat (drop_bit 5 (p ! 5 AND 0xE0))) + int (unat (drop_bit 2 (p ! 7 AND 0xE0))) + 2000,
         int (unat (p ! 3 AND 0x0F)),
         int (unat (drop_bit 3 (p ! 0 AND 0x80))) + int (unat (drop_bit 4 (p ! 3 AND 0xF0))),
         int (bcd2dec (p ! 1 AND 0x1F)),
         int (bcd2dec (p ! 0 AND 0x7F)),
         p ! 1 AND 0x80 \<noteq> 0)
      else if model = VT3 \<or> model = VEO20 \<or> model = VEO30 \<or> model = DG03 then
        (int (unat (drop_bit 1 (p ! 3 AND 0xE0))) + int (unat (p ! 4 AND 0x0F)) + 2000,
         int (unat (drop_bit 4 (p ! 4 AND 0xF0))),
         int (unat (p ! 3 AND 0x1F)),
         int (bcd2dec (p ! 1 AND 0x1F)),
         int (bcd2dec (p ! 0)),
         p ! 1 AND 0x80 \<noteq> 0)
      else if model = ZENAIR \<or> model = AMPHOS \<or> model = AMPHOSAIR \<or> model = VOYAGER2G then
        (int (unat (p ! 3 AND 0x0F)) + 2000,
         int (unat (drop_bit 4 (p ! 7 AND 0xF0))),
         int (unat (drop_bit 3 (p ! 3 AND 0x80))) + int (unat (drop_bit 4 (p ! 5 AND 0xF0))),
         int (bcd2dec (p ! 1 AND 0x1F)),
         int (bcd2dec (p ! 0)),
         p ! 1 AND 0x80 \<noteq> 0)
      else if model = F10 \<or> model = F11 then
        (int (bcd2dec (p ! 6)) + 2000,
         int (bcd2dec (p ! 7)),
         int (bcd2dec (p ! 8)),
         int (bcd2dec (p ! 13 AND 0x7F)),
         int (bcd2dec (p ! 12)),
         p ! 13 AND 0x80 \<noteq> 0)
      else if model = TX1 then
        (int (bcd2dec (p ! 13)) + 2000,
         int (bcd2dec (p ! 14)),
         int (bcd2dec (p ! 15)),
         int (unat (p ! 11)),
         int (unat (p ! 10)),
         p ! 1 AND 0x80 \<noteq> 0)
      else if model = A300CS \<or> model = VTX then
        (int (unat (p ! 10)) + 2000,
         int (unat (p ! 8)),
         int (unat (p ! 9)),
         int (bcd2dec (p ! 1 AND 0x1F)),
         int (bcd2dec (p ! 0)),
         p ! 1 AND 0x80 \<noteq> 0)
      else
        (int (bcd2dec (drop_bit 2 (p ! 3 AND 0xC0) + (p ! 4 AND 0x0F))) + 2000,
         int (unat (drop_bit 4 (p ! 4 AND 0xF0))),
         (if model = T3A \<or> model = T3B \<or> model = GEO20 \<or> model = PROPLUS3
          then int (unat (p ! 3 AND 0x3F)) else int (bcd2dec (p ! 3 AND 0x3F))),
         int (bcd2dec (p ! 1 AND 0x1F)),
         int (bcd2dec (p ! 0)),
         p ! 1 AND 0x80 \<noteq> 0))"

text \<open>
  \<open>get_datetime\<close>. For a year before 2010 the decade is guessed from the current
  year: \<open>dc_datetime_localtime\<close> and the value \<open>now\<close> of \<open>dc_datetime_now\<close>,
  which belong to the absent \<open>datetime.c\<close>, are parameters.
\<close>

definition oceanic_atom2_parser_get_datetime ::
  "(int \<Rightarrow> dc_datetime option) \<Rightarrow> int \<Rightarrow> oceanic_atom2_parser \<Rightarrow> byte list \<Rightarrow>
   dc_status + dc_datetime" where
  "oceanic_atom2_parser_get_datetime dc_datetime_localtime now parser p =
     (let header = (if oa_model parser = F10 \<or> oa_model parser = F11 then 32 else 8)
      in if length p < header then Inl DC_STATUS_DATAFORMAT
         else
           (case atom2_datetime_fields (oa_model parser) p of
              (y, mo, d, h, mi, pm) \<Rightarrow>
                (let h' = h mod 12 + (if pm then 12 else 0);
                     y' = (if y < 2010 then
                             (case dc_datetime_localtime now of
                                None \<Rightarrow> y
                              | Some today \<Rightarrow>
                                  if year today \<ge> 2010 then
                                    (let decade = (year today div 10) * 10;
                                         decade' = (if y mod 10 > year today mod 10
                                                    then decade - 10 else decade)
                                     in y + (decade' - 2000))
                                  else y)
                           else y)
                 in Inr \<lparr> year = y', month = mo, day = d, hour = h', minute = mi,
                          second = 0 \<rparr>)))"

definition atom2_BUF_LEN :: nat where
  "atom2_BUF_LEN = 16"

text \<open>
  \<open>get_field\<close>. The cache is filled from the samples by the callback
  \<open>sample_statistics_cb\<close> of the absent \<open>parser.c\<close>, the parameter
  \<open>sample_statistics\<close>; \<open>snprintf\<close> is a parameter as well.
\<close>

definition oceanic_atom2_parser_get_field ::
  "real \<Rightarrow> real \<Rightarrow> (dc_sample list \<Rightarrow> nat \<times> real) \<Rightarrow> (nat \<Rightarrow> string \<Rightarrow> printf_arg \<Rightarrow> string) \<Rightarrow>
   oceanic_atom2_parser \<Rightarrow> byte list \<Rightarrow> dc_field_type \<Rightarrow> nat \<Rightarrow>
   (dc_status + dc_field_value) \<times> oceanic_atom2_parser" where
  "oceanic_atom2_parser_get_field PSI BAR sample_statistics snprintf parser data type flags =
     (let model = oa_model parser;
          headersize = oa_headersize parser;
          footersize = oa_footersize parser
      in if length data < headersize + footersize then (Inl DC_STATUS_DATAFORMAT, parser)
         else
           (let header = atom2_header parser;
                footer = length data - footersize;
                mode = atom2_mode model data
            in case (if \<not> oa_cached parser then
                       (case oceanic_atom2_parser_samples_foreach PSI BAR parser data of
                          (rc, ss) \<Rightarrow>
                            if rc \<noteq> DC_STATUS_SUCCESS then Inl rc
                            else Inr (parser \<lparr> oa_cached := True,
                                               oa_divetime := fst (sample_statistics ss),
                                               oa_maxdepth := snd (sample_statistics ss) \<rparr>))
                     else Inr parser) of
                 Inl rc \<Rightarrow> (Inl rc, parser)
               | Inr parser' \<Rightarrow>
                   (case type of
                      DC_FIELD_DIVETIME \<Rightarrow>
                        Inr (FieldUInt
                               (if model = F10 \<or> model = F11
                                then bcd2dec (data ! 2) + bcd2dec (data ! 3) * 60 +
                                     bcd2dec (data ! 1) * 3600
                                else oa_divetime parser'))
                    | DC_FIELD_MAXDEPTH \<Rightarrow>
                        Inr (FieldDouble
                               (if model = F10 \<or> model = F11
                                then real (array_uint16_le data 4) / 16 * FEET
                                else real (array_uint16_le data (footer + 4)) / 16 * FEET))
                    | DC_FIELD_GASMIX_COUNT \<Rightarrow>
                        Inr (FieldUInt
                               (if mode = FREEDIVE then 0
                                else if model = DATAMASK \<or> model = COMPUMASK then 1
                                else if model = VT4 \<or> model = VT41 \<or> model = OCI \<or>
                                        model = A300AI then 4
                                else if model = TX1 then 6
                                else if model = A300CS \<or> model = VTX then
                                  (if data ! 0x39 AND 0x04 \<noteq> 0 then 1
                                   else if data ! 0x39 AND 0x08 \<noteq> 0 then 2
                                   else if data ! 0x39 AND 0x10 \<noteq> 0 then 3
                                   else 4)
                                else 3))
                    | DC_FIELD_GASMIX \<Rightarrow>
                        (let oxygens =
                               (if model = DATAMASK \<or> model = COMPUMASK then unat (data ! (header + 3))
                                else if model = OCI then unat (data ! (0x28 + flags))
                                else if model = A300CS \<or> model = VTX then unat (data ! (0x2A + flags))
                                else if model = TX1 then unat (data ! (0x3E + flags))
                                else unat (data ! (header + 4 + flags)));
                             heliums = (if model = TX1 then unat (data ! (0x48 + flags)) else 0);
                             he = real heliums / 100;
                             o2 = (if oxygens \<noteq> 0 then real oxygens / 100 else 0.21)
                         in Inr (FieldGasmix \<lparr> helium = he, oxygen = o2, nitrogen = 1 - o2 - he \<rparr>))
                    | DC_FIELD_SALINITY \<Rightarrow>
                        (if model = A300CS \<or> model = VTX
                         then Inr (FieldSalinity
                                     (if data ! 0x18 AND 0x80 \<noteq> 0 then DC_WATER_FRESH
                                      else DC_WATER_SALT) 0)
                         else Inl DC_STATUS_UNSUPPORTED)
                    | DC_FIELD_DIVEMODE \<Rightarrow>
                        (if mode = NORMAL then Inr (FieldDivemode DC_DIVEMODE_OC)
                         else if mode = GAUGE then Inr (FieldDivemode DC_DIVEMODE_GAUGE)
                         else if mode = FREEDIVE then Inr (FieldDivemode DC_DIVEMODE_FREEDIVE)
                         else Inl DC_STATUS_DATAFORMAT)
                    | DC_FIELD_STRING \<Rightarrow>
                        (if flags = 0
                         then Inr (FieldString ''Serial''
                                     (snprintf atom2_BUF_LEN ''%06u'' (ArgUInt (oa_serial parser'))))
                         else Inl DC_STATUS_UNSUPPORTED)
                    | _ \<Rightarrow> Inl DC_STATUS_UNSUPPORTED,
                    parser')))"

section \<open>Header fields and samples of the Uwatec Memomouse parser\<close>

text \<open>The offset of the end of the header, from the model byte.\<close>

definition memomouse_is_nitrox :: "byte list \<Rightarrow> bool" where
  "memomouse_is_nitrox data \<longleftrightarrow> data ! 3 AND 0xF0 = 0xF0"

definition memomouse_is_oxygen :: "byte list \<Rightarrow> bool" where
  "memomouse_is_oxygen data \<longleftrightarrow> data ! 3 AND 0xF0 = 0xA0"

definition memomouse_header :: "byte list \<Rightarrow> nat" where
  "memomouse_header data =
     22 + (if memomouse_is_nitrox data then 2 else 0) + (if memomouse_is_oxygen data then 3 else 0)"

definition uwatec_memomouse_parser_get_field ::
  "byte list \<Rightarrow> dc_field_type \<Rightarrow> dc_status + dc_field_value" where
  "uwatec_memomouse_parser_get_field data type =
     (if length data < 18 then Inl DC_STATUS_DATAFORMAT
      else
        (let header = memomouse_header data
         in case type of
              DC_FIELD_DIVETIME \<Rightarrow>
                Inr (FieldUInt (((if data ! 4 AND 0x04 \<noteq> 0 then 100 else 0) + bcd2dec (data ! 5)) * 60))
            | DC_FIELD_MAXDEPTH \<Rightarrow>
                Inr (FieldDouble (real (drop_bit 6 (array_uint16_be data 6 AND 0xFFC0)) * 10 / 64))
            | DC_FIELD_GASMIX_COUNT \<Rightarrow> Inr (FieldUInt 1)
            | DC_FIELD_GASMIX \<Rightarrow>
                (let he = 0;
                     o2 = (if length data \<ge> header + 18 then
                             (if memomouse_is_oxygen data then real (unat (data ! (18 + 23))) / 100
                              else if memomouse_is_nitrox data then
                                (if data ! (18 + 23) AND 0x0F \<noteq> 0
                                 then 20 + 2 * real (unat (data ! (18 + 23) AND 0x0F))
                                 else 21) / 100
                              else 0.21)
                           else 0.21)
                 in Inr (FieldGasmix \<lparr> helium = he, oxygen = o2, nitrogen = 1 - o2 - he \<rparr>))
            | DC_FIELD_TEMPERATURE_MINIMUM \<Rightarrow> Inr (FieldDouble (real_of_int (sint (data ! 15)) / 4))
            | _ \<Rightarrow> Inl DC_STATUS_UNSUPPORTED))"

text \<open>The warning events of a sample, for the bits 0 to 5 of \<open>warnings\<close> in order.\<close>

definition memomouse_warnings :: "nat \<Rightarrow> dc_sample list" where
  "memomouse_warnings warnings =
     concat (map (\<lambda>(i, event). if bit warnings i then [DC_SAMPLE_EVENT event 0 0 0] else [])
       [(0, SAMPLE_EVENT_DECOSTOP), (1, SAMPLE_EVENT_RBT), (2, SAMPLE_EVENT_ASCENT),
        (3, SAMPLE_EVENT_CEILING), (4, SAMPLE_EVENT_WORKLOAD), (5, SAMPLE_EVENT_TRANSMITTER)])"

text \<open>
  The sample loop, from \<open>offset\<close> with the running \<open>time\<close>, an \<open>unsigned int\<close> that
  wraps. Every third sample is followed by a byte of decompression information and, for
  the oxygen series, a byte with the oxygen percentage, which are the vendor data.
\<close>

function memomouse_samples :: "bool \<Rightarrow> byte list \<Rightarrow> nat \<Rightarrow> nat \<Rightarrow> dc_status \<times> dc_sample list" where
  "memomouse_samples is_oxygen data time offset =
     (if offset + 2 \<le> length data then
        (let value = array_uint16_be data offset;
             depth = drop_bit 6 (value AND 0xFFC0);
             warnings = value AND 0x3F;
             offset1 = offset + 2;
             ss = [DC_SAMPLE_TIME time, DC_SAMPLE_DEPTH (real depth * 10 / 64)] @
                  memomouse_warnings warnings
         in if time mod 60 = 0 then
              (if offset1 + 1 > length data then (DC_STATUS_DATAFORMAT, ss)
               else if is_oxygen \<and> offset1 + 1 + 1 > length data then (DC_STATUS_DATAFORMAT, ss)
               else
                 (let n = (if is_oxygen then 2 else 1)
                  in case memomouse_samples is_oxygen data ((time + 20) mod 2 ^ 32) (offset1 + n) of
                       (rc, ss') \<Rightarrow>
                         (rc, ss @ [DC_SAMPLE_VENDOR SAMPLE_VENDOR_UWATEC_ALADIN
                                      (take n (drop offset1 data))] @ ss')))
            else
              (case memomouse_samples is_oxygen data ((time + 20) mod 2 ^ 32) offset1 of
                 (rc, ss') \<Rightarrow> (rc, ss @ ss')))
      else (DC_STATUS_SUCCESS, []))"
  by pat_completeness auto
termination
  by (relation "measure (\<lambda>(is_oxygen, data, time, offset). Suc (length data) - offset)") auto

declare memomouse_samples.simps [simp del]

definition uwatec_memomouse_parser_samples_foreach :: "byte list \<Rightarrow> dc_status \<times> dc_sample list" where
  "uwatec_memomouse_parser_samples_foreach data =
     (if length data < 18 then (DC_STATUS_DATAFORMAT, [])
      else memomouse_samples (memomouse_is_oxygen data) data 20 (memomouse_header data + 18))"

section \<open>Oceanic VT Pro parser\<close>

record oceanic_vtpro_parser =
  vp_cached :: bool
  vp_divetime :: nat
  vp_maxdepth :: real

definition oceanic_vtpro_parser_create :: oceanic_vtpro_parser where
  "oceanic_vtpro_parser_create = \<lparr> vp_cached = False, vp_divetime = 0, vp_maxdepth = 0 \<rparr>"

definition oceanic_vtpro_parser_set_data :: "oceanic_vtpro_parser \<Rightarrow> oceanic_vtpro_parser" where
  "oceanic_vtpro_parser_set_data parser =
     parser \<lparr> vp_cached := False, vp_divetime := 0, vp_maxdepth := 0 \<rparr>"

definition oceanic_vtpro_parser_get_datetime :: "byte list \<Rightarrow> dc_status + dc_datetime" where
  "oceanic_vtpro_parser_get_datetime p =
     (if length p < 8 then Inl DC_STATUS_DATAFORMAT
      else
        (let hour = int (bcd2dec (p ! 1 AND 0x7F))
         in Inr \<lparr> year =
                    (if length p < 40 then int (bcd2dec (p ! 4 AND 0x0F)) + 2000
                     else int (bcd2dec (drop_bit 2 (p ! (32 + 3) AND 0xC0) +
                                        drop_bit 4 (p ! (32 + 2) AND 0xF0))) + 2000),
                  month = int (unat (drop_bit 4 (p ! 4 AND 0xF0))),
                  day = int (bcd2dec (p ! 3)),
                  hour = hour mod 12 + (if p ! 1 AND 0x80 \<noteq> 0 then 12 else 0),
                  minute = int (bcd2dec (p ! 0)),
                  second = 0 \<rparr>))"

text \<open>The sample interval in seconds, or 0 for a depth based sample interval.\<close>

definition vtpro_interval :: "byte list \<Rightarrow> nat" where
  "vtpro_interval data =
     (let sel = unat (drop_bit 4 (data ! 0x27) AND 0x07)
      in if sel = 0 then 2 else if sel = 1 then 15 else if sel = 2 then 30
         else if sel = 3 then 60 else 0)"

text \<open>The timestamp of the sample at \<open>offset\<close>, in minutes.\<close>

definition vtpro_timestamp :: "byte list \<Rightarrow> nat \<Rightarrow> nat" where
  "vtpro_timestamp data offset =
     bcd2dec (data ! (offset + 1) AND 0x0F) * 60 + bcd2dec (data ! offset)"

text \<open>
  The inner loop for a depth based sample interval, which counts the samples that
  follow with the timestamp \<open>current\<close>.
\<close>

function vtpro_count :: "byte list \<Rightarrow> nat \<Rightarrow> nat \<Rightarrow> nat \<Rightarrow> nat" where
  "vtpro_count data current count idx =
     (if idx + PAGESIZE div 2 \<le> length data - PAGESIZE then
        (if array_isequal data idx (PAGESIZE div 2) 0x00
         then vtpro_count data current count (idx + PAGESIZE div 2)
         else if vtpro_timestamp data idx \<noteq> current then count
         else vtpro_count data current (count + 1) (idx + PAGESIZE div 2))
      else count)"
  by pat_completeness auto
termination
  by (relation "measure (\<lambda>(data, current, count, idx). Suc (length data) - idx)")
     (auto simp: PAGESIZE_def)

declare vtpro_count.simps [simp del]

record vtpro_locals =
  vt_time :: nat
  vt_timestamp :: nat
  vt_count :: nat
  vt_i :: nat

text \<open>
  The sample loop. The time of a sample with a depth based interval is computed in
  \<open>double\<close> and converted to \<open>unsigned int\<close>, which truncates.
\<close>

function vtpro_samples ::
  "nat \<Rightarrow> byte list \<Rightarrow> vtpro_locals \<Rightarrow> nat \<Rightarrow> dc_status \<times> dc_sample list" where
  "vtpro_samples interval data st offset =
     (if offset + PAGESIZE div 2 \<le> length data - PAGESIZE then
        (if array_isequal data offset (PAGESIZE div 2) 0x00
         then vtpro_samples interval data st (offset + PAGESIZE div 2)
         else
           (let current = vtpro_timestamp data offset
            in if current < vt_timestamp st then (DC_STATUS_DATAFORMAT, [])
               else
                 (let new = (current \<noteq> vt_timestamp st \<or> vt_count st = 0);
                      i = (if new then 0 else vt_i st + 1);
                      count = (if new
                               then (if interval \<noteq> 0 then 60 div interval
                                     else vtpro_count data current 1 (offset + PAGESIZE div 2))
                               else vt_count st)
                  in if interval \<noteq> 0 \<and> current > vt_timestamp st + 1
                     then (DC_STATUS_DATAFORMAT, [])
                     else if interval \<noteq> 0 \<and> i \<ge> count
                     then vtpro_samples interval data (st \<lparr> vt_count := count, vt_i := i \<rparr>)
                            (offset + PAGESIZE div 2)
                     else
                       (let time = (if interval \<noteq> 0 then (vt_time st + interval) mod 2 ^ 32
                                    else nat \<lfloor>real (current * 60) + real (i + 1) * 60 / real count
                                                + 0.5\<rfloor>)
                        in case vtpro_samples interval data
                                  \<lparr> vt_time = time, vt_timestamp = current, vt_count = count,
                                    vt_i = i \<rparr> (offset + PAGESIZE div 2) of
                             (rc, ss) \<Rightarrow>
                               (rc,
                                [DC_SAMPLE_TIME time,
                                 DC_SAMPLE_VENDOR SAMPLE_VENDOR_OCEANIC_VTPRO
                                   (take (PAGESIZE div 2) (drop offset data)),
                                 DC_SAMPLE_DEPTH (real (unat (data ! (offset + 3))) * FEET),
                                 DC_SAMPLE_TEMPERATURE
                                   ((real (unat (data ! (offset + 6))) - 32) * (5 / 9))] @ ss)))))
      else (DC_STATUS_SUCCESS, []))"
  by pat_completeness auto
termination
  by (relation "measure (\<lambda>(interval, data, st, offset). Suc (length data) - offset)")
     (auto simp: PAGESIZE_def)

declare vtpro_samples.simps [simp del]

definition oceanic_vtpro_parser_samples_foreach :: "byte list \<Rightarrow> dc_status \<times> dc_sample list" where
  "oceanic_vtpro_parser_samples_foreach data =
     (if length data < 7 * PAGESIZE div 2 then (DC_STATUS_DATAFORMAT, [])
      else vtpro_samples (vtpro_interval data) data
             \<lparr> vt_time = 0, vt_timestamp = 0, vt_count = 0, vt_i = 0 \<rparr> (5 * PAGESIZE div 2))"

text \<open>
  \<open>get_field\<close> fills its cache from the samples by the callback
  \<open>sample_statistics_cb\<close> of the absent \<open>parser.c\<close>: the dive time and the maximum
  depth that this callback computes from the calls made are the parameter
  \<open>sample_statistics\<close>.
\<close>

definition oceanic_vtpro_parser_get_field ::
  "(dc_sample list \<Rightarrow> nat \<times> real) \<Rightarrow> oceanic_vtpro_parser \<Rightarrow> byte list \<Rightarrow> dc_field_type \<Rightarrow>
   (dc_status + dc_field_value) \<times> oceanic_vtpro_parser" where
  "oceanic_vtpro_parser_get_field sample_statistics parser data type =
     (if length data < 7 * PAGESIZE div 2 then (Inl DC_STATUS_DATAFORMAT, parser)
      else
        (case (if \<not> vp_cached parser then
                 (case oceanic_vtpro_parser_samples_foreach data of
                    (rc, ss) \<Rightarrow>
                      if rc \<noteq> DC_STATUS_SUCCESS then Inl rc
                      else Inr (parser \<lparr> vp_cached := True,
                                         vp_divetime := fst (sample_statistics ss),
                                         vp_maxdepth := snd (sample_statistics ss) \<rparr>))
               else Inr parser) of
           Inl rc \<Rightarrow> (Inl rc, parser)
         | Inr parser' \<Rightarrow>
             (let footer = length data - PAGESIZE
              in (case type of
                    DC_FIELD_DIVETIME \<Rightarrow> Inr (FieldUInt (vp_divetime parser'))
                  | DC_FIELD_MAXDEPTH \<Rightarrow>
                      Inr (FieldDouble
                             (real (unat (data ! footer) +
                                    push_bit 8 (unat (data ! (footer + 1) AND 0x0F))) * FEET))
                  | DC_FIELD_GASMIX_COUNT \<Rightarrow> Inr (FieldUInt 1)
                  | DC_FIELD_GASMIX \<Rightarrow>
                      (let he = 0;
                           o2 = (if data ! (footer + 3) \<noteq> 0
                                 then real (unat (data ! (footer + 3))) / 100 else 0.21)
                       in Inr (FieldGasmix \<lparr> helium = he, oxygen = o2, nitrogen = 1 - o2 - he \<rparr>))
                  | _ \<Rightarrow> Inl DC_STATUS_UNSUPPORTED,
                  parser'))))"

section \<open>Suunto Eon parser\<close>

record suunto_eon_parser =
  eon_spyder :: bool
  eon_cached :: bool
  eon_divetime :: nat
  eon_maxdepth :: "32 word"
  eon_marker :: nat
  eon_nitrox :: bool

definition suunto_eon_parser_create :: "bool \<Rightarrow> suunto_eon_parser" where
  "suunto_eon_parser_create spyder =
     \<lparr> eon_spyder = spyder, eon_cached = False, eon_divetime = 0, eon_maxdepth = 0,
       eon_marker = 0, eon_nitrox = False \<rparr>"

definition suunto_eon_parser_set_data :: "suunto_eon_parser \<Rightarrow> suunto_eon_parser" where
  "suunto_eon_parser_set_data parser =
     parser \<lparr> eon_cached := False, eon_divetime := 0, eon_maxdepth := 0, eon_marker := 0,
              eon_nitrox := False \<rparr>"

text \<open>
  The scan of the samples up to the end marker \<open>0x80\<close>. The depth is an
  \<open>unsigned int\<close> to which the signed delta is added, and wraps. The result is the
  number of depth samples, the maximum depth and the offset at which the scan stops.
\<close>

function suunto_eon_scan ::
  "byte list \<Rightarrow> nat \<Rightarrow> 32 word \<Rightarrow> 32 word \<Rightarrow> nat \<Rightarrow> nat \<times> 32 word \<times> nat" where
  "suunto_eon_scan data nsamples depth maxdepth offset =
     (if offset < length data \<and> data ! offset \<noteq> 0x80 then
        (let v = data ! offset
         in if v < 0x7d \<or> v > 0x82 then
              (let depth' = depth + scast v
               in suunto_eon_scan data (nsamples + 1) depth'
                    (if depth' > maxdepth then depth' else maxdepth) (offset + 1))
            else suunto_eon_scan data nsamples depth maxdepth (offset + 1))
      else (nsamples, maxdepth, offset))"
  by pat_completeness auto
termination
  by (relation "measure (\<lambda>(data, nsamples, depth, maxdepth, offset). length data - offset)") auto

declare suunto_eon_scan.simps [simp del]

definition suunto_eon_parser_cache ::
  "suunto_eon_parser \<Rightarrow> byte list \<Rightarrow> dc_status \<times> suunto_eon_parser" where
  "suunto_eon_parser_cache parser data =
     (if eon_cached parser then (DC_STATUS_SUCCESS, parser)
      else if length data < 13 then (DC_STATUS_DATAFORMAT, parser)
      else
        (let nitrox = (\<not> eon_spyder parser \<and> data ! 4 AND 0x80 \<noteq> 0);
             interval = unat (data ! 3)
         in case suunto_eon_scan data 0 0 0 11 of
              (nsamples, maxdepth, marker) \<Rightarrow>
                if marker + 2 \<ge> length data \<or> data ! marker \<noteq> 0x80
                then (DC_STATUS_DATAFORMAT, parser)
                else (DC_STATUS_SUCCESS,
                      parser \<lparr> eon_divetime := (nsamples * interval) mod 2 ^ 32,
                               eon_maxdepth := maxdepth, eon_marker := marker,
                               eon_nitrox := nitrox, eon_cached := True \<rparr>)))"

definition suunto_eon_parser_get_datetime ::
  "suunto_eon_parser \<Rightarrow> byte list \<Rightarrow> dc_status + dc_datetime" where
  "suunto_eon_parser_get_datetime parser data =
     (if length data < 6 + 5 then Inl DC_STATUS_DATAFORMAT
      else
        (let p = drop 6 data
         in if eon_spyder parser then
              Inr \<lparr> year = int (unat (p ! 0)) + (if unat (p ! 0) < 90 then 2000 else 1900),
                    month = int (unat (p ! 1)),
                    day = int (unat (p ! 2)),
                    hour = int (unat (p ! 3)),
                    minute = int (unat (p ! 4)),
                    second = 0 \<rparr>
            else
              Inr \<lparr> year = int (bcd2dec (p ! 0)) + (if bcd2dec (p ! 0) < 85 then 2000 else 1900),
                    month = int (bcd2dec (p ! 1)),
                    day = int (bcd2dec (p ! 2)),
                    hour = int (bcd2dec (p ! 3)),
                    minute = int (bcd2dec (p ! 4)),
                    second = 0 \<rparr>))"

definition suunto_eon_parser_get_field ::
  "suunto_eon_parser \<Rightarrow> byte list \<Rightarrow> dc_field_type \<Rightarrow>
   (dc_status + dc_field_value) \<times> suunto_eon_parser" where
  "suunto_eon_parser_get_field parser data type =
     (case suunto_eon_parser_cache parser data of
        (rc, parser') \<Rightarrow>
          if rc \<noteq> DC_STATUS_SUCCESS then (Inl rc, parser')
          else
            (let oxygen = (if eon_nitrox parser' then unat (data ! 0x05) else 21);
                 beginpressure = (if eon_nitrox parser' then 0 else unat (data ! 5) * 2);
                 endpressure = (if eon_nitrox parser' then 0
                                else unat (data ! (eon_marker parser' + 2)) * 2)
             in (case type of
                   DC_FIELD_DIVETIME \<Rightarrow> Inr (FieldUInt (eon_divetime parser'))
                 | DC_FIELD_MAXDEPTH \<Rightarrow>
                     Inr (FieldDouble (real (unat (eon_maxdepth parser')) * FEET))
                 | DC_FIELD_GASMIX_COUNT \<Rightarrow> Inr (FieldUInt 1)
                 | DC_FIELD_GASMIX \<Rightarrow>
                     (let he = 0; o2 = real oxygen / 100
                      in Inr (FieldGasmix \<lparr> helium = he, oxygen = o2, nitrogen = 1 - o2 - he \<rparr>))
                 | DC_FIELD_TANK_COUNT \<Rightarrow>
                     Inr (FieldUInt (if beginpressure = 0 \<and> endpressure = 0 then 0 else 1))
                 | DC_FIELD_TANK \<Rightarrow>
                     Inr (FieldTank \<lparr> tank_gasmix = 0, tank_type = DC_TANKVOLUME_NONE,
                                      tank_volume = 0, tank_workpressure = 0,
                                      tank_beginpressure = real beginpressure,
                                      tank_endpressure = real endpressure \<rparr>)
                 | DC_FIELD_TEMPERATURE_MINIMUM \<Rightarrow>
                     Inr (FieldDouble
                            (if eon_spyder parser'
                             then real_of_int (sint (data ! (eon_marker parser' + 1)))
                             else real_of_int (int (unat (data ! (eon_marker parser' + 1))) - 40)))
                 | _ \<Rightarrow> Inl DC_STATUS_UNSUPPORTED,
                 parser')))"

text \<open>The event of an event byte, or \<open>None\<close> for an unknown one.\<close>

definition suunto_eon_event :: "byte \<Rightarrow> sample_event option" where
  "suunto_eon_event v =
     (if v = 0x7d then Some SAMPLE_EVENT_SURFACE
      else if v = 0x7e then Some SAMPLE_EVENT_DECOSTOP
      else if v = 0x7f then Some SAMPLE_EVENT_CEILING
      else if v = 0x81 then Some SAMPLE_EVENT_ASCENT
      else None)"

text \<open>
  The sample loop with the variables \<open>depth\<close>, \<open>time\<close> and \<open>complete\<close>, together
  with the two callbacks that follow it.
\<close>

function suunto_eon_samples ::
  "byte list \<Rightarrow> nat \<Rightarrow> 32 word \<Rightarrow> nat \<Rightarrow> bool \<Rightarrow> nat \<Rightarrow> dc_sample list" where
  "suunto_eon_samples data interval depth time cmpl offset =
     (if offset < length data \<and> data ! offset \<noteq> 0x80 then
        (let v = data ! offset;
             time' = (if cmpl then (time + interval) mod 2 ^ 32 else time);
             s1 = (if cmpl then [DC_SAMPLE_TIME time'] else [])
         in if v < 0x7d \<or> v > 0x82 then
              (let depth' = depth + scast v
               in s1 @ [DC_SAMPLE_DEPTH (real (unat depth') * FEET)] @
                  suunto_eon_samples data interval depth' time' True (offset + 1))
            else
              s1 @
              (case suunto_eon_event v of
                 None \<Rightarrow> []
               | Some event \<Rightarrow> [DC_SAMPLE_EVENT event 0 0 0]) @
              suunto_eon_samples data interval depth time' False (offset + 1))
      else
        (if cmpl then [DC_SAMPLE_TIME ((time + interval) mod 2 ^ 32)] else []) @
        [DC_SAMPLE_DEPTH 0])"
  by pat_completeness auto
termination
  by (relation "measure (\<lambda>(data, interval, depth, time, cmpl, offset). length data - offset)")
     auto

declare suunto_eon_samples.simps [simp del]

definition suunto_eon_parser_samples_foreach ::
  "suunto_eon_parser \<Rightarrow> byte list \<Rightarrow> dc_status \<times> dc_sample list \<times> suunto_eon_parser" where
  "suunto_eon_parser_samples_foreach parser data =
     (case suunto_eon_parser_cache parser data of
        (rc, parser') \<Rightarrow>
          if rc \<noteq> DC_STATUS_SUCCESS then (rc, [], parser')
          else (DC_STATUS_SUCCESS,
                [DC_SAMPLE_TIME 0, DC_SAMPLE_DEPTH 0] @
                suunto_eon_samples data (unat (data ! 3)) 0 0 True 11,
                parser'))"

section \<open>Header fields and samples of the Reefnet Sensus Ultra parser\<close>

text \<open>
  The cache of \<open>get_field\<close>: the scan of the samples up to the footer of four bytes
  \<open>0xFF\<close>, which counts the samples whose depth value is at least the threshold.
\<close>

function reefnet_sensusultra_scan ::
  "byte list \<Rightarrow> nat \<Rightarrow> nat \<Rightarrow> nat \<Rightarrow> nat \<Rightarrow> nat \<times> nat" where
  "reefnet_sensusultra_scan data threshold maxdepth nsamples offset =
     (if offset + 4 \<le> length data \<and> take 4 (drop offset data) \<noteq> [0xFF, 0xFF, 0xFF, 0xFF] then
        (let depth = array_uint16_le data (offset + 2)
         in if depth \<ge> threshold
            then reefnet_sensusultra_scan data threshold
                   (if depth > maxdepth then depth else maxdepth) (nsamples + 1) (offset + 4)
            else reefnet_sensusultra_scan data threshold maxdepth nsamples (offset + 4))
      else (maxdepth, nsamples))"
  by pat_completeness auto
termination
  by (relation "measure (\<lambda>(data, threshold, maxdepth, nsamples, offset).
        Suc (length data) - offset)") auto

declare reefnet_sensusultra_scan.simps [simp del]

text \<open>\<open>BAR\<close> is a constant of the absent \<open>units.h\<close> and is a parameter.\<close>

definition reefnet_sensusultra_parser_get_field ::
  "real \<Rightarrow> reefnet_sensusultra_parser \<Rightarrow> byte list \<Rightarrow> dc_field_type \<Rightarrow>
   (dc_status + dc_field_value) \<times> reefnet_sensusultra_parser" where
  "reefnet_sensusultra_parser_get_field BAR parser data type =
     (if length data < 20 then (Inl DC_STATUS_DATAFORMAT, parser)
      else
        (let parser' =
               (if \<not> rsu_cached parser then
                  (let interval = array_uint16_le data 8;
                       threshold = array_uint16_le data 10
                   in case reefnet_sensusultra_scan data threshold 0 0 16 of
                        (maxdepth, nsamples) \<Rightarrow>
                          parser \<lparr> rsu_cached := True,
                                   rsu_divetime := (nsamples * interval) mod 2 ^ 32,
                                   rsu_maxdepth := maxdepth \<rparr>)
                else parser)
         in (case type of
               DC_FIELD_DIVETIME \<Rightarrow> Inr (FieldUInt (rsu_divetime parser'))
             | DC_FIELD_MAXDEPTH \<Rightarrow>
                 Inr (FieldDouble ((real (rsu_maxdepth parser') * BAR / 1000 - rsu_atmospheric parser')
                                   / rsu_hydrostatic parser'))
             | DC_FIELD_GASMIX_COUNT \<Rightarrow> Inr (FieldUInt 0)
             | DC_FIELD_DIVEMODE \<Rightarrow> Inr (FieldDivemode DC_DIVEMODE_GAUGE)
             | _ \<Rightarrow> Inl DC_STATUS_UNSUPPORTED,
             parser')))"

function reefnet_sensusultra_samples ::
  "real \<Rightarrow> reefnet_sensusultra_parser \<Rightarrow> byte list \<Rightarrow> nat \<Rightarrow> nat \<Rightarrow> nat \<Rightarrow> dc_sample list" where
  "reefnet_sensusultra_samples BAR parser data interval time offset =
     (if offset + 4 \<le> length data \<and> take 4 (drop offset data) \<noteq> [0xFF, 0xFF, 0xFF, 0xFF] then
        (let time' = (time + interval) mod 2 ^ 32;
             temperature = array_uint16_le data offset;
             depth = array_uint16_le data (offset + 2)
         in [DC_SAMPLE_TIME time',
             DC_SAMPLE_TEMPERATURE (real temperature / 100 - 273.15),
             DC_SAMPLE_DEPTH ((real depth * BAR / 1000 - rsu_atmospheric parser)
                              / rsu_hydrostatic parser)] @
            reefnet_sensusultra_samples BAR parser data interval time' (offset + 4))
      else [])"
  by pat_completeness auto
termination
  by (relation "measure (\<lambda>(BAR, parser, data, interval, time, offset).
        Suc (length data) - offset)") auto

declare reefnet_sensusultra_samples.simps [simp del]

text \<open>The outer loop, which looks for the header of four zero bytes.\<close>

function reefnet_sensusultra_find ::
  "real \<Rightarrow> reefnet_sensusultra_parser \<Rightarrow> byte list \<Rightarrow> nat \<Rightarrow> dc_status \<times> dc_sample list" where
  "reefnet_sensusultra_find BAR parser data offset =
     (if offset + 4 \<le> length data then
        (if take 4 (drop offset data) = [0x00, 0x00, 0x00, 0x00] then
           (if offset + 16 > length data then (DC_STATUS_DATAFORMAT, [])
            else (DC_STATUS_SUCCESS,
                  reefnet_sensusultra_samples BAR parser data (array_uint16_le data (offset + 8)) 0
                    (offset + 16)))
         else reefnet_sensusultra_find BAR parser data (offset + 1))
      else (DC_STATUS_SUCCESS, []))"
  by pat_completeness auto
termination
  by (relation "measure (\<lambda>(BAR, parser, data, offset). Suc (length data) - offset)") auto

declare reefnet_sensusultra_find.simps [simp del]

definition reefnet_sensusultra_parser_samples_foreach ::
  "real \<Rightarrow> reefnet_sensusultra_parser \<Rightarrow> byte list \<Rightarrow> dc_status \<times> dc_sample list" where
  "reefnet_sensusultra_parser_samples_foreach BAR parser data =
     reefnet_sensusultra_find BAR parser data 0"

section \<open>Date and time of the Suunto EON Steel parser\<close>

text \<open>
  \<open>get_datetime\<close> does not look at the result of \<open>dc_datetime_gmtime\<close>: when the
  conversion fails the caller's \<open>datetime\<close> is left as it was.
\<close>

definition suunto_eonsteel_parser_get_datetime ::
  "(int \<Rightarrow> dc_datetime option) \<Rightarrow> byte list \<Rightarrow> dc_datetime \<Rightarrow> dc_status + dc_datetime" where
  "suunto_eonsteel_parser_get_datetime dc_datetime_gmtime data datetime =
     (if length data < 4 then Inl DC_STATUS_UNSUPPORTED
      else case dc_datetime_gmtime (int (array_uint32_le data 0)) of
             None \<Rightarrow> Inr datetime
           | Some datetime' \<Rightarrow> Inr datetime')"

text \<open>
  A VT Pro blob: a header of 40 bytes whose sample interval field selects 2 seconds, two
  samples of 8 bytes with the depths 10 and 20 feet, and the footer of 16 bytes.
\<close>

definition vtpro_example_blob :: "byte list" where
  "vtpro_example_blob =
     replicate 40 0 @
     [0x00, 0x00, 0x00, 0x0A, 0x00, 0x00, 0x50, 0x00] @
     [0x00, 0x00, 0x00, 0x14, 0x00, 0x00, 0x50, 0x00] @
     replicate 16 0"

section \<open>Cressi Leonardo: header scenario\<close>

text \<open>
  Claim C9. On a blob of at least 82 bytes whose header holds 0x003C (little endian) at
  offset 0x06, 0x28 at 0x19, 0x0064 at 0x20, 0x14 at 0x22 and 0x18, 0x03, 0x0F, 0x0A, 0x1E
  at offsets 8 to 12, the Cressi Leonardo parser reports a dive time of 1200 seconds, a
  maximum depth of 10.0 m, the gas mix O2 0.40, He 0, N2 0.60, a minimum temperature of
  20 degrees Celsius, and the date and time 2024-03-15 10:30:00.
\<close>

theorem cressi_leonardo_header_scenario:
  assumes "82 \<le> length data"
    and "data ! 6 = 0x3C" and "data ! 7 = 0x00"
    and "data ! 0x19 = 0x28"
    and "data ! 0x20 = 0x64" and "data ! 0x21 = 0x00"
    and "data ! 0x22 = 0x14"
    and "data ! 8 = 0x18" and "data ! 9 = 0x03" and "data ! 10 = 0x0F"
    and "data ! 11 = 0x0A" and "data ! 12 = 0x1E"
  shows "cressi_leonardo_parser_get_field data DC_FIELD_DIVETIME = Inr (FieldUInt 1200)
    \<and> cressi_leonardo_parser_get_field data DC_FIELD_MAXDEPTH = Inr (FieldDouble 10)
    \<and> cressi_leonardo_parser_get_field data DC_FIELD_GASMIX =
        Inr (FieldGasmix \<lparr> helium = 0, oxygen = 0.40, nitrogen = 0.60 \<rparr>)
    \<and> cressi_leonardo_parser_get_field data DC_FIELD_TEMPERATURE_MINIMUM = Inr (FieldDouble 20)
    \<and> cressi_leonardo_parser_get_datetime data =
        Inr \<lparr> year = 2024, month = 3, day = 15, hour = 10, minute = 30, second = 0 \<rparr>"
proof -
  have t: "array_uint16_le data 0x06 = 60"
    using assms(2,3) by (simp add: array_uint16_le_def)
  have d: "array_uint16_le data 0x20 = 100"
    using assms(5,6) by (simp add: array_uint16_le_def)
  have sz: "\<not> length data < cressi_SZ_HEADER"
    using assms(1) by (simp add: cressi_SZ_HEADER_def)
  have f1: "cressi_leonardo_parser_get_field data DC_FIELD_DIVETIME = Inr (FieldUInt 1200)"
    using sz t by (simp add: cressi_leonardo_parser_get_field_def)
  have f2: "cressi_leonardo_parser_get_field data DC_FIELD_MAXDEPTH = Inr (FieldDouble 10)"
    using sz d by (simp add: cressi_leonardo_parser_get_field_def)
  have f3: "cressi_leonardo_parser_get_field data DC_FIELD_GASMIX =
      Inr (FieldGasmix \<lparr> helium = 0, oxygen = 0.40, nitrogen = 0.60 \<rparr>)"
    using sz assms(4) by (simp add: cressi_leonardo_parser_get_field_def)
  have f4: "cressi_leonardo_parser_get_field data DC_FIELD_TEMPERATURE_MINIMUM = Inr (FieldDouble 20)"
    using sz assms(7) by (simp add: cressi_leonardo_parser_get_field_def)
  have f5: "cressi_leonardo_parser_get_datetime data =
      Inr \<lparr> year = 2024, month = 3, day = 15, hour = 10, minute = 30, second = 0 \<rparr>"
    using sz assms(8-12) by (simp add: cressi_leonardo_parser_get_datetime_def)
  from f1 f2 f3 f4 f5 show ?thesis by simp
qed

theorem cressi_leonardo_header_scenario_witness:
  "length cressi_example_header = 82
    \<and> cressi_leonardo_parser_get_field cressi_example_header DC_FIELD_DIVETIME = Inr (FieldUInt 1200)
    \<and> cressi_leonardo_parser_get_field cressi_example_header DC_FIELD_MAXDEPTH = Inr (FieldDouble 10)
    \<and> cressi_leonardo_parser_get_field cressi_example_header DC_FIELD_GASMIX =
        Inr (FieldGasmix \<lparr> helium = 0, oxygen = 0.40, nitrogen = 0.60 \<rparr>)
    \<and> cressi_leonardo_parser_get_field cressi_example_header DC_FIELD_TEMPERATURE_MINIMUM =
        Inr (FieldDouble 20)
    \<and> cressi_leonardo_parser_get_datetime cressi_example_header =
        Inr \<lparr> year = 2024, month = 3, day = 15, hour = 10, minute = 30, second = 0 \<rparr>"
proof -
  have len: "length cressi_example_header = 82"
    by (simp add: cressi_example_header_def)
  have b: "cressi_example_header ! 6 = 0x3C" "cressi_example_header ! 7 = 0x00"
    "cressi_example_header ! 0x19 = 0x28"
    "cressi_example_header ! 0x20 = 0x64" "cressi_example_header ! 0x21 = 0x00"
    "cressi_example_header ! 0x22 = 0x14"
    "cressi_example_header ! 8 = 0x18" "cressi_example_header ! 9 = 0x03"
    "cressi_example_header ! 10 = 0x0F" "cressi_example_header ! 11 = 0x0A"
    "cressi_example_header ! 12 = 0x1E"
    by (simp_all add: cressi_example_header_def nth_append)
  have le: "82 \<le> length cressi_example_header"
    using len by simp
  show ?thesis
    using len cressi_leonardo_header_scenario [OF le b] by simp
qed

section \<open>Sample times\<close>

lemma sample_times_append: "sample_times (a @ b) = sample_times a @ sample_times b"
  by (simp add: sample_times_def)

lemma sample_times_Nil: "sample_times [] = []"
  by (simp add: sample_times_def)

lemma cressi_leonardo_samples_times:
  "offset + 2 \<le> length data \<Longrightarrow>
     sample_times (cressi_leonardo_samples data time offset) =
       ((time + 20) mod 2 ^ 32) #
       sample_times (cressi_leonardo_samples data ((time + 20) mod 2 ^ 32) (offset + 2))"
  by (subst cressi_leonardo_samples.simps) (simp add: Let_def sample_times_def)

lemma cressi_leonardo_samples_end:
  "\<not> offset + 2 \<le> length data \<Longrightarrow> cressi_leonardo_samples data time offset = []"
  by (subst cressi_leonardo_samples.simps) simp

lemma cressi_leonardo_samples_last_time:
  "offset + 2 \<le> length data \<Longrightarrow>
     last (sample_times (cressi_leonardo_samples data time offset)) =
       (time + 20 * ((length data - offset) div 2)) mod 2 ^ 32"
proof (induction data time offset rule: cressi_leonardo_samples.induct)
  case (1 data time offset)
  define time' where "time' = (time + 20) mod 2 ^ 32"
  note unfold = cressi_leonardo_samples_times [OF "1.prems", of time, folded time'_def]
  show ?case
  proof (cases "offset + 2 + 2 \<le> length data")
    case True
    have ih: "last (sample_times (cressi_leonardo_samples data time' (offset + 2))) =
       (time' + 20 * ((length data - (offset + 2)) div 2)) mod 2 ^ 32"
      unfolding time'_def using "1.IH" [OF "1.prems" refl refl refl refl True] .
    have ne: "sample_times (cressi_leonardo_samples data time' (offset + 2)) \<noteq> []"
      using cressi_leonardo_samples_times [OF True, of time'] by simp
    have d: "(time' + 20 * ((length data - (offset + 2)) div 2)) mod 2 ^ 32 =
        (time + 20 * ((length data - offset) div 2)) mod 2 ^ 32"
    proof -
      have "length data - offset = (length data - (offset + 2)) + 2"
        using True by simp
      then have "(length data - offset) div 2 = ((length data - (offset + 2)) + 2) div 2"
        by (simp only:)
      also have "\<dots> = Suc ((length data - (offset + 2)) div 2)"
        by simp
      finally have e: "time + 20 * ((length data - offset) div 2) =
          (time + 20) + 20 * ((length data - (offset + 2)) div 2)"
        by simp
      show ?thesis
        unfolding e time'_def by (rule mod_add_left_eq)
    qed
    have "last (sample_times (cressi_leonardo_samples data time offset)) =
        last (sample_times (cressi_leonardo_samples data time' (offset + 2)))"
      using ne by (simp only: unfold last.simps if_False)
    with ih d show ?thesis by (simp only:)
  next
    case False
    then have e: "cressi_leonardo_samples data time' (offset + 2) = []"
      by (rule cressi_leonardo_samples_end)
    from False "1.prems" have "length data - offset = 2 \<or> length data - offset = 3"
      by linarith
    then have d: "(length data - offset) div 2 = 1"
      by auto
    have "last (sample_times (cressi_leonardo_samples data time offset)) = time'"
      unfolding unfold e by (simp add: sample_times_Nil)
    with d show ?thesis by (simp add: time'_def)
  qed
qed


section \<open>DiveSystem iDive: timestamps\<close>

lemma idive_gaschange_status:
  "idive_gaschange st o2 he = Inl rc \<Longrightarrow> rc = DC_STATUS_DATAFORMAT"
  by (auto simp: idive_gaschange_def Let_def split: if_splits)

lemma idive_gaschange_time:
  "idive_gaschange st o2 he = Inr (ss, st') \<Longrightarrow> l_time st' = l_time st \<and> sample_times ss = []"
  by (auto simp: idive_gaschange_def Let_def sample_times_def split: if_splits)

lemma idive_sample_status:
  "idive_sample data st off = (ss, Inl rc) \<Longrightarrow> rc = DC_STATUS_DATAFORMAT"
  by (auto simp: idive_sample_def Let_def split: if_splits sum.splits dest: idive_gaschange_status)

lemma idive_sample_time:
  "idive_sample data st off = (ss, Inr st') \<Longrightarrow>
     l_time st' = array_uint32_le data (off + 2) \<and> l_time st < l_time st' \<and>
     sample_times ss = [array_uint32_le data (off + 2)]"
  by (auto simp: idive_sample_def Let_def sample_times_def split: if_splits sum.splits prod.splits dest!: idive_gaschange_time)

lemma idive_sample_backwards:
  "array_uint32_le data (off + 2) \<le> l_time st \<Longrightarrow>
     idive_sample data st off = ([], Inl DC_STATUS_DATAFORMAT)"
  by (simp add: idive_sample_def)

lemma idive_samples_status:
  "fst (idive_samples data st off) = DC_STATUS_SUCCESS \<or>
   fst (idive_samples data st off) = DC_STATUS_DATAFORMAT"
proof (induction data st off rule: idive_samples.induct)
  case (1 data st offset)
  show ?case
  proof (cases "offset + idive_SZ_SAMPLE \<le> length data")
    case False
    then show ?thesis by (simp add: idive_samples.simps)
  next
    case True
    obtain ss r where s: "idive_sample data st offset = (ss, r)" by (cases "idive_sample data st offset")
    show ?thesis
    proof (cases r)
      case (Inl rc)
      with s have "rc = DC_STATUS_DATAFORMAT" by (auto dest: idive_sample_status)
      with True s Inl show ?thesis by (simp add: idive_samples.simps [of data st offset])
    next
      case (Inr st')
      from "1.IH" [OF True s [symmetric] Inr] True s Inr show ?thesis
        by (auto simp: idive_samples.simps [of data st offset] split: prod.splits)
    qed
  qed
qed


lemma idive_samples_err:
  "off + idive_SZ_SAMPLE \<le> length data \<Longrightarrow> idive_sample data st off = (ss, Inl rc) \<Longrightarrow>
     idive_samples data st off = (rc, ss, st)"
  by (simp add: idive_samples.simps [of data st off])

lemma idive_samples_ok:
  "off + idive_SZ_SAMPLE \<le> length data \<Longrightarrow> idive_sample data st off = (ss, Inr st') \<Longrightarrow>
     idive_samples data st off =
       (case idive_samples data st' (off + idive_SZ_SAMPLE) of (rc, ss', st'') \<Rightarrow> (rc, ss @ ss', st''))"
  by (simp add: idive_samples.simps [of data st off])

lemma idive_samples_end:
  "\<not> off + idive_SZ_SAMPLE \<le> length data \<Longrightarrow> idive_samples data st off = (DC_STATUS_SUCCESS, [], st)"
  by (simp add: idive_samples.simps [of data st off])

lemma idive_samples_not_increasing:
  assumes "off + (k + 2) * idive_SZ_SAMPLE \<le> length data"
    and "array_uint32_le data (off + (k + 1) * idive_SZ_SAMPLE + 2)
          \<le> array_uint32_le data (off + k * idive_SZ_SAMPLE + 2)"
  shows "fst (idive_samples data st off) = DC_STATUS_DATAFORMAT"
  using assms
proof (induction k arbitrary: st off)
  case 0
  then have len1: "off + idive_SZ_SAMPLE \<le> length data"
    and len2: "off + idive_SZ_SAMPLE + idive_SZ_SAMPLE \<le> length data"
    by simp_all
  obtain ss r where s: "idive_sample data st off = (ss, r)"
    by (cases "idive_sample data st off")
  show ?case
  proof (cases r)
    case (Inl rc)
    with s have "rc = DC_STATUS_DATAFORMAT" by (auto dest: idive_sample_status)
    with len1 s Inl show ?thesis by (simp add: idive_samples_err)
  next
    case (Inr st')
    with s have t: "l_time st' = array_uint32_le data (off + 2)"
      by (auto dest: idive_sample_time)
    from "0.prems"(2) t have "array_uint32_le data (off + idive_SZ_SAMPLE + 2) \<le> l_time st'"
      by simp
    then have "idive_sample data st' (off + idive_SZ_SAMPLE) = ([], Inl DC_STATUS_DATAFORMAT)"
      by (rule idive_sample_backwards)
    with len2 have "idive_samples data st' (off + idive_SZ_SAMPLE) = (DC_STATUS_DATAFORMAT, [], st')"
      by (simp add: idive_samples_err)
    with len1 s Inr show ?thesis by (simp add: idive_samples_ok)
  qed
next
  case (Suc k)
  then have len1: "off + idive_SZ_SAMPLE \<le> length data"
    by simp
  obtain ss r where s: "idive_sample data st off = (ss, r)"
    by (cases "idive_sample data st off")
  show ?case
  proof (cases r)
    case (Inl rc)
    with s have "rc = DC_STATUS_DATAFORMAT" by (auto dest: idive_sample_status)
    with len1 s Inl show ?thesis by (simp add: idive_samples_err)
  next
    case (Inr st')
    have "fst (idive_samples data st' (off + idive_SZ_SAMPLE)) = DC_STATUS_DATAFORMAT"
    proof (rule Suc.IH)
      show "off + idive_SZ_SAMPLE + (k + 2) * idive_SZ_SAMPLE \<le> length data"
        using Suc.prems(1) by (simp add: algebra_simps)
      show "array_uint32_le data (off + idive_SZ_SAMPLE + (k + 1) * idive_SZ_SAMPLE + 2)
          \<le> array_uint32_le data (off + idive_SZ_SAMPLE + k * idive_SZ_SAMPLE + 2)"
        using Suc.prems(2) by (simp add: algebra_simps)
    qed
    with len1 s Inr show ?thesis
      by (cases "idive_samples data st' (off + idive_SZ_SAMPLE)") (simp add: idive_samples_ok)
  qed
qed

lemma idive_foreach_failed:
  "fst (idive_samples data idive_locals_init idive_SZ_HEADER) = DC_STATUS_DATAFORMAT \<Longrightarrow>
   fst (divesystem_idive_parser_samples_foreach parser data) = DC_STATUS_DATAFORMAT \<and>
   snd (snd (divesystem_idive_parser_samples_foreach parser data)) = parser"
  by (cases "idive_samples data idive_locals_init idive_SZ_HEADER")
     (simp add: divesystem_idive_parser_samples_foreach_def)

text \<open>
  Claim C6. An iDive blob in which a sample record with timestamp 10 seconds is followed
  by a sample record with timestamp 9 seconds makes \<open>samples_foreach\<close> return
  \<open>DC_STATUS_DATAFORMAT\<close>, whatever the other bytes are.
\<close>

theorem idive_timestamps_10_then_9:
  assumes "idive_SZ_HEADER + (k + 2) * idive_SZ_SAMPLE \<le> length data"
    and "idive_timestamp data k = 10"
    and "idive_timestamp data (k + 1) = 9"
  shows "fst (divesystem_idive_parser_samples_foreach parser data) = DC_STATUS_DATAFORMAT"
proof -
  have "array_uint32_le data (idive_SZ_HEADER + (k + 1) * idive_SZ_SAMPLE + 2)
      \<le> array_uint32_le data (idive_SZ_HEADER + k * idive_SZ_SAMPLE + 2)"
    using assms(2,3) by (simp add: idive_timestamp_def)
  with assms(1) have "fst (idive_samples data idive_locals_init idive_SZ_HEADER) = DC_STATUS_DATAFORMAT"
    by (rule idive_samples_not_increasing)
  then show ?thesis by (simp add: idive_foreach_failed)
qed

lemma idive_example_sample_length: "length (idive_example_sample t) = 42"
  by (simp add: idive_example_sample_def)

theorem idive_timestamps_10_then_9_witness:
  "idive_SZ_HEADER + (0 + 2) * idive_SZ_SAMPLE \<le> length (idive_example_blob 10 9)
   \<and> idive_timestamp (idive_example_blob 10 9) 0 = 10
   \<and> idive_timestamp (idive_example_blob 10 9) (0 + 1) = 9
   \<and> fst (divesystem_idive_parser_samples_foreach divesystem_idive_parser_create
          (idive_example_blob 10 9)) = DC_STATUS_DATAFORMAT"
proof -
  have len: "idive_SZ_HEADER + (0 + 2) * idive_SZ_SAMPLE \<le> length (idive_example_blob 10 9)"
    by (simp add: idive_example_blob_def idive_example_sample_length idive_SZ_HEADER_def idive_SZ_SAMPLE_def)
  have t0: "idive_timestamp (idive_example_blob 10 9) 0 = 10"
    by (simp add: idive_timestamp_def idive_example_blob_def idive_example_sample_def
        idive_SZ_HEADER_def idive_SZ_SAMPLE_def array_uint32_le_def nth_append)
  have t1: "idive_timestamp (idive_example_blob 10 9) (0 + 1) = 9"
    by (simp add: idive_timestamp_def idive_example_blob_def idive_example_sample_def
        idive_SZ_HEADER_def idive_SZ_SAMPLE_def array_uint32_le_def nth_append)
  from idive_timestamps_10_then_9 [OF len t0 t1] len t0 t1 show ?thesis
    by simp
qed

text \<open>
  Claim C10. The iDive \<open>samples_foreach\<close> demands strictly increasing timestamps: when
  two consecutive sample records carry equal timestamps, or the first sample record
  carries the timestamp 0, it returns \<open>DC_STATUS_DATAFORMAT\<close> and leaves the parser as
  it was, so that a cache that was not populated (as after \<open>set_data\<close>) stays so.
\<close>

theorem idive_strictly_increasing:
  assumes "(idive_SZ_HEADER + (k + 2) * idive_SZ_SAMPLE \<le> length data
            \<and> idive_timestamp data (k + 1) = idive_timestamp data k)
         \<or> (idive_SZ_HEADER + idive_SZ_SAMPLE \<le> length data \<and> idive_timestamp data 0 = 0)"
  shows "fst (divesystem_idive_parser_samples_foreach parser data) = DC_STATUS_DATAFORMAT
       \<and> snd (snd (divesystem_idive_parser_samples_foreach parser data)) = parser
       \<and> \<not> idive_cached (snd (snd (divesystem_idive_parser_samples_foreach
                (divesystem_idive_parser_set_data parser) data)))"
proof -
  have "fst (idive_samples data idive_locals_init idive_SZ_HEADER) = DC_STATUS_DATAFORMAT"
    using assms
  proof
    assume a: "idive_SZ_HEADER + (k + 2) * idive_SZ_SAMPLE \<le> length data
            \<and> idive_timestamp data (k + 1) = idive_timestamp data k"
    then have "array_uint32_le data (idive_SZ_HEADER + (k + 1) * idive_SZ_SAMPLE + 2)
      \<le> array_uint32_le data (idive_SZ_HEADER + k * idive_SZ_SAMPLE + 2)"
      by (simp add: idive_timestamp_def)
    with a show ?thesis by (auto intro: idive_samples_not_increasing)
  next
    assume a: "idive_SZ_HEADER + idive_SZ_SAMPLE \<le> length data \<and> idive_timestamp data 0 = 0"
    then have "array_uint32_le data (idive_SZ_HEADER + 2) \<le> l_time idive_locals_init"
      by (simp add: idive_timestamp_def)
    then have "idive_sample data idive_locals_init idive_SZ_HEADER = ([], Inl DC_STATUS_DATAFORMAT)"
      by (rule idive_sample_backwards)
    with a show ?thesis by (simp add: idive_samples_err)
  qed
  then have "\<And>p. fst (divesystem_idive_parser_samples_foreach p data) = DC_STATUS_DATAFORMAT \<and>
       snd (snd (divesystem_idive_parser_samples_foreach p data)) = p"
    by (rule idive_foreach_failed)
  then show ?thesis by (simp add: divesystem_idive_parser_set_data_def)
qed


theorem idive_strictly_increasing_witness:
  "idive_SZ_HEADER + (0 + 2) * idive_SZ_SAMPLE \<le> length (idive_example_blob 7 7)
   \<and> idive_timestamp (idive_example_blob 7 7) (0 + 1) = idive_timestamp (idive_example_blob 7 7) 0
   \<and> fst (divesystem_idive_parser_samples_foreach divesystem_idive_parser_create
          (idive_example_blob 7 7)) = DC_STATUS_DATAFORMAT
   \<and> snd (snd (divesystem_idive_parser_samples_foreach divesystem_idive_parser_create
          (idive_example_blob 7 7))) = divesystem_idive_parser_create
   \<and> \<not> idive_cached (snd (snd (divesystem_idive_parser_samples_foreach
          (divesystem_idive_parser_set_data divesystem_idive_parser_create) (idive_example_blob 7 7))))"
proof -
  have len: "idive_SZ_HEADER + (0 + 2) * idive_SZ_SAMPLE \<le> length (idive_example_blob 7 7)"
    by (simp add: idive_example_blob_def idive_example_sample_length idive_SZ_HEADER_def idive_SZ_SAMPLE_def)
  have t: "idive_timestamp (idive_example_blob 7 7) (0 + 1) = idive_timestamp (idive_example_blob 7 7) 0"
    by (simp add: idive_timestamp_def idive_example_blob_def idive_example_sample_def
        idive_SZ_HEADER_def idive_SZ_SAMPLE_def array_uint32_le_def nth_append)
  from len t have h: "(idive_SZ_HEADER + (0 + 2) * idive_SZ_SAMPLE \<le> length (idive_example_blob 7 7)
            \<and> idive_timestamp (idive_example_blob 7 7) (0 + 1) = idive_timestamp (idive_example_blob 7 7) 0)
         \<or> (idive_SZ_HEADER + idive_SZ_SAMPLE \<le> length (idive_example_blob 7 7)
            \<and> idive_timestamp (idive_example_blob 7 7) 0 = 0)"
    by simp
  from idive_strictly_increasing [OF h, of divesystem_idive_parser_create] len t show ?thesis
    by simp
qed

section \<open>Shearwater Petrel: imperial depth\<close>

lemma shearwater_sample_depth:
  "DC_SAMPLE_DEPTH (if units = IMPERIAL then real (array_uint16_be data offset) * FEET / 10
                    else real (array_uint16_be data offset) / 10)
     \<in> set (fst (shearwater_sample petrel units data st offset))"
  by (simp add: shearwater_sample_def Let_def)

lemma shearwater_samples_depth:
  assumes "offset \<le> off" and "shearwater_samplesize petrel dvd off - offset"
    and "off < footer"
    and "\<not> array_isequal data off (shearwater_samplesize petrel) 0x00"
  shows "DC_SAMPLE_DEPTH (if units = IMPERIAL then real (array_uint16_be data off) * FEET / 10
                          else real (array_uint16_be data off) / 10)
     \<in> set (shearwater_samples petrel units data footer st offset)"
  using assms
proof (induction petrel units data footer st offset rule: shearwater_samples.induct)
  case (1 petrel units data footer st offset)
  let ?n = "shearwater_samplesize petrel"
  let ?d = "DC_SAMPLE_DEPTH (if units = IMPERIAL then real (array_uint16_be data off) * FEET / 10
                          else real (array_uint16_be data off) / 10)"
  from "1.prems" have lt: "offset < footer" by simp
  show ?case
  proof (cases "offset = off")
    case True
    with "1.prems"(4) have ne: "\<not> array_isequal data offset ?n 0x00" by simp
    obtain ss st' where s: "shearwater_sample petrel units data st offset = (ss, st')"
      by (cases "shearwater_sample petrel units data st offset")
    have "?d \<in> set ss"
      using shearwater_sample_depth [of units data offset petrel st] s True by auto
    with lt ne s show ?thesis
      by (subst shearwater_samples.simps) simp
  next
    case False
    with "1.prems"(1) have less: "offset < off" by simp
    from "1.prems"(2) obtain k where k: "off - offset = ?n * k" by (auto simp: dvd_def)
    with less have "k \<noteq> 0" by (cases k) auto
    then obtain k' where k': "k = Suc k'" by (cases k) auto
    with k have e: "off - offset = ?n + ?n * k'" by simp
    with less have le: "offset + ?n \<le> off" by linarith
    from e less have "off - (offset + ?n) = ?n * k'" by linarith
    then have dv: "?n dvd off - (offset + ?n)" by simp
    show ?thesis
    proof (cases "array_isequal data offset ?n 0x00")
      case True
      have "?d \<in> set (shearwater_samples petrel units data footer st (offset + ?n))"
        by (rule "1.IH"(1) [OF lt True le dv "1.prems"(3,4)])
      with lt True show ?thesis
        by (subst shearwater_samples.simps) simp
    next
      case ne: False
      obtain ss st' where s: "shearwater_sample petrel units data st offset = (ss, st')"
        by (cases "shearwater_sample petrel units data st offset")
      have "?d \<in> set (shearwater_samples petrel units data footer st' (offset + ?n))"
        by (rule "1.IH"(2) [OF lt ne s [symmetric] le dv "1.prems"(3,4)])
      with lt ne s show ?thesis
        by (subst shearwater_samples.simps) simp
    qed
  qed
qed

text \<open>
  Claim C1, amended. For a Petrel parser and a blob of at least three blocks whose
  unit-system byte at offset 8 selects IMPERIAL, every non-empty sample record before
  the footer whose 16-bit big-endian depth field holds 100 makes \<open>samples_foreach\<close>
  emit a DEPTH sample of 100 * 0.3048 / 10 = 3.048 m: the field counts tenths of a foot.
\<close>

theorem petrel_imperial_depth:
  assumes "sw_petrel parser"
    and "3 * SZ_BLOCK \<le> length data"
    and "unat (data ! 8) = IMPERIAL"
    and "off = SZ_BLOCK + k * SZ_SAMPLE_PETREL"
    and "off < length data - 2 * SZ_BLOCK"
    and "\<not> array_isequal data off SZ_SAMPLE_PETREL 0x00"
    and "array_uint16_be data off = 100"
  shows "fst (shearwater_predator_parser_samples_foreach parser data) = DC_STATUS_SUCCESS
       \<and> DC_SAMPLE_DEPTH (100 * FEET / 10)
            \<in> set (snd (shearwater_predator_parser_samples_foreach parser data))
       \<and> 100 * FEET / 10 = 3.048"
proof -
  have n: "shearwater_samplesize (sw_petrel parser) = SZ_SAMPLE_PETREL"
    using assms(1) by (simp add: shearwater_samplesize_def)
  have r: "shearwater_predator_parser_samples_foreach parser data =
      (DC_STATUS_SUCCESS,
       shearwater_samples True IMPERIAL data (length data - SZ_BLOCK - SZ_BLOCK)
         \<lparr> sw_time = 0, sw_o2_previous = 0, sw_he_previous = 0 \<rparr> SZ_BLOCK)"
    using assms(1,2,3) by (simp add: shearwater_predator_parser_samples_foreach_def)
  have "DC_SAMPLE_DEPTH (if IMPERIAL = IMPERIAL then real (array_uint16_be data off) * FEET / 10
                          else real (array_uint16_be data off) / 10)
     \<in> set (shearwater_samples True IMPERIAL data (length data - SZ_BLOCK - SZ_BLOCK)
         \<lparr> sw_time = 0, sw_o2_previous = 0, sw_he_previous = 0 \<rparr> SZ_BLOCK)"
  proof (rule shearwater_samples_depth)
    show "SZ_BLOCK \<le> off" using assms(4) by simp
    show "shearwater_samplesize True dvd off - SZ_BLOCK"
      using assms(4) by (simp add: shearwater_samplesize_def)
    show "off < length data - SZ_BLOCK - SZ_BLOCK" using assms(5) by simp
    show "\<not> array_isequal data off (shearwater_samplesize True) 0x00"
      using assms(6) by (simp add: shearwater_samplesize_def)
  qed
  with assms(7) r show ?thesis by (simp add: FEET_def)
qed

lemma petrel_example_run:
  "shearwater_predator_parser_samples_foreach (shearwater_petrel_parser_create 0) petrel_example_blob =
     (DC_STATUS_SUCCESS,
      [DC_SAMPLE_TIME 10, DC_SAMPLE_DEPTH 3.048, DC_SAMPLE_TEMPERATURE 20, DC_SAMPLE_PPO2 0.98,
       DC_SAMPLE_CNS 0, DC_SAMPLE_EVENT SAMPLE_EVENT_GASCHANGE2 0 0 21,
       DC_SAMPLE_DECO DC_DECO_NDL 0 300])"
  by (simp add: shearwater_predator_parser_samples_foreach_def shearwater_petrel_parser_create_def
      shearwater_common_parser_create_def petrel_example_blob_def SZ_BLOCK_def
      shearwater_samples.simps shearwater_sample_def shearwater_samplesize_def
      SZ_SAMPLE_PETREL_def array_isequal_def array_uint16_be_def IMPERIAL_def FEET_def
      nth_append Let_def upt_rec)


text \<open>
  Claim C1 as stated fails: on the example blob the depth field is 100 and the units are
  imperial, and no DEPTH sample of 100 * 0.3048 m is emitted.
\<close>

theorem petrel_imperial_depth_is_tenths_of_feet:
  "sw_petrel (shearwater_petrel_parser_create 0)
   \<and> unat (petrel_example_blob ! 8) = IMPERIAL
   \<and> array_uint16_be petrel_example_blob SZ_BLOCK = 100
   \<and> fst (shearwater_predator_parser_samples_foreach (shearwater_petrel_parser_create 0)
          petrel_example_blob) = DC_STATUS_SUCCESS
   \<and> DC_SAMPLE_DEPTH (100 * 0.3048) \<notin>
       set (snd (shearwater_predator_parser_samples_foreach (shearwater_petrel_parser_create 0)
          petrel_example_blob))"
proof -
  have u: "unat (petrel_example_blob ! 8) = IMPERIAL"
    by (simp add: petrel_example_blob_def IMPERIAL_def nth_append)
  have d: "array_uint16_be petrel_example_blob SZ_BLOCK = 100"
    by (simp add: petrel_example_blob_def array_uint16_be_def SZ_BLOCK_def nth_append)
  have p: "sw_petrel (shearwater_petrel_parser_create 0)"
    by (simp add: shearwater_petrel_parser_create_def shearwater_common_parser_create_def)
  from u d p show ?thesis
    by (simp add: petrel_example_run)
qed

theorem petrel_imperial_depth_witness:
  "fst (shearwater_predator_parser_samples_foreach (shearwater_petrel_parser_create 0)
          petrel_example_blob) = DC_STATUS_SUCCESS
   \<and> DC_SAMPLE_DEPTH (100 * FEET / 10) \<in>
       set (snd (shearwater_predator_parser_samples_foreach (shearwater_petrel_parser_create 0)
          petrel_example_blob))
   \<and> 100 * FEET / 10 = 3.048"
proof -
  have p: "sw_petrel (shearwater_petrel_parser_create 0)"
    by (simp add: shearwater_petrel_parser_create_def shearwater_common_parser_create_def)
  have l: "3 * SZ_BLOCK \<le> length petrel_example_blob"
    by (simp add: petrel_example_blob_def SZ_BLOCK_def)
  have u: "unat (petrel_example_blob ! 8) = IMPERIAL"
    by (simp add: petrel_example_blob_def IMPERIAL_def nth_append)
  have o: "SZ_BLOCK = SZ_BLOCK + 0 * SZ_SAMPLE_PETREL"
    by simp
  have f: "SZ_BLOCK < length petrel_example_blob - 2 * SZ_BLOCK"
    by (simp add: petrel_example_blob_def SZ_BLOCK_def)
  have n: "\<not> array_isequal petrel_example_blob SZ_BLOCK SZ_SAMPLE_PETREL 0x00"
    by (simp add: petrel_example_blob_def array_isequal_def SZ_BLOCK_def SZ_SAMPLE_PETREL_def
        nth_append upt_rec)
  have d: "array_uint16_be petrel_example_blob SZ_BLOCK = 100"
    by (simp add: petrel_example_blob_def array_uint16_be_def SZ_BLOCK_def nth_append)
  show ?thesis
    by (rule petrel_imperial_depth [OF p l u o f n d])
qed

section \<open>Clock synchronisation: the delta and its halving\<close>

lemma array_uint32_le_bound: "array_uint32_le data off < 2 ^ 32"
proof -
  have "unat (data ! off) < 256" "unat (data ! (off + 1)) < 256"
    "unat (data ! (off + 2)) < 256" "unat (data ! (off + 3)) < 256"
    using unsigned_less [of "data ! off", where 'a = nat]
      unsigned_less [of "data ! (off + 1)", where 'a = nat]
      unsigned_less [of "data ! (off + 2)", where 'a = nat]
      unsigned_less [of "data ! (off + 3)", where 'a = nat]
    by simp_all
  then show ?thesis
    by (simp add: array_uint32_le_def)
qed

lemma clock_delta:
  fixes devtime :: "32 word"
  assumes "t = array_uint32_le data off" and "t \<le> unat devtime"
  shows "int (unat (devtime - word_of_nat t)) = int (unat devtime) - int t"
    and "int (unat ((devtime - word_of_nat t) div 2)) = (int (unat devtime) - int t) div 2"
proof -
  have b: "t < 2 ^ 32" using assms(1) array_uint32_le_bound by simp
  then have u: "unat (word_of_nat t :: 32 word) = t"
    by (simp add: unat_of_nat)
  with assms(2) have le: "(word_of_nat t :: 32 word) \<le> devtime"
    by (simp add: word_le_nat_alt)
  then have s: "unat (devtime - word_of_nat t) = unat devtime - t"
    using u by (simp add: unat_sub)
  with assms(2) show "int (unat (devtime - word_of_nat t)) = int (unat devtime) - int t"
    by simp
  have "unat ((devtime - word_of_nat t) div 2) = (unat devtime - t) div 2"
    using s by (simp add: unat_div)
  with assms(2) show "int (unat ((devtime - word_of_nat t) div 2)) = (int (unat devtime) - int t) div 2"
    by (simp add: zdiv_int of_nat_diff)
qed

text \<open>
  Claim C2, amended. With \<open>t\<close> the timestamp read from the record and
  \<open>t \<le> devtime\<close>, \<open>get_datetime\<close> converts the ticks
  \<open>systime - (devtime - t)\<close> for the Reefnet Sensus Pro and Sensus Ultra parsers, and the
  ticks \<open>systime - (devtime - t) div 2\<close> for both the Uwatec Memomouse and the Uwatec
  Smart parser; the Smart parser adds the UTC offset of the record, in units of 900
  seconds, when its header table has a time zone.
\<close>

theorem get_datetime_clock_conversion:
  "(10 \<le> length da \<and> array_uint32_le da 6 \<le> unat (rsp_devtime rp) \<longrightarrow>
      reefnet_sensuspro_parser_get_datetime lt rp da =
        (case lt (rsp_systime rp - (int (unat (rsp_devtime rp)) - int (array_uint32_le da 6))) of
           None \<Rightarrow> Inl DC_STATUS_DATAFORMAT | Some dt \<Rightarrow> Inr dt))
 \<and> (8 \<le> length db \<and> array_uint32_le db 4 \<le> unat (rsu_devtime ru) \<longrightarrow>
      reefnet_sensusultra_parser_get_datetime lt ru db =
        (case lt (rsu_systime ru - (int (unat (rsu_devtime ru)) - int (array_uint32_le db 4))) of
           None \<Rightarrow> Inl DC_STATUS_DATAFORMAT | Some dt \<Rightarrow> Inr dt))
 \<and> (15 \<le> length dc \<and> array_uint32_le dc 11 \<le> unat (mm_devtime mp) \<longrightarrow>
      uwatec_memomouse_parser_get_datetime lt mp dc =
        (case lt (mm_systime mp - (int (unat (mm_devtime mp)) - int (array_uint32_le dc 11)) div 2) of
           None \<Rightarrow> Inl DC_STATUS_DATAFORMAT | Some dt \<Rightarrow> Inr dt))
 \<and> (us_headersize sp \<le> length dd \<and> array_uint32_le dd 8 \<le> unat (us_devtime sp) \<longrightarrow>
      uwatec_smart_parser_get_datetime lt gm sp dd =
        (if hdr_timezone (us_header sp) \<noteq> UNSUPPORTED
         then (case gm (us_systime sp - (int (unat (us_devtime sp)) - int (array_uint32_le dd 8)) div 2
                        + sint (dd ! hdr_timezone (us_header sp)) * 900) of
                 None \<Rightarrow> Inl DC_STATUS_DATAFORMAT | Some dt \<Rightarrow> Inr dt)
         else (case lt (us_systime sp - (int (unat (us_devtime sp)) - int (array_uint32_le dd 8)) div 2) of
                 None \<Rightarrow> Inl DC_STATUS_DATAFORMAT | Some dt \<Rightarrow> Inr dt)))"
proof (intro conjI impI)
  assume a: "10 \<le> length da \<and> array_uint32_le da 6 \<le> unat (rsp_devtime rp)"
  then show "reefnet_sensuspro_parser_get_datetime lt rp da =
        (case lt (rsp_systime rp - (int (unat (rsp_devtime rp)) - int (array_uint32_le da 6))) of
           None \<Rightarrow> Inl DC_STATUS_DATAFORMAT | Some dt \<Rightarrow> Inr dt)"
    using clock_delta(1) [OF refl, of da 6 "rsp_devtime rp"]
    by (simp add: reefnet_sensuspro_parser_get_datetime_def Let_def)
next
  assume a: "8 \<le> length db \<and> array_uint32_le db 4 \<le> unat (rsu_devtime ru)"
  then show "reefnet_sensusultra_parser_get_datetime lt ru db =
        (case lt (rsu_systime ru - (int (unat (rsu_devtime ru)) - int (array_uint32_le db 4))) of
           None \<Rightarrow> Inl DC_STATUS_DATAFORMAT | Some dt \<Rightarrow> Inr dt)"
    using clock_delta(1) [OF refl, of db 4 "rsu_devtime ru"]
    by (simp add: reefnet_sensusultra_parser_get_datetime_def Let_def)
next
  assume a: "15 \<le> length dc \<and> array_uint32_le dc 11 \<le> unat (mm_devtime mp)"
  then show "uwatec_memomouse_parser_get_datetime lt mp dc =
        (case lt (mm_systime mp - (int (unat (mm_devtime mp)) - int (array_uint32_le dc 11)) div 2) of
           None \<Rightarrow> Inl DC_STATUS_DATAFORMAT | Some dt \<Rightarrow> Inr dt)"
    using clock_delta(2) [OF refl, of dc 11 "mm_devtime mp"]
    by (simp add: uwatec_memomouse_parser_get_datetime_def Let_def)
next
  assume a: "us_headersize sp \<le> length dd \<and> array_uint32_le dd 8 \<le> unat (us_devtime sp)"
  then show "uwatec_smart_parser_get_datetime lt gm sp dd =
        (if hdr_timezone (us_header sp) \<noteq> UNSUPPORTED
         then (case gm (us_systime sp - (int (unat (us_devtime sp)) - int (array_uint32_le dd 8)) div 2
                        + sint (dd ! hdr_timezone (us_header sp)) * 900) of
                 None \<Rightarrow> Inl DC_STATUS_DATAFORMAT | Some dt \<Rightarrow> Inr dt)
         else (case lt (us_systime sp - (int (unat (us_devtime sp)) - int (array_uint32_le dd 8)) div 2) of
                 None \<Rightarrow> Inl DC_STATUS_DATAFORMAT | Some dt \<Rightarrow> Inr dt))"
    using clock_delta(2) [OF refl, of dd 8 "us_devtime sp"]
    by (simp add: uwatec_smart_parser_get_datetime_def Let_def)
qed

lemma smart_example_parser_created:
  "uwatec_smart_parser_create SMARTPRO 10 100 = Inr smart_example_parser"
  by (simp add: smart_example_parser_def uwatec_smart_parser_create_def uwatec_smart_model_tables_def)

lemma smart_example_parser_fields:
  "us_headersize smart_example_parser = 92" "us_devtime smart_example_parser = 10"
  "us_systime smart_example_parser = 100"
  "hdr_timezone (us_header smart_example_parser) = UNSUPPORTED"
  by (simp_all add: smart_example_parser_def uwatec_smart_parser_create_def
      uwatec_smart_model_tables_def uwatec_smart_pro_header_def)



lemma array_uint32_le_zeros: "off + 3 < n \<Longrightarrow> array_uint32_le (replicate n 0) off = 0"
  by (simp add: array_uint32_le_def)

text \<open>
  Claim C2 as stated fails for the Uwatec Smart parser: with \<open>devtime = 10\<close>,
  \<open>systime = 100\<close> and a timestamp of 0 the ticks converted are 95, not 90.
\<close>

theorem smart_clock_delta_is_halved:
  "uwatec_smart_parser_create SMARTPRO 10 100 = Inr smart_example_parser
   \<and> length (replicate 92 0 :: byte list) = us_headersize smart_example_parser
   \<and> array_uint32_le (replicate 92 0) 8 = 0
   \<and> uwatec_smart_parser_get_datetime epoch_seconds epoch_seconds smart_example_parser
        (replicate 92 0) =
       Inr \<lparr> year = 1970, month = 1, day = 1, hour = 0, minute = 0, second = 95 \<rparr>
   \<and> uwatec_smart_parser_get_datetime epoch_seconds epoch_seconds smart_example_parser
        (replicate 92 0) \<noteq>
       (case epoch_seconds (100 - (10 - 0)) of
          None \<Rightarrow> Inl DC_STATUS_DATAFORMAT | Some dt \<Rightarrow> Inr dt)"
  by (simp add: smart_example_parser_created smart_example_parser_fields
      uwatec_smart_parser_get_datetime_def array_uint32_le_zeros epoch_seconds_def Let_def)

theorem get_datetime_clock_conversion_witness:
  "reefnet_sensuspro_parser_get_datetime epoch_seconds sensuspro_example_parser (replicate 10 0) =
     Inr \<lparr> year = 1970, month = 1, day = 1, hour = 0, minute = 0, second = 90 \<rparr>
   \<and> reefnet_sensusultra_parser_get_datetime epoch_seconds sensusultra_example_parser (replicate 8 0) =
     Inr \<lparr> year = 1970, month = 1, day = 1, hour = 0, minute = 0, second = 90 \<rparr>
   \<and> uwatec_memomouse_parser_get_datetime epoch_seconds (uwatec_memomouse_parser_create 10 100)
       (replicate 15 0) =
     Inr \<lparr> year = 1970, month = 1, day = 1, hour = 0, minute = 0, second = 95 \<rparr>
   \<and> uwatec_smart_parser_get_datetime epoch_seconds epoch_seconds smart_example_parser
       (replicate 92 0) =
     Inr \<lparr> year = 1970, month = 1, day = 1, hour = 0, minute = 0, second = 95 \<rparr>"
  using get_datetime_clock_conversion [where da = "replicate 10 0" and rp = sensuspro_example_parser
      and db = "replicate 8 0" and ru = sensusultra_example_parser
      and dc = "replicate 15 0" and mp = "uwatec_memomouse_parser_create 10 100"
      and dd = "replicate 92 0" and sp = smart_example_parser
      and lt = epoch_seconds and gm = epoch_seconds]
  by (simp add: smart_example_parser_fields array_uint32_le_zeros epoch_seconds_def
      sensuspro_example_parser_def sensusultra_example_parser_def
      uwatec_memomouse_parser_create_def)


section \<open>Uwatec Smart: type identification\<close>

lemma byte_bits_drop:
  assumes "j < NBITS"
  shows "drop j (byte_bits v) = bit v (NBITS - 1 - j) # drop (Suc j) (byte_bits v)"
proof -
  have a: "drop j (byte_bits v) = map (\<lambda>j. bit v (NBITS - 1 - j)) [j..<NBITS]"
    by (simp add: byte_bits_def drop_map)
  have b: "drop (Suc j) (byte_bits v) = map (\<lambda>j. bit v (NBITS - 1 - j)) [Suc j..<NBITS]"
    by (simp add: byte_bits_def drop_map)
  have c: "[j..<NBITS] = j # [Suc j..<NBITS]"
    using assms by (rule upt_conv_Cons)
  show ?thesis
    unfolding a b c by simp
qed

lemma byte_bits_drop_end: "\<not> j < NBITS \<Longrightarrow> drop j (byte_bits v) = []"
  by (simp add: byte_bits_def)

lemma uwatec_smart_identify_bits_eq:
  "uwatec_smart_identify_bits v j count =
     (if \<forall>b \<in> set (drop j (byte_bits v)). b
      then Inr (count + of_nat (length (drop j (byte_bits v))))
      else Inl (count + of_nat (length (takeWhile (\<lambda>b. b) (drop j (byte_bits v))))))"
proof (induction v j count rule: uwatec_smart_identify_bits.induct)
  case (1 v j count)
  show ?case
  proof (cases "j < NBITS")
    case False
    then show ?thesis
      by (subst uwatec_smart_identify_bits.simps) (simp add: byte_bits_drop_end)
  next
    case True
    note d = byte_bits_drop [OF True, of v]
    show ?thesis
    proof (cases "bit v (NBITS - 1 - j)")
      case False
      with True show ?thesis
        by (subst uwatec_smart_identify_bits.simps)
           (simp add: d and_exp_eq_0_iff_not_bit Let_def)
    next
      case b: True
      then have m: "\<not> v AND (push_bit (NBITS - 1 - j) 1 :: byte) = 0"
        by (simp add: and_exp_eq_0_iff_not_bit)
      have "uwatec_smart_identify_bits v j count = uwatec_smart_identify_bits v (j + 1) (count + 1)"
        using True m by (subst uwatec_smart_identify_bits.simps) (simp add: Let_def)
      also have "\<dots> = (if \<forall>b \<in> set (drop (j + 1) (byte_bits v)). b
          then Inr (count + 1 + of_nat (length (drop (j + 1) (byte_bits v))))
          else Inl (count + 1 + of_nat (length (takeWhile (\<lambda>b. b) (drop (j + 1) (byte_bits v))))))"
        by (rule "1.IH" [OF True refl m])
      finally show ?thesis
        using b by (simp add: d)
    qed
  qed
qed

lemma uwatec_smart_identify_bytes_eq:
  "uwatec_smart_identify_bytes data count =
     (if \<forall>b \<in> set (concat (map byte_bits data)). b then - 1
      else count + of_nat (leading_one_bits data))"
proof (induction data arbitrary: count)
  case Nil
  show ?case by simp
next
  case (Cons v rest)
  show ?case
  proof (cases "\<forall>b \<in> set (byte_bits v). b")
    case True
    then have t: "takeWhile (\<lambda>b. b) (byte_bits v @ concat (map byte_bits rest)) =
        byte_bits v @ takeWhile (\<lambda>b. b) (concat (map byte_bits rest))"
      by (intro takeWhile_append2) blast
    from True have "uwatec_smart_identify_bits v 0 count = Inr (count + of_nat (length (byte_bits v)))"
      by (simp add: uwatec_smart_identify_bits_eq)
    with True t show ?thesis
      by (auto simp: Cons.IH leading_one_bits_def)
  next
    case False
    then obtain x where "x \<in> set (byte_bits v)" "\<not> x"
      by auto
    then have t: "takeWhile (\<lambda>b. b) (byte_bits v @ concat (map byte_bits rest)) =
        takeWhile (\<lambda>b. b) (byte_bits v)"
      by (rule takeWhile_append1)
    from False have "uwatec_smart_identify_bits v 0 count =
        Inl (count + of_nat (length (takeWhile (\<lambda>b. b) (byte_bits v))))"
      by (simp add: uwatec_smart_identify_bits_eq)
    with False t show ?thesis
      by (auto simp: leading_one_bits_def)
  qed
qed


text \<open>
  Claim C7 as stated fails when no 0-bit ends the run of 1-bits: on the single byte
  \<open>0xFF\<close> the number of leading 1-bits is 8, and \<open>uwatec_smart_identify\<close> returns
  \<open>(unsigned int) -1\<close>.
\<close>

theorem uwatec_smart_identify_all_ones:
  "leading_one_bits [0xFF] = 8
   \<and> uwatec_smart_identify [0xFF] = 0xFFFFFFFF
   \<and> uwatec_smart_identify [0xFF] \<noteq> of_nat (leading_one_bits [0xFF])"
proof -
  have bits: "byte_bits 0xFF = [True, True, True, True, True, True, True, True]"
    by (simp add: byte_bits_def NBITS_def upt_rec bit_iff_odd_drop_bit)
  have l: "leading_one_bits [0xFF] = 8"
    by (simp add: leading_one_bits_def bits)
  have b: "uwatec_smart_identify_bits 0xFF 0 0 = Inr 8"
    by (simp add: uwatec_smart_identify_bits.simps NBITS_def Let_def)
  have i: "uwatec_smart_identify [0xFF] = 0xFFFFFFFF"
    by (simp add: uwatec_smart_identify_def b)
  from l i show ?thesis
    by simp
qed

text \<open>
  Claim C7, amended. For the Smart identifier style the sample type index is the number
  of leading 1-bits of the input bytes, counted into further bytes while all eight bits
  of a byte are 1, provided that the input bytes hold a 0-bit; when every bit of the
  input is 1, \<open>uwatec_smart_identify\<close> returns \<open>0xFFFFFFFF\<close>. Against the Aladin
  table, a first byte 0b0xxxxxxx selects type 0, a DEPTH delta; a first byte 0b10xxxxxx
  selects type 1, a TEMPERATURE delta; the bytes 0xFF 0x7F select type 8, ALARMS with
  subindex 1.
\<close>

theorem uwatec_smart_type_index:
  "((\<exists>b \<in> set (concat (map byte_bits data)). \<not> b) \<longrightarrow>
      uwatec_smart_identify data = of_nat (leading_one_bits data))
   \<and> ((\<forall>b \<in> set (concat (map byte_bits ones)). b) \<longrightarrow>
      uwatec_smart_identify ones = 0xFFFFFFFF)
   \<and> (\<not> bit v 7 \<longrightarrow> uwatec_smart_identify (v # rest) = 0)
   \<and> (bit w 7 \<and> \<not> bit w 6 \<longrightarrow> uwatec_smart_identify (w # rest) = 1)
   \<and> uwatec_smart_identify (0xFF # 0x7F # rest) = 8
   \<and> si_type (uwatec_smart_aladin_samples ! 0) = DEPTH
   \<and> \<not> si_absolute (uwatec_smart_aladin_samples ! 0)
   \<and> si_type (uwatec_smart_aladin_samples ! 1) = TEMPERATURE
   \<and> \<not> si_absolute (uwatec_smart_aladin_samples ! 1)
   \<and> si_type (uwatec_smart_aladin_samples ! 8) = ALARMS
   \<and> si_index (uwatec_smart_aladin_samples ! 8) = 1"
proof -
  have g: "uwatec_smart_identify data = of_nat (leading_one_bits data)"
    if "\<exists>b \<in> set (concat (map byte_bits data)). \<not> b"
    using that by (auto simp: uwatec_smart_identify_def uwatec_smart_identify_bytes_eq)
  have o: "uwatec_smart_identify ones = 0xFFFFFFFF"
    if "\<forall>b \<in> set (concat (map byte_bits ones)). b"
    using that by (auto simp: uwatec_smart_identify_def uwatec_smart_identify_bytes_eq)
  have m7: "(x AND 128 = 0) = (\<not> bit x 7)" for x :: byte
    using and_exp_eq_0_iff_not_bit [of x 7] by simp
  have m6: "(x AND 64 = 0) = (\<not> bit x 6)" for x :: byte
    using and_exp_eq_0_iff_not_bit [of x 6] by simp
  have t0: "uwatec_smart_identify (v # rest) = 0" if "\<not> bit v 7"
    using that
    by (simp add: uwatec_smart_identify_def uwatec_smart_identify_bits.simps [of v 0]
        NBITS_def m7 Let_def)
  have t1: "uwatec_smart_identify (w # rest) = 1" if "bit w 7 \<and> \<not> bit w 6"
    using that
    by (simp add: uwatec_smart_identify_def uwatec_smart_identify_bits.simps [of w 0]
        uwatec_smart_identify_bits.simps [of w "Suc 0"]
        NBITS_def m7 m6 Let_def)
  have b1: "uwatec_smart_identify_bits 0xFF 0 0 = Inr 8"
    by (simp add: uwatec_smart_identify_bits.simps NBITS_def Let_def)
  have b2: "uwatec_smart_identify_bits 0x7F 0 8 = Inl 8"
    by (simp add: uwatec_smart_identify_bits.simps NBITS_def Let_def)
  have t8: "uwatec_smart_identify (0xFF # 0x7F # rest) = 8"
    by (simp add: uwatec_smart_identify_def b1 b2)
  have tab: "si_type (uwatec_smart_aladin_samples ! 0) = DEPTH"
    "\<not> si_absolute (uwatec_smart_aladin_samples ! 0)"
    "si_type (uwatec_smart_aladin_samples ! 1) = TEMPERATURE"
    "\<not> si_absolute (uwatec_smart_aladin_samples ! 1)"
    "si_type (uwatec_smart_aladin_samples ! 8) = ALARMS"
    "si_index (uwatec_smart_aladin_samples ! 8) = 1"
    by (simp_all add: uwatec_smart_aladin_samples_def sample_info_def)
  from g o t0 t1 t8 tab show ?thesis by blast
qed

theorem uwatec_smart_type_index_witness:
  "(\<exists>b \<in> set (concat (map byte_bits [0xBF, 0x12])). \<not> b)
   \<and> leading_one_bits [0xBF, 0x12] = 1
   \<and> uwatec_smart_identify [0xBF, 0x12] = 1
   \<and> leading_one_bits [0xFF, 0xFF] = 16
   \<and> uwatec_smart_identify [0xFF, 0xFF] = 0xFFFFFFFF
   \<and> \<not> bit (0x3A :: byte) 7 \<and> uwatec_smart_identify [0x3A] = 0
   \<and> bit (0xBF :: byte) 7 \<and> \<not> bit (0xBF :: byte) 6 \<and> uwatec_smart_identify [0xBF] = 1
   \<and> uwatec_smart_identify [0xFF, 0x7F] = 8
   \<and> si_type (uwatec_smart_aladin_samples ! unat (uwatec_smart_identify [0xFF, 0x7F])) = ALARMS"
proof -
  have bits: "byte_bits 0xBF = [True, False, True, True, True, True, True, True]"
    "byte_bits 0xFF = [True, True, True, True, True, True, True, True]"
    by (simp_all add: byte_bits_def NBITS_def upt_rec bit_iff_odd_drop_bit)
  have e: "\<exists>b \<in> set (concat (map byte_bits [0xBF, 0x12])). \<not> b"
    by (simp add: bits)
  have l: "leading_one_bits [0xBF, 0x12] = 1"
    by (simp add: leading_one_bits_def bits)
  have f: "\<forall>b \<in> set (concat (map byte_bits [0xFF, 0xFF])). b"
    by (simp add: bits)
  have a: "\<not> bit (0x3A :: byte) 7"
    by (simp add: bit_iff_odd_drop_bit)
  have b: "bit (0xBF :: byte) 7 \<and> \<not> bit (0xBF :: byte) 6"
    by (simp add: bit_iff_odd_drop_bit)
  have k: "leading_one_bits [0xFF, 0xFF] = 16"
    by (simp add: leading_one_bits_def bits)
  from uwatec_smart_type_index [where data = "[0xBF, 0x12]" and ones = "[0xFF, 0xFF]"
      and v = "0x3A" and rest = "[]" and w = "0xBF"] e l f a b k
  show ?thesis
    by simp
qed


section \<open>Oceanic Atom2: surface interval\<close>

lemmas atom2_models =
  ATOM1_def EPICA_def VT3_def T3A_def ATOM2_def GEO_def
  MANTA_def DATAMASK_def COMPUMASK_def OC1A_def F10_def WISDOM2_def
  INSIGHT2_def ELEMENT2_def VEO20_def VEO30_def ZEN_def ZENAIR_def
  ATMOSAI2_def PROPLUS21_def GEO20_def VT4_def OC1B_def VOYAGER2G_def
  ATOM3_def DG03_def OCS_def OC1C_def VT41_def EPICB_def
  T3B_def ATOM31_def A300AI_def WISDOM3_def A300_def TX1_def
  AMPHOS_def AMPHOSAIR_def PROPLUS3_def F11_def OCI_def A300CS_def
  VTX_def

lemma atom2_surface_90_30:
  assumes "t + 60 < 2 ^ 32"
  shows "atom2_surface (90 div 30) 30 False t =
     ([DC_SAMPLE_DEPTH 0, DC_SAMPLE_TIME (t + 30), DC_SAMPLE_DEPTH 0,
       DC_SAMPLE_TIME (t + 60), DC_SAMPLE_DEPTH 0], True, t + 60)"
proof -
  have n: "(90::nat) div 30 = Suc (Suc (Suc 0))" by simp
  have a: "(t + 30) mod 4294967296 = t + 30" using assms by simp
  have b: "(60 + t) mod 4294967296 = t + 60" using assms by simp
  show ?thesis
    unfolding n by (simp add: a b Let_def)
qed

lemma array_isequal_first:
  assumes "0 < n" and "array_isequal data off n v"
  shows "data ! off = v"
proof -
  from assms(1) have "0 \<in> set [0..<n]"
    by simp
  with assms(2) show ?thesis
    unfolding array_isequal_def list_all_iff by (metis add.right_neutral)
qed


lemma oceanic_atom2_parser_samples_foreach_run:
  assumes "\<not> length data < oa_headersize parser + oa_footersize parser"
  shows "oceanic_atom2_parser_samples_foreach PSI BAR parser data =
     atom2_samples PSI BAR (oa_model parser) (atom2_mode (oa_model parser) data)
       (atom2_interval (oa_model parser) (atom2_mode (oa_model parser) data) data)
       (atom2_have_pressure parser data) (oa_footersize parser) data
       (atom2_initial parser data) (oa_headersize parser)"
  using assms
  by (simp add: oceanic_atom2_parser_samples_foreach_def atom2_initial_def
      atom2_have_pressure_def atom2_pressure0_def atom2_header_def Let_def)

lemma atom2_sample_surface_interval:
  assumes "mode \<noteq> FREEDIVE"
    and "interval = 30"
    and "data ! offset = 0xBB"
    and "60 * bcd2dec (data ! (offset + 1)) + bcd2dec (data ! (offset + 2)) = 90"
    and "offset + PAGESIZE \<le> length data - PAGESIZE"
    and "a2_time st = (if a2_complete st then b else b + 30)"
    and "b + 90 < 2 ^ 32"
  shows "atom2_sample PSI BAR model mode interval have_pressure data st offset =
           ((if a2_complete st then [DC_SAMPLE_TIME (b + 30)] else []) @
            [DC_SAMPLE_VENDOR SAMPLE_VENDOR_OCEANIC_ATOM2 (take PAGESIZE (drop offset data)),
             DC_SAMPLE_DEPTH 0, DC_SAMPLE_TIME (b + 60), DC_SAMPLE_DEPTH 0,
             DC_SAMPLE_TIME (b + 90), DC_SAMPLE_DEPTH 0],
            Inr (st \<lparr> a2_time := b + 90, a2_complete := True \<rparr>))"
proof -
  have ty: "atom2_sampletype mode data offset = 0xBB"
    using assms(1,3) by (simp add: atom2_sampletype_def)
  then have len: "atom2_length model mode data offset = PAGESIZE"
    by (simp add: atom2_length_def)
  have ok: "\<not> offset + PAGESIZE > length data - PAGESIZE"
    using assms(5) by simp
  have s: "atom2_surface (90 div 30) 30 False (b + 30) =
     ([DC_SAMPLE_DEPTH 0, DC_SAMPLE_TIME (b + 30 + 30), DC_SAMPLE_DEPTH 0,
       DC_SAMPLE_TIME (b + 30 + 60), DC_SAMPLE_DEPTH 0], True, b + 30 + 60)"
    using assms(7) by (intro atom2_surface_90_30) simp
  have m: "(b + 30) mod 4294967296 = b + 30"
    using assms(7) by simp
  show ?thesis
  proof (cases "a2_complete st")
    case True
    with assms(6) have t: "a2_time st = b" by simp
    show ?thesis
      unfolding atom2_sample_def Let_def ty len
      using True t ok m s assms(2,4) by (simp add: add.assoc)
  next
    case False
    with assms(6) have t: "a2_time st = b + 30" by simp
    show ?thesis
      unfolding atom2_sample_def Let_def ty len
      using False t ok s assms(2,4) by (simp add: add.assoc)
  qed
qed


lemma atom2_example_parser:
  "oa_model (oceanic_atom2_parser_create ATOM2 0) = ATOM2"
  "oa_headersize (oceanic_atom2_parser_create ATOM2 0) = 72"
  "oa_footersize (oceanic_atom2_parser_create ATOM2 0) = 16"
  by (simp_all add: oceanic_atom2_parser_create_def atom2_models PAGESIZE_def Let_def)

lemma atom2_example_settings:
  "atom2_mode ATOM2 atom2_example_dive = NORMAL"
  "atom2_interval ATOM2 NORMAL atom2_example_dive = 30"
  "atom2_samplesize ATOM2 NORMAL = 8"
  "atom2_have_temperature NORMAL"
  "atom2_have_pressure0 ATOM2 NORMAL"
  by (simp_all add: atom2_mode_def atom2_interval_def atom2_samplesize_def
      atom2_have_temperature_def atom2_have_pressure0_def atom2_models PAGESIZE_def
      NORMAL_def FREEDIVE_def atom2_example_dive_def nth_append Let_def)

lemma atom2_fields:
  "atom2_temperature ATOM2 data offset temperature =
     (if drop_bit 7 (byte_at data offset AND 0x80) \<noteq> 0
      then temperature - drop_bit 2 (byte_at data (offset + 7) AND 0x0C)
      else temperature + drop_bit 2 (byte_at data (offset + 7) AND 0x0C))"
  "atom2_pressure ATOM2 data offset pressure = pressure - byte_at data (offset + 1)"
  "atom2_depth ATOM2 NORMAL data offset =
     (byte_at data (offset + 2) + push_bit 8 (byte_at data (offset + 3))) AND 0x0FFF"
  by (simp_all add: atom2_temperature_def atom2_pressure_def atom2_depth_def atom2_models
      NORMAL_def FREEDIVE_def Let_def)

lemma atom2_example_start:
  "atom2_have_pressure (oceanic_atom2_parser_create ATOM2 0) atom2_example_dive"
  "atom2_initial (oceanic_atom2_parser_create ATOM2 0) atom2_example_dive =
     \<lparr> a2_time = 0, a2_complete = True, a2_tank = 0, a2_pressure = 0, a2_temperature = 0 \<rparr>"
proof -
  have md: "ATOM2 \<noteq> VT4" "ATOM2 \<noteq> VT41" "ATOM2 \<noteq> A300AI" "ATOM2 \<noteq> A300CS"
    "ATOM2 \<noteq> VTX"
    by (simp_all add: atom2_models)
  have hdr: "byte_at atom2_example_dive 71 = 0" "byte_at atom2_example_dive 66 = 0"
    "byte_at atom2_example_dive 67 = 0"
    by (simp_all add: byte_at_def atom2_example_dive_def nth_append)
  have h: "atom2_header (oceanic_atom2_parser_create ATOM2 0) = 64"
    by (simp add: atom2_header_def atom2_example_parser md PAGESIZE_def)
  have p: "atom2_pressure0 (oceanic_atom2_parser_create ATOM2 0) atom2_example_dive = 0"
    by (simp add: atom2_pressure0_def atom2_example_parser atom2_example_settings md h hdr)
  show "atom2_have_pressure (oceanic_atom2_parser_create ATOM2 0) atom2_example_dive"
    by (simp add: atom2_have_pressure_def atom2_example_parser atom2_example_settings p)
  show "atom2_initial (oceanic_atom2_parser_create ATOM2 0) atom2_example_dive =
     \<lparr> a2_time = 0, a2_complete = True, a2_tank = 0, a2_pressure = 0, a2_temperature = 0 \<rparr>"
    by (simp add: atom2_initial_def atom2_example_parser atom2_example_settings p h hdr)
qed

lemma atom2_example_ordinary:
  assumes "offset = 72 \<or> offset = 96"
    and "t + 30 < 2 ^ 32"
  shows "atom2_sample 6895 100000 ATOM2 NORMAL 30 True atom2_example_dive
      \<lparr> a2_time = t, a2_complete = True, a2_tank = 0, a2_pressure = 0, a2_temperature = 0 \<rparr>
      offset =
     ([DC_SAMPLE_TIME (t + 30),
       DC_SAMPLE_VENDOR SAMPLE_VENDOR_OCEANIC_ATOM2 (take 8 (drop offset atom2_example_dive)),
       DC_SAMPLE_TEMPERATURE ((0 - 32) * (5 / 9)),
       DC_SAMPLE_PRESSURE 0 0,
       DC_SAMPLE_DEPTH (real (unat (atom2_example_dive ! (offset + 2))) / 16 * FEET)],
      Inr \<lparr> a2_time = t + 30, a2_complete = True, a2_tank = 0, a2_pressure = 0,
            a2_temperature = 0 \<rparr>)"
proof -
  have md: "ATOM2 \<noteq> A300CS" "ATOM2 \<noteq> VTX"
    by (simp_all add: atom2_models)
  have m: "(t + 30) mod 4294967296 = t + 30"
    using assms(2) by simp
  have ty: "atom2_sampletype NORMAL atom2_example_dive offset = 1"
    using assms(1)
    by (auto simp add: atom2_sampletype_def NORMAL_def FREEDIVE_def atom2_example_dive_def
        nth_append)
  then have len: "atom2_length ATOM2 NORMAL atom2_example_dive offset = 8"
    by (simp add: atom2_length_def atom2_example_settings)
  have v: "atom2_example_dive ! offset = 1" "atom2_example_dive ! Suc offset = 0"
    "atom2_example_dive ! (offset + 3) = 0" "atom2_example_dive ! (offset + 7) = 0"
    using assms(1) by (auto simp add: atom2_example_dive_def nth_append)
  have d: "unat ((ucast x :: 32 word) AND 0x0FFF) = unat x" for x :: byte
  proof -
    have k: "(0x0FFF :: 32 word) = mask 12"
      by (simp add: mask_eq_exp_minus_1)
    have "unat x < 4096"
      using unsigned_less [of x, where 'a = nat] by simp
    then show ?thesis
      unfolding k
      by (simp add: take_bit_eq_mask [symmetric] unsigned_take_bit_eq unsigned_ucast_eq
          take_bit_nat_eq_self_iff)
  qed
  have t: "atom2_temperature ATOM2 atom2_example_dive offset 0 = 0"
    by (simp add: atom2_fields byte_at_def v)
  have p: "atom2_pressure ATOM2 atom2_example_dive offset 0 = 0"
    by (simp add: atom2_fields byte_at_def v)
  have e: "unat (atom2_depth ATOM2 NORMAL atom2_example_dive offset) =
      unat (atom2_example_dive ! (offset + 2))"
    by (simp add: atom2_fields byte_at_def v d)
  show ?thesis
    unfolding atom2_sample_def Let_def ty len
    by (simp add: atom2_example_settings t p e m md)
qed

lemma atom2_example_dive_run:
  "oceanic_atom2_parser_samples_foreach 6895 100000 (oceanic_atom2_parser_create ATOM2 0)
     atom2_example_dive =
     (DC_STATUS_SUCCESS,
      [DC_SAMPLE_TIME 30,
       DC_SAMPLE_VENDOR SAMPLE_VENDOR_OCEANIC_ATOM2 [0x01, 0x00, 0x20, 0x00, 0x00, 0x00, 0x00, 0x00],
       DC_SAMPLE_TEMPERATURE ((0 - 32) * (5 / 9)), DC_SAMPLE_PRESSURE 0 0,
       DC_SAMPLE_DEPTH (32 / 16 * FEET),
       DC_SAMPLE_TIME 60,
       DC_SAMPLE_VENDOR SAMPLE_VENDOR_OCEANIC_ATOM2 ([0xBB, 0x01, 0x30] @ replicate 13 0),
       DC_SAMPLE_DEPTH 0, DC_SAMPLE_TIME 90, DC_SAMPLE_DEPTH 0,
       DC_SAMPLE_TIME 120, DC_SAMPLE_DEPTH 0,
       DC_SAMPLE_TIME 150,
       DC_SAMPLE_VENDOR SAMPLE_VENDOR_OCEANIC_ATOM2 [0x01, 0x00, 0x30, 0x00, 0x00, 0x00, 0x00, 0x00],
       DC_SAMPLE_TEMPERATURE ((0 - 32) * (5 / 9)), DC_SAMPLE_PRESSURE 0 0,
       DC_SAMPLE_DEPTH (48 / 16 * FEET)])"
proof -
  let ?p = "oceanic_atom2_parser_create ATOM2 0"
  let ?st = "\<lambda>t. \<lparr> a2_time = t, a2_complete = True, a2_tank = 0, a2_pressure = 0,
      a2_temperature = 0 \<rparr>"
  have len: "length atom2_example_dive = 120"
    by (simp add: atom2_example_dive_def)
  have first: "atom2_example_dive ! 72 = 1" "atom2_example_dive ! 80 = 0xBB"
    "atom2_example_dive ! 96 = 1"
    by (simp_all add: atom2_example_dive_def nth_append)
  have ne: "\<not> (array_isequal atom2_example_dive offset 8 0x00 \<or>
      array_isequal atom2_example_dive offset 8 0xFF)"
    if "offset = 72 \<or> offset = 80 \<or> offset = 96" for offset
    using that first by (auto dest!: array_isequal_first [rotated])
  have nf: "NORMAL \<noteq> FREEDIVE"
    by (simp add: NORMAL_def FREEDIVE_def)
  have ty: "atom2_length ATOM2 NORMAL atom2_example_dive 72 = 8"
    "atom2_length ATOM2 NORMAL atom2_example_dive 80 = 16"
    "atom2_length ATOM2 NORMAL atom2_example_dive 96 = 8"
    using nf
    by (simp_all add: atom2_length_def atom2_sampletype_def atom2_example_settings first
        PAGESIZE_def)
  have s72: "atom2_sample 6895 100000 ATOM2 NORMAL 30 True atom2_example_dive (?st 0) 72 =
      ([DC_SAMPLE_TIME 30,
        DC_SAMPLE_VENDOR SAMPLE_VENDOR_OCEANIC_ATOM2 [0x01, 0x00, 0x20, 0x00, 0x00, 0x00, 0x00, 0x00],
        DC_SAMPLE_TEMPERATURE ((0 - 32) * (5 / 9)), DC_SAMPLE_PRESSURE 0 0,
        DC_SAMPLE_DEPTH (32 / 16 * FEET)], Inr (?st 30))"
    using atom2_example_ordinary [of 72 0]
    by (simp add: atom2_example_dive_def nth_append)
  have s80: "atom2_sample 6895 100000 ATOM2 NORMAL 30 True atom2_example_dive (?st 30) 80 =
      ([DC_SAMPLE_TIME 60,
        DC_SAMPLE_VENDOR SAMPLE_VENDOR_OCEANIC_ATOM2 ([0xBB, 0x01, 0x30] @ replicate 13 0),
        DC_SAMPLE_DEPTH 0, DC_SAMPLE_TIME 90, DC_SAMPLE_DEPTH 0,
        DC_SAMPLE_TIME 120, DC_SAMPLE_DEPTH 0], Inr (?st 120))"
  proof -
    have h: "60 * bcd2dec (atom2_example_dive ! (80 + 1)) +
        bcd2dec (atom2_example_dive ! (80 + 2)) = 90"
      by (simp add: atom2_example_dive_def nth_append bcd2dec_def)
    have i: "80 + PAGESIZE \<le> length atom2_example_dive - PAGESIZE"
      by (simp add: len PAGESIZE_def)
    have v: "take PAGESIZE (drop 80 atom2_example_dive) = [0xBB, 0x01, 0x30] @ replicate 13 0"
      by (simp add: atom2_example_dive_def PAGESIZE_def)
    from atom2_sample_surface_interval [OF nf refl first(2) h i, of "?st 30" 30 6895 100000
        ATOM2 True]
    show ?thesis
      by (simp add: v)
  qed
  have s96: "atom2_sample 6895 100000 ATOM2 NORMAL 30 True atom2_example_dive (?st 120) 96 =
      ([DC_SAMPLE_TIME 150,
        DC_SAMPLE_VENDOR SAMPLE_VENDOR_OCEANIC_ATOM2 [0x01, 0x00, 0x30, 0x00, 0x00, 0x00, 0x00, 0x00],
        DC_SAMPLE_TEMPERATURE ((0 - 32) * (5 / 9)), DC_SAMPLE_PRESSURE 0 0,
        DC_SAMPLE_DEPTH (48 / 16 * FEET)], Inr (?st 150))"
    using atom2_example_ordinary [of 96 120]
    by (simp add: atom2_example_dive_def nth_append)
  have r104: "atom2_samples 6895 100000 ATOM2 NORMAL 30 True 16 atom2_example_dive st 104 =
      (DC_STATUS_SUCCESS, [])" for st
    by (subst atom2_samples.simps) (simp add: len atom2_example_settings)
  have r96: "atom2_samples 6895 100000 ATOM2 NORMAL 30 True 16 atom2_example_dive (?st 120) 96 =
      (DC_STATUS_SUCCESS, fst (atom2_sample 6895 100000 ATOM2 NORMAL 30 True atom2_example_dive
         (?st 120) 96))"
    by (subst atom2_samples.simps) (simp add: len atom2_example_settings ne ty s96 r104)
  have r80: "atom2_samples 6895 100000 ATOM2 NORMAL 30 True 16 atom2_example_dive (?st 30) 80 =
      (DC_STATUS_SUCCESS,
       fst (atom2_sample 6895 100000 ATOM2 NORMAL 30 True atom2_example_dive (?st 30) 80) @
       fst (atom2_sample 6895 100000 ATOM2 NORMAL 30 True atom2_example_dive (?st 120) 96))"
    by (subst atom2_samples.simps) (simp add: len atom2_example_settings ne ty s80 r96)
  have r72: "atom2_samples 6895 100000 ATOM2 NORMAL 30 True 16 atom2_example_dive (?st 0) 72 =
      (DC_STATUS_SUCCESS,
       fst (atom2_sample 6895 100000 ATOM2 NORMAL 30 True atom2_example_dive (?st 0) 72) @
       fst (atom2_sample 6895 100000 ATOM2 NORMAL 30 True atom2_example_dive (?st 30) 80) @
       fst (atom2_sample 6895 100000 ATOM2 NORMAL 30 True atom2_example_dive (?st 120) 96))"
    by (subst atom2_samples.simps) (simp add: len atom2_example_settings ne ty s72 r80)
  have "oceanic_atom2_parser_samples_foreach 6895 100000 ?p atom2_example_dive =
      atom2_samples 6895 100000 ATOM2 NORMAL 30 True 16 atom2_example_dive (?st 0) 72"
    by (simp add: oceanic_atom2_parser_samples_foreach_run atom2_example_parser
        atom2_example_settings atom2_example_start len)
  then show ?thesis
    by (simp add: r72 s72 s80 s96)
qed



section \<open>Suunto Common2: discontinuous dives\<close>

text \<open>
  A status \<open>DC_STATUS_DATAFORMAT\<close> set in the loop is the status returned when the
  loop runs to its end, and the dives passed to the callback stay in the result.
\<close>

lemma suunto_common2_dives_invariants:
  assumes "suunto_common2_dives vtable_packet callback device dev user delivered st = Some y"
  shows "(fs_status st = DC_STATUS_DATAFORMAT \<longrightarrow> fst (snd (snd y)) = Completed \<longrightarrow>
            fst (snd (snd (snd y))) = DC_STATUS_DATAFORMAT)
       \<and> (\<exists>ys. snd (snd (snd (snd y))) = delivered @ ys)"
proof (rule suunto_common2_dives.raw_induct [where P = "\<lambda>vtable_packet callback device dev user
      delivered st y.
      (fs_status st = DC_STATUS_DATAFORMAT \<longrightarrow> fst (snd (snd y)) = Completed \<longrightarrow>
            fst (snd (snd (snd y))) = DC_STATUS_DATAFORMAT)
       \<and> (\<exists>ys. snd (snd (snd (snd y))) = delivered @ ys)", OF _ assms], goal_cases)
  case (1 f vtable_packet callback device dev user delivered st y)
  note ih = "1"(1) and body = "1"(2)
  show ?case
  proof (cases "fs_remaining st \<noteq> 0")
    case False
    with body show ?thesis by auto
  next
    case True
    let ?layout = "dev_layout device"
    let ?dsize = "ringbuffer_distance (fs_current st) (fs_previous st) True
        (lay_rb_profile_begin ?layout) (lay_rb_profile_end ?layout)"
    show ?thesis
    proof (cases "?dsize < 4 \<or> ?dsize > fs_remaining st")
      case bad: True
      with True body show ?thesis by (auto simp: Let_def)
    next
      case ok: False
      from True ok body obtain dev' r where
        dl: "suunto_common2_download vtable_packet ?layout (fs_remaining st) ?dsize dev
               (fs_available st) (fs_address st) (fs_offset st) (fs_data st) = Some (dev', r)"
        by (auto simp: Let_def bind_eq_Some_conv)
      show ?thesis
      proof (cases r)
        case (Inl rc)
        with True ok dl body show ?thesis by (auto simp: Let_def)
      next
        case (Inr t)
        obtain nbytes address offset data where t: "t = (nbytes, address, offset, data)"
          by (cases t) auto
        from True ok dl Inr t body show ?thesis
          by (auto simp: Let_def split: if_splits option.splits prod.splits
              dest!: ih)
      qed
    qed
  qed
qed

text \<open>The inner and the outer loop return for well-formed layouts and states.\<close>

lemma suunto_common2_download_done:
  "\<not> nbytes < dsize \<Longrightarrow>
     suunto_common2_download vtable_packet layout remaining dsize dev nbytes address offset data =
       Some (dev, Inr (nbytes, address, offset, data))"
  by (subst suunto_common2_download.simps) simp

lemma unat_add_32:
  fixes x y :: "32 word"
  shows "unat x + unat y < 4294967296 \<Longrightarrow> unat (x + y) = unat x + unat y"
  using unat_add_lem [of x y] by simp

lemma suunto_common2_download_returns:
  assumes ok: "suunto_layout_ok layout"
    and rem: "remaining \<le> lay_rb_profile_end layout - lay_rb_profile_begin layout"
    and ds: "dsize \<le> remaining"
  shows "nbytes \<le> remaining \<Longrightarrow>
     lay_rb_profile_begin layout \<le> address \<Longrightarrow> address \<le> lay_rb_profile_end layout \<Longrightarrow>
     \<exists>dev' r. suunto_common2_download vtable_packet layout remaining dsize dev nbytes address
         offset data = Some (dev', r) \<and>
       (\<forall>nb ad off d. r = Inr (nb, ad, off, d) \<longrightarrow>
          dsize \<le> nb \<and> nb \<le> remaining \<and> lay_rb_profile_begin layout \<le> ad \<and>
          ad \<le> lay_rb_profile_end layout)"
proof (induction "unat remaining - unat nbytes" arbitrary: nbytes address offset data dev
    rule: less_induct)
  case less
  define B where "B = lay_rb_profile_begin layout"
  define E where "E = lay_rb_profile_end layout"
  from ok have be: "B < E" and e: "unat E + 120 < 4294967296"
    by (simp_all add: suunto_layout_ok_def B_def E_def SZ_PACKET_def)
  note unf = suunto_common2_download.simps [of vtable_packet layout remaining dsize dev nbytes
      address offset data]
  show ?case
  proof (cases "nbytes < dsize")
    case False
    with less.prems show ?thesis
      by (simp add: unf)
  next
    case True
    define address1 where "address1 = (if address = B then E else address)"
    define len1 where "len1 = (if B + 120 > address1 then address1 - B else 120)"
    define len where "len = (if nbytes + len1 > remaining then remaining - nbytes else len1)"
    define extra :: "32 word" where "extra = (if len < 8 then 8 - len else 0)"
    have k: "word_of_nat SZ_PACKET = (120 :: 32 word)" "word_of_nat SZ_MINIMUM = (8 :: 32 word)"
      by (simp_all add: SZ_PACKET_def SZ_MINIMUM_def)
    from be have nbe: "unat B < unat E"
      by (simp add: word_less_nat_alt)
    from be have "B \<le> E"
      by simp
    from rem unat_sub [OF this] have r: "unat remaining \<le> unat E - unat B"
      by (simp add: word_le_nat_alt B_def E_def)
    from less.prems(1) have nr: "unat nbytes \<le> unat remaining"
      by (simp add: word_le_nat_alt)
    from True ds have nd: "unat nbytes < unat remaining"
      by (simp add: word_le_nat_alt word_less_nat_alt)
    have "B \<noteq> address \<Longrightarrow> unat B < unat address"
      using less.prems(2) by (simp add: word_le_nat_alt B_def word_unat_eq_iff)
    with nbe less.prems(3) have a1: "unat B < unat address1" "unat address1 \<le> unat E"
      by (auto simp add: address1_def E_def word_le_nat_alt)
    then have ba: "B \<le> address1"
      by (simp add: word_le_nat_alt)
    from nbe e have "unat B + unat (120 :: 32 word) < 4294967296"
      by simp
    then have b120: "unat (B + 120) = unat B + 120"
      by (simp add: unat_add_32)
    from a1 ba b120 have l1: "0 < unat len1" "unat len1 \<le> 120"
      "unat len1 \<le> unat address1 - unat B"
      by (auto simp add: len1_def word_less_nat_alt unat_sub)
    from l1 nr r e have "unat nbytes + unat len1 < 4294967296"
      by linarith
    then have nl1: "unat (nbytes + len1) = unat nbytes + unat len1"
      by (rule unat_add_32)
    from nl1 l1 nd less.prems(1) have l: "0 < unat len" "unat nbytes + unat len \<le> unat remaining"
      "unat len \<le> unat len1"
      by (auto simp add: len_def word_less_nat_alt unat_sub)
    from l r e have "unat nbytes + unat len < 4294967296"
      by linarith
    then have nl: "unat (nbytes + len) = unat nbytes + unat len"
      by (rule unat_add_32)
    from l l1 have "len \<le> address1"
      by (simp add: word_le_nat_alt)
    then have al: "unat (address1 - len) = unat address1 - unat len"
      by (simp add: unat_sub)
    from al l l1 a1 have a': "B \<le> address1 - len" "address1 - len \<le> E"
      by (simp_all add: word_le_nat_alt)
    from nl l have l2: "nbytes + len \<le> remaining"
      by (simp add: word_le_nat_alt)
    from nl l have m: "unat remaining - unat (nbytes + len) < unat remaining - unat nbytes"
      by simp
    have step: "suunto_common2_download vtable_packet layout remaining dsize dev nbytes
        address offset data =
      (case suunto_common2_device_read vtable_packet dev (address1 - len - extra)
              (unat (len + extra)) of
         (dev', rc, bytes) \<Rightarrow>
           if rc \<noteq> DC_STATUS_SUCCESS then Some (dev', Inl rc)
           else suunto_common2_download vtable_packet layout remaining dsize dev'
                  (nbytes + len) (address1 - len) (offset - len)
                  (write_at data (unat (offset - len - extra)) bytes))"
      using True unfolding address1_def len1_def len_def extra_def B_def E_def
      by (subst unf, unfold k Let_def) simp
    obtain dev' rc bytes where rd: "suunto_common2_device_read vtable_packet dev
        (address1 - len - extra) (unat (len + extra)) = (dev', rc, bytes)"
      by (cases "suunto_common2_device_read vtable_packet dev
        (address1 - len - extra) (unat (len + extra))") auto
    show ?thesis
    proof (cases "rc = DC_STATUS_SUCCESS")
      case False
      with rd show ?thesis
        by (simp add: step)
    next
      case ok: True
      from less.hyps [OF m l2, of "address1 - len" dev' "offset - len"
          "write_at data (unat (offset - len - extra)) bytes"] a'
      have "\<exists>dev'' r. suunto_common2_download vtable_packet layout remaining dsize dev'
          (nbytes + len) (address1 - len) (offset - len)
          (write_at data (unat (offset - len - extra)) bytes) = Some (dev'', r) \<and>
         (\<forall>nb ad off d. r = Inr (nb, ad, off, d) \<longrightarrow>
          dsize \<le> nb \<and> nb \<le> remaining \<and> lay_rb_profile_begin layout \<le> ad \<and>
          ad \<le> lay_rb_profile_end layout)"
        by (simp add: B_def E_def)
      with rd ok show ?thesis
        by (simp add: step)
    qed
  qed
qed

lemma suunto_common2_dives_not_None:
  assumes ok: "suunto_layout_ok (dev_layout device)"
  shows "foreach_state_ok (dev_layout device) st \<Longrightarrow>
     suunto_common2_dives vtable_packet callback device dev user delivered st \<noteq> None"
proof (induction "unat (fs_remaining st)" arbitrary: st dev user delivered rule: less_induct)
  case less
  define layout where "layout = dev_layout device"
  define dsize where "dsize = ringbuffer_distance (fs_current st) (fs_previous st) True
      (lay_rb_profile_begin layout) (lay_rb_profile_end layout)"
  note unf = suunto_common2_dives.simps [of vtable_packet callback device dev user delivered st]
  from less.prems have inv: "fs_remaining st \<le> lay_rb_profile_end layout - lay_rb_profile_begin layout"
    "fs_available st \<le> fs_remaining st" "lay_rb_profile_begin layout \<le> fs_address st"
    "fs_address st \<le> lay_rb_profile_end layout"
    by (simp_all add: foreach_state_ok_def layout_def)
  show ?case
  proof (cases "fs_remaining st = 0 \<or> dsize < 4 \<or> dsize > fs_remaining st")
    case True
    then show ?thesis
      unfolding dsize_def layout_def by (subst unf) (auto simp add: Let_def)
  next
    case False
    then have ds: "dsize \<le> fs_remaining st" and d4: "4 \<le> dsize"
      by (simp_all add: not_less)
    from suunto_common2_download_returns [OF ok [folded layout_def] inv(1) ds inv(2) inv(3) inv(4),
        of vtable_packet dev "fs_offset st" "fs_data st"]
    obtain dev' r where dl: "suunto_common2_download vtable_packet layout (fs_remaining st) dsize
        dev (fs_available st) (fs_address st) (fs_offset st) (fs_data st) = Some (dev', r)"
      and post: "\<And>nb ad off d. r = Inr (nb, ad, off, d) \<Longrightarrow>
          dsize \<le> nb \<and> nb \<le> fs_remaining st \<and> lay_rb_profile_begin layout \<le> ad \<and>
          ad \<le> lay_rb_profile_end layout"
      by blast
    show ?thesis
    proof (cases r)
      case (Inl rc)
      with False dl show ?thesis
        unfolding dsize_def layout_def by (subst unf) (simp add: Let_def)
    next
      case (Inr t)
      obtain nbytes address offset data where t: "t = (nbytes, address, offset, data)"
        by (cases t) auto
      from post [of nbytes address offset data] Inr t
      have nb: "dsize \<le> nbytes" "nbytes \<le> fs_remaining st"
        and ad: "lay_rb_profile_begin layout \<le> address" "address \<le> lay_rb_profile_end layout"
        by simp_all
      define st' where "st' = \<lparr> fs_status = fs_status st,
          fs_remaining = fs_remaining st - dsize, fs_available = nbytes - dsize,
          fs_current = word_of_nat (array_uint16_le data (unat (offset + (nbytes - dsize)))),
          fs_previous = fs_current st, fs_address = address, fs_offset = offset,
          fs_data = data \<rparr>"
      from ds d4 have lt: "unat (fs_remaining st - dsize) < unat (fs_remaining st)"
        by (simp add: unat_sub word_le_nat_alt)
      from ds inv(1) have r': "fs_remaining st - dsize
          \<le> lay_rb_profile_end layout - lay_rb_profile_begin layout"
        by (simp add: unat_sub word_le_nat_alt)
      from ds nb have a': "nbytes - dsize \<le> fs_remaining st - dsize"
        by (simp add: unat_sub word_le_nat_alt)
      have ih: "suunto_common2_dives vtable_packet callback device d u l
          (st' \<lparr> fs_status := s \<rparr>) \<noteq> None" for d u l s
        using lt r' a' ad
        by (intro less.hyps) (simp_all add: st'_def foreach_state_ok_def layout_def)
      define K where "K d u l s = suunto_common2_dives vtable_packet callback device d u l
          (st' \<lparr> fs_status := s \<rparr>)" for d u l s
      define p where "p = unat (offset + (nbytes - dsize))"
      define nxt :: "32 word" where "nxt = word_of_nat (array_uint16_le data (p + 2))"
      define fp where "fp = take (length (dev_fingerprint device))
          (drop (p + unat (lay_fingerprint layout + 4)) data)"
      define dive where "dive = take (unat (dsize - 4)) (drop (p + 4) data)"
      have step: "suunto_common2_dives vtable_packet callback device dev user delivered st =
        (if fs_current st' < lay_rb_profile_begin layout \<or>
            fs_current st' \<ge> lay_rb_profile_end layout \<or>
            nxt < lay_rb_profile_begin layout \<or> nxt \<ge> lay_rb_profile_end layout
         then Some (dev', user, Aborted, DC_STATUS_DATAFORMAT, delivered)
         else if nxt \<noteq> fs_previous st \<and> nxt \<noteq> fs_current st
         then Some (dev', user, Aborted, DC_STATUS_DATAFORMAT, delivered)
         else if nxt \<noteq> fs_current st then
           (if fp = dev_fingerprint device
            then Some (dev', user, Stopped, DC_STATUS_SUCCESS, delivered)
            else (case callback of
                    None \<Rightarrow> K dev' user delivered (fs_status st)
                  | Some cb \<Rightarrow>
                      (case cb user dive fp of
                         (user', continue) \<Rightarrow>
                           if \<not> continue
                           then Some (dev', user', Stopped, DC_STATUS_SUCCESS,
                                      delivered @ [(dive, fp)])
                           else K dev' user' (delivered @ [(dive, fp)]) (fs_status st))))
         else K dev' user delivered DC_STATUS_DATAFORMAT)"
        using False dl Inr t
        unfolding K_def st'_def dive_def fp_def nxt_def p_def dsize_def layout_def
        by (subst unf) (simp add: Let_def split: option.split prod.split)
      have "K d u l s \<noteq> None" for d u l s
        unfolding K_def by (rule ih)
      then show ?thesis
        unfolding step by (simp split: option.split prod.split)
    qed
  qed
qed

lemma suunto_common2_dives_returns:
  assumes "suunto_layout_ok (dev_layout device)"
    and "foreach_state_ok (dev_layout device) st"
  shows "\<exists>y. suunto_common2_dives vtable_packet callback device dev user delivered st = Some y"
  using suunto_common2_dives_not_None [OF assms] by auto

lemma ringbuffer_distance_le:
  assumes "rb_begin < rb_end"
  shows "ringbuffer_distance a b mode rb_begin rb_end \<le> rb_end - rb_begin"
proof -
  from assms have pos: "0 < rb_end - rb_begin"
    by (simp add: word_neq_0_conv [symmetric])
  have m: "x mod (rb_end - rb_begin) \<le> rb_end - rb_begin" for x
    using word_mod_less_divisor [OF pos, of x] by simp
  show ?thesis
    unfolding ringbuffer_distance_def using m by (simp add: word_sub_le)
qed

lemma suunto_common2_device_foreach_returns:
  assumes "suunto_layout_ok (dev_layout device)"
  shows "\<exists>y. suunto_common2_device_foreach vtable_packet callback device dev user = Some y"
proof -
  define layout where "layout = dev_layout device"
  from assms have be: "lay_rb_profile_begin layout < lay_rb_profile_end layout"
    by (simp add: suunto_layout_ok_def layout_def)
  obtain dev1 rc1 serial where r1: "suunto_common2_device_read vtable_packet dev
      (lay_serial layout) SZ_MINIMUM = (dev1, rc1, serial)"
    by (cases "suunto_common2_device_read vtable_packet dev (lay_serial layout) SZ_MINIMUM") auto
  obtain dev2 rc2 header where r2: "suunto_common2_device_read vtable_packet dev1 0x0190 8 =
      (dev2, rc2, header)"
    by (cases "suunto_common2_device_read vtable_packet dev1 0x0190 8") auto
  have "\<exists>y. suunto_common2_dives vtable_packet callback device dev2 user []
      \<lparr> fs_status = DC_STATUS_SUCCESS, fs_remaining = ringbuffer_distance b e mode
          (lay_rb_profile_begin layout) (lay_rb_profile_end layout),
        fs_available = 0, fs_current = last, fs_previous = e, fs_address = e,
        fs_offset = off, fs_data = buf \<rparr> = Some y"
    if "lay_rb_profile_begin layout \<le> e" and "e < lay_rb_profile_end layout"
    for b e mode last off buf
    using that ringbuffer_distance_le [OF be]
    by (intro suunto_common2_dives_returns assms)
       (simp add: foreach_state_ok_def layout_def [symmetric])
  with r1 r2 show ?thesis
    unfolding suunto_common2_device_foreach_def layout_def [symmetric]
    by (simp add: Let_def not_less not_le)
qed

text \<open>
  The example device: a ring buffer from 0x20 to 0x60 that holds an older dive at 0x20
  and a newer dive at 0x30, whose next pointer is a parameter.
\<close>

lemma suunto_example_memory_length: "length (suunto_example_memory nxt) = 0x200"
  by (simp add: suunto_example_memory_def suunto_example_older_dive_def
      suunto_example_newer_dive_def)

lemma suunto_example_read_serial:
  "suunto_common2_device_read (Some (suunto_example_packet (suunto_example_memory nxt))) () 0x10 8 =
     ((), DC_STATUS_SUCCESS, replicate 8 0)"
  by (simp add: suunto_common2_device_read_def suunto_common2_device_read_loop.simps
      suunto_common2_transfer_def suunto_common2_transfer_loop.simps suunto_example_packet_def
      suunto_example_memory_def suunto_example_older_dive_def suunto_example_newer_dive_def
      SZ_PACKET_def checksum_xor_uint8_def Let_def)

lemma suunto_example_read_header:
  "suunto_common2_device_read (Some (suunto_example_packet (suunto_example_memory nxt))) () 0x190 8 =
     ((), DC_STATUS_SUCCESS, [0x30, 0x00, 0x02, 0x00, 0x40, 0x00, 0x20, 0x00])"
  by (simp add: suunto_common2_device_read_def suunto_common2_device_read_loop.simps
      suunto_common2_transfer_def suunto_common2_transfer_loop.simps suunto_example_packet_def
      suunto_example_memory_def suunto_example_older_dive_def suunto_example_newer_dive_def
      SZ_PACKET_def checksum_xor_uint8_def Let_def)

lemma suunto_example_read_dives:
  "suunto_common2_device_read (Some (suunto_example_packet (suunto_example_memory nxt))) () 0x20 32 =
     ((), DC_STATUS_SUCCESS, suunto_example_older_dive @ suunto_example_newer_dive nxt)"
  by (simp add: suunto_common2_device_read_def suunto_common2_device_read_loop.simps
      suunto_common2_transfer_def suunto_common2_transfer_loop.simps suunto_example_packet_def
      suunto_example_memory_def suunto_example_older_dive_def suunto_example_newer_dive_def
      SZ_PACKET_def checksum_xor_uint8_def Let_def)

lemma suunto_example_download:
  "suunto_common2_download (Some (suunto_example_packet (suunto_example_memory nxt)))
     suunto_example_layout 32 16 () 0 0x40 40 (replicate 72 0) =
   Some ((), Inr (32, 0x20, 8,
     write_at (replicate 72 0) 8 (suunto_example_older_dive @ suunto_example_newer_dive nxt)))"
  by (subst suunto_common2_download.simps)
     (simp add: suunto_example_layout_def SZ_PACKET_def SZ_MINIMUM_def
        suunto_example_read_dives suunto_common2_download_done Let_def)

lemma suunto_example_foreach_start:
  "suunto_common2_device_foreach (Some (suunto_example_packet (suunto_example_memory nxt)))
     callback suunto_example_device () user =
   suunto_common2_dives (Some (suunto_example_packet (suunto_example_memory nxt)))
     callback suunto_example_device () user []
     \<lparr> fs_status = DC_STATUS_SUCCESS, fs_remaining = 32, fs_available = 0, fs_current = 0x30,
       fs_previous = 0x40, fs_address = 0x40, fs_offset = 40, fs_data = replicate 72 0 \<rparr>"
proof -
  have l: "dev_layout suunto_example_device = suunto_example_layout"
    "lay_serial suunto_example_layout = 0x10"
    "lay_rb_profile_begin suunto_example_layout = 0x20"
    "lay_rb_profile_end suunto_example_layout = 0x60"
    by (simp_all add: suunto_example_device_def suunto_example_layout_def)
  show ?thesis
    by (simp add: suunto_common2_device_foreach_def l SZ_MINIMUM_def suunto_example_read_serial
        suunto_example_read_header array_uint16_le_def ringbuffer_distance_def Let_def)
qed

lemma suunto_example_buffer:
  fixes nxt :: byte
  defines "buf \<equiv> write_at (replicate 72 0) 8
      (suunto_example_older_dive @ suunto_example_newer_dive nxt)"
  shows "array_uint16_le buf 8 = 0x50" and "array_uint16_le buf 10 = 0x30"
    and "array_uint16_le buf 24 = 0x20" and "array_uint16_le buf 26 = unat nxt"
    and "take 7 (drop 12 buf) = replicate 7 0xA1"
    and "take 12 (drop 12 buf) = replicate 12 0xA1"
    and "take 7 (drop 28 buf) = replicate 7 0xB2"
    and "take 12 (drop 28 buf) = replicate 12 0xB2"
  by (simp_all add: buf_def write_at_def suunto_example_older_dive_def
      suunto_example_newer_dive_def array_uint16_le_def nth_append)

lemma suunto_example_older_step:
  "suunto_common2_dives (Some (suunto_example_packet (suunto_example_memory nxt)))
     (Some suunto_example_callback) suunto_example_device () user delivered
     \<lparr> fs_status = status, fs_remaining = 16, fs_available = 16, fs_current = 0x20,
       fs_previous = 0x30, fs_address = 0x20, fs_offset = 8,
       fs_data = write_at (replicate 72 0) 8
         (suunto_example_older_dive @ suunto_example_newer_dive nxt) \<rparr> =
   Some ((), user + 1, Completed, status,
         delivered @ [(replicate 12 0xA1, replicate 7 0xA1)])"
proof -
  have l: "dev_layout suunto_example_device = suunto_example_layout"
    "dev_fingerprint suunto_example_device = replicate 7 0"
    "lay_fingerprint suunto_example_layout = 0"
    "lay_rb_profile_begin suunto_example_layout = 0x20"
    "lay_rb_profile_end suunto_example_layout = 0x60"
    by (simp_all add: suunto_example_device_def suunto_example_layout_def)
  have e: "suunto_common2_dives vp cb dv d u dl
      \<lparr> fs_status = s, fs_remaining = 0, fs_available = a, fs_current = c, fs_previous = pr,
        fs_address = ad, fs_offset = off, fs_data = buf \<rparr> = Some (d, u, Completed, s, dl)"
    for vp cb dv d u dl s a c pr ad off buf
    by (subst suunto_common2_dives.simps) simp
  show ?thesis
    by (subst suunto_common2_dives.simps)
       (simp add: l ringbuffer_distance_def suunto_common2_download_done suunto_example_buffer
          suunto_example_callback_def e Let_def)
qed

text \<open>
  Claim C3 as stated fails: when the next pointer of the newer dive is 0x28, which is
  neither the start of the dive traversed before (0x40) nor its own start (0x30), the
  enumeration is aborted with \<open>DC_STATUS_DATAFORMAT\<close> and the older dive is not passed
  to the callback, although it is passed when the memory is continuous.
\<close>

theorem suunto_common2_discontinuity_aborts:
  "suunto_common2_device_foreach (Some (suunto_example_packet (suunto_example_memory 0x28)))
     (Some suunto_example_callback) suunto_example_device () 0 =
     Some ((), 0, Aborted, DC_STATUS_DATAFORMAT, [])
   \<and> suunto_common2_device_foreach (Some (suunto_example_packet (suunto_example_memory 0x40)))
     (Some suunto_example_callback) suunto_example_device () 0 =
     Some ((), 2, Completed, DC_STATUS_SUCCESS,
           [(replicate 12 0xB2, replicate 7 0xB2), (replicate 12 0xA1, replicate 7 0xA1)])"
proof -
  have l: "dev_layout suunto_example_device = suunto_example_layout"
    "dev_fingerprint suunto_example_device = replicate 7 0"
    "lay_fingerprint suunto_example_layout = 0"
    "lay_rb_profile_begin suunto_example_layout = 0x20"
    "lay_rb_profile_end suunto_example_layout = 0x60"
    by (simp_all add: suunto_example_device_def suunto_example_layout_def)
  have a: "suunto_common2_device_foreach (Some (suunto_example_packet (suunto_example_memory 0x28)))
     (Some suunto_example_callback) suunto_example_device () 0 =
     Some ((), 0, Aborted, DC_STATUS_DATAFORMAT, [])"
    unfolding suunto_example_foreach_start
    by (subst suunto_common2_dives.simps)
       (simp add: l ringbuffer_distance_def suunto_example_download suunto_example_buffer
          Let_def)
  have b: "suunto_common2_device_foreach (Some (suunto_example_packet (suunto_example_memory 0x40)))
     (Some suunto_example_callback) suunto_example_device () 0 =
     Some ((), 2, Completed, DC_STATUS_SUCCESS,
           [(replicate 12 0xB2, replicate 7 0xB2), (replicate 12 0xA1, replicate 7 0xA1)])"
    unfolding suunto_example_foreach_start
    by (subst suunto_common2_dives.simps)
       (simp add: l ringbuffer_distance_def suunto_example_download suunto_example_older_step
          suunto_example_buffer suunto_example_callback_def Let_def)
  from a b show ?thesis by simp
qed

text \<open>
  Claim C3, amended. Let the loop of \<open>suunto_common2_device_foreach\<close> be at a dive
  of a valid size that it has read, with both pointers of the dive in the ring buffer,
  for a layout and a loop state that are well formed. If the next pointer of the dive
  equals its own start address, the dive is skipped: the loop goes on from the older
  dive with the user data and the dives passed to the callback unchanged and with the
  status \<open>DC_STATUS_DATAFORMAT\<close>; the call returns, the dives passed to the callback
  before are still in its result, and when the enumeration runs to its end the status
  returned is \<open>DC_STATUS_DATAFORMAT\<close>. If the next pointer equals neither the start
  of the dive traversed before nor its own start, the call returns
  \<open>DC_STATUS_DATAFORMAT\<close> at once and no other dive is passed to the callback.
\<close>

theorem suunto_common2_discontinuous_dive:
  assumes "suunto_layout_ok (dev_layout device)"
    and "foreach_state_ok (dev_layout device) st"
    and "fs_remaining st \<noteq> 0"
    and "dsize = ringbuffer_distance (fs_current st) (fs_previous st) True
           (lay_rb_profile_begin (dev_layout device)) (lay_rb_profile_end (dev_layout device))"
    and "\<not> (dsize < 4 \<or> dsize > fs_remaining st)"
    and "suunto_common2_download vtable_packet (dev_layout device) (fs_remaining st) dsize dev
           (fs_available st) (fs_address st) (fs_offset st) (fs_data st) =
         Some (dev', Inr (nbytes, address, offset, data))"
    and "p = unat (offset + (nbytes - dsize))"
    and "prv = word_of_nat (array_uint16_le data p)"
    and "nxt = word_of_nat (array_uint16_le data (p + 2))"
    and "\<not> (prv < lay_rb_profile_begin (dev_layout device) \<or>
            prv \<ge> lay_rb_profile_end (dev_layout device) \<or>
            nxt < lay_rb_profile_begin (dev_layout device) \<or>
            nxt \<ge> lay_rb_profile_end (dev_layout device))"
    and "st' = \<lparr> fs_status = DC_STATUS_DATAFORMAT, fs_remaining = fs_remaining st - dsize,
                 fs_available = nbytes - dsize, fs_current = prv, fs_previous = fs_current st,
                 fs_address = address, fs_offset = offset, fs_data = data \<rparr>"
  shows "(nxt = fs_current st \<longrightarrow>
            (\<exists>d u e s ys.
               suunto_common2_dives vtable_packet callback device dev user delivered st =
                 Some (d, u, e, s, delivered @ ys)
               \<and> suunto_common2_dives vtable_packet callback device dev' user delivered st' =
                 Some (d, u, e, s, delivered @ ys)
               \<and> (e = Completed \<longrightarrow> s = DC_STATUS_DATAFORMAT)))
       \<and> (nxt \<noteq> fs_previous st \<and> nxt \<noteq> fs_current st \<longrightarrow>
            suunto_common2_dives vtable_packet callback device dev user delivered st =
              Some (dev', user, Aborted, DC_STATUS_DATAFORMAT, delivered))"
proof -
  note unfold = suunto_common2_dives.simps [of vtable_packet callback device dev user delivered st]
  have skip: "\<exists>d u e s ys.
      suunto_common2_dives vtable_packet callback device dev user delivered st =
        Some (d, u, e, s, delivered @ ys)
      \<and> suunto_common2_dives vtable_packet callback device dev' user delivered st' =
        Some (d, u, e, s, delivered @ ys)
      \<and> (e = Completed \<longrightarrow> s = DC_STATUS_DATAFORMAT)"
    if "nxt = fs_current st"
  proof -
    have eq: "suunto_common2_dives vtable_packet callback device dev user delivered st =
        suunto_common2_dives vtable_packet callback device dev' user delivered st'"
      using that assms(3-11) by (simp add: unfold Let_def)
    from suunto_common2_dives_returns [OF assms(1) assms(2)]
    obtain d u e s dl where y: "suunto_common2_dives vtable_packet callback device dev user
        delivered st = Some (d, u, e, s, dl)"
      by (metis prod_cases5)
    then have y': "suunto_common2_dives vtable_packet callback device dev' user delivered st' =
        Some (d, u, e, s, dl)"
      by (simp add: eq)
    from suunto_common2_dives_invariants [OF y'] assms(11)
    have "e = Completed \<longrightarrow> s = DC_STATUS_DATAFORMAT" and "\<exists>ys. dl = delivered @ ys"
      by simp_all
    with y y' show ?thesis
      by blast
  qed
  have abort: "suunto_common2_dives vtable_packet callback device dev user delivered st =
      Some (dev', user, Aborted, DC_STATUS_DATAFORMAT, delivered)"
    if "nxt \<noteq> fs_previous st \<and> nxt \<noteq> fs_current st"
    using that assms(3-10) by (simp add: unfold Let_def)
  from skip abort show ?thesis
    by blast
qed

theorem suunto_common2_discontinuous_dive_witness:
  "suunto_common2_device_foreach (Some (suunto_example_packet (suunto_example_memory 0x30)))
     (Some suunto_example_callback) suunto_example_device () 0 =
     Some ((), 1, Completed, DC_STATUS_DATAFORMAT, [(replicate 12 0xA1, replicate 7 0xA1)])
   \<and> suunto_common2_device_foreach (Some (suunto_example_packet (suunto_example_memory 0x2C)))
     (Some suunto_example_callback) suunto_example_device () 0 =
     Some ((), 0, Aborted, DC_STATUS_DATAFORMAT, [])"
proof -
  define sa :: foreach_state where "sa =
    \<lparr> fs_status = DC_STATUS_SUCCESS, fs_remaining = 32, fs_available = 0, fs_current = 0x30,
      fs_previous = 0x40, fs_address = 0x40, fs_offset = 40, fs_data = replicate 72 0 \<rparr>"
  define buf :: "byte \<Rightarrow> byte list" where "buf nxt =
    write_at (replicate 72 0) 8 (suunto_example_older_dive @ suunto_example_newer_dive nxt)"
    for nxt
  define sb :: "byte \<Rightarrow> foreach_state" where "sb nxt =
    \<lparr> fs_status = DC_STATUS_DATAFORMAT, fs_remaining = 32 - 16, fs_available = 32 - 16,
      fs_current = 0x20, fs_previous = fs_current sa, fs_address = 0x20, fs_offset = 8,
      fs_data = buf nxt \<rparr>" for nxt
  have l: "dev_layout suunto_example_device = suunto_example_layout"
    "lay_rb_profile_begin suunto_example_layout = 0x20"
    "lay_rb_profile_end suunto_example_layout = 0x60"
    by (simp_all add: suunto_example_device_def suunto_example_layout_def)
  have hk: "suunto_layout_ok (dev_layout suunto_example_device)"
    by (simp add: suunto_layout_ok_def l SZ_PACKET_def)
  have hl: "foreach_state_ok (dev_layout suunto_example_device) sa"
    by (simp add: foreach_state_ok_def l sa_def)
  have ha: "fs_remaining sa \<noteq> 0"
    by (simp add: sa_def)
  have hb: "16 = ringbuffer_distance (fs_current sa) (fs_previous sa) True
      (lay_rb_profile_begin (dev_layout suunto_example_device))
      (lay_rb_profile_end (dev_layout suunto_example_device))"
    by (simp add: sa_def l ringbuffer_distance_def)
  have hc: "\<not> ((16 :: 32 word) < 4 \<or> 16 > fs_remaining sa)"
    by (simp add: sa_def)
  have hd: "suunto_common2_download (Some (suunto_example_packet (suunto_example_memory nxt)))
      (dev_layout suunto_example_device) (fs_remaining sa) 16 () (fs_available sa)
      (fs_address sa) (fs_offset sa) (fs_data sa) = Some ((), Inr (32, 0x20, 8, buf nxt))" for nxt
    by (simp add: sa_def l buf_def suunto_example_download)
  have he: "24 = unat ((8 :: 32 word) + (32 - 16))"
    by simp
  have hf: "(0x20 :: 32 word) = word_of_nat (array_uint16_le (buf nxt) 24)" for nxt
    by (simp add: buf_def suunto_example_buffer)
  have hg: "(ucast nxt :: 32 word) = word_of_nat (array_uint16_le (buf nxt) (24 + 2))" for nxt
    by (simp add: buf_def suunto_example_buffer)
  have hh: "\<not> ((0x20 :: 32 word) < lay_rb_profile_begin (dev_layout suunto_example_device) \<or>
      0x20 \<ge> lay_rb_profile_end (dev_layout suunto_example_device) \<or>
      (ucast nxt :: 32 word) < lay_rb_profile_begin (dev_layout suunto_example_device) \<or>
      ucast nxt \<ge> lay_rb_profile_end (dev_layout suunto_example_device))"
    if "nxt = 0x30 \<or> nxt = 0x2C" for nxt :: byte
    using that by (auto simp add: l)
  have hi: "sb nxt = \<lparr> fs_status = DC_STATUS_DATAFORMAT, fs_remaining = fs_remaining sa - 16,
      fs_available = 32 - 16, fs_current = 0x20, fs_previous = fs_current sa,
      fs_address = 0x20, fs_offset = 8, fs_data = buf nxt \<rparr>" for nxt
    by (simp add: sb_def sa_def)
  note t = suunto_common2_discontinuous_dive [where callback = "Some suunto_example_callback"
      and user = 0 and delivered = "[]", OF hk hl ha hb hc hd he hf hg hh hi]
  have "suunto_common2_dives (Some (suunto_example_packet (suunto_example_memory 0x30)))
      (Some suunto_example_callback) suunto_example_device () 0 [] sa =
    suunto_common2_dives (Some (suunto_example_packet (suunto_example_memory 0x30)))
      (Some suunto_example_callback) suunto_example_device () 0 [] (sb 0x30)"
    using t [of "0x30"] by (auto simp add: sa_def)
  then have a: "suunto_common2_device_foreach
      (Some (suunto_example_packet (suunto_example_memory 0x30)))
      (Some suunto_example_callback) suunto_example_device () 0 =
     Some ((), 1, Completed, DC_STATUS_DATAFORMAT, [(replicate 12 0xA1, replicate 7 0xA1)])"
    unfolding suunto_example_foreach_start
    by (simp add: sa_def sb_def buf_def suunto_example_older_step)
  have "suunto_common2_dives (Some (suunto_example_packet (suunto_example_memory 0x2C)))
      (Some suunto_example_callback) suunto_example_device () 0 [] sa =
    Some ((), 0, Aborted, DC_STATUS_DATAFORMAT, [])"
    using t [of "0x2C"] by (simp add: sa_def)
  then have b: "suunto_common2_device_foreach
      (Some (suunto_example_packet (suunto_example_memory 0x2C)))
      (Some suunto_example_callback) suunto_example_device () 0 =
     Some ((), 0, Aborted, DC_STATUS_DATAFORMAT, [])"
    unfolding suunto_example_foreach_start
    by (simp add: sa_def)
  from a b show ?thesis
    by simp
qed


section \<open>Minimum-size guards\<close>

lemma reefnet_sensuspro_find_short:
  "length data < 10 \<Longrightarrow>
     reefnet_sensuspro_find FSW parser data offset =
       (if \<exists>off \<ge> offset. off + 4 \<le> length data \<and> take 4 (drop off data) = [0x00, 0x00, 0x00, 0x00]
        then DC_STATUS_DATAFORMAT else DC_STATUS_SUCCESS, [])"
proof (induction FSW parser data offset rule: reefnet_sensuspro_find.induct)
  case (1 FSW parser data offset)
  show ?case
  proof (cases "offset + 4 \<le> length data")
    case False
    then show ?thesis
      by (subst reefnet_sensuspro_find.simps) auto
  next
    case True
    show ?thesis
    proof (cases "take 4 (drop offset data) = [0x00, 0x00, 0x00, 0x00]")
      case z: True
      with True have "\<exists>off \<ge> offset. off + 4 \<le> length data \<and> take 4 (drop off data) = [0x00, 0x00, 0x00, 0x00]"
        by blast
      with True z "1.prems" show ?thesis
        by (subst reefnet_sensuspro_find.simps) simp
    next
      case nz: False
      have "(\<exists>off \<ge> offset. off + 4 \<le> length data \<and> take 4 (drop off data) = [0x00, 0x00, 0x00, 0x00])
          = (\<exists>off \<ge> offset + 1. off + 4 \<le> length data \<and> take 4 (drop off data) = [0x00, 0x00, 0x00, 0x00])"
        using nz by (metis Suc_eq_plus1 Suc_leI le_eq_less_or_eq Suc_leD)
      with True nz "1.IH" [OF True nz "1.prems"] show ?thesis
        by (subst reefnet_sensuspro_find.simps) simp
    qed
  qed
qed

lemma reefnet_sensusultra_find_short:
  "length data < 16 \<Longrightarrow>
     reefnet_sensusultra_find BAR parser data offset =
       (if \<exists>off \<ge> offset. off + 4 \<le> length data \<and> take 4 (drop off data) = [0x00, 0x00, 0x00, 0x00]
        then DC_STATUS_DATAFORMAT else DC_STATUS_SUCCESS, [])"
proof (induction BAR parser data offset rule: reefnet_sensusultra_find.induct)
  case (1 BAR parser data offset)
  show ?case
  proof (cases "offset + 4 \<le> length data")
    case False
    then show ?thesis
      by (subst reefnet_sensusultra_find.simps) auto
  next
    case True
    show ?thesis
    proof (cases "take 4 (drop offset data) = [0x00, 0x00, 0x00, 0x00]")
      case z: True
      with True have "\<exists>off \<ge> offset. off + 4 \<le> length data \<and> take 4 (drop off data) = [0x00, 0x00, 0x00, 0x00]"
        by blast
      with True z "1.prems" show ?thesis
        by (subst reefnet_sensusultra_find.simps) simp
    next
      case nz: False
      have "(\<exists>off \<ge> offset. off + 4 \<le> length data \<and> take 4 (drop off data) = [0x00, 0x00, 0x00, 0x00])
          = (\<exists>off \<ge> offset + 1. off + 4 \<le> length data \<and> take 4 (drop off data) = [0x00, 0x00, 0x00, 0x00])"
        using nz by (metis Suc_eq_plus1 Suc_leI le_eq_less_or_eq Suc_leD)
      with True nz "1.IH" [OF True nz "1.prems"] show ?thesis
        by (subst reefnet_sensusultra_find.simps) simp
    qed
  qed
qed

text \<open>
  Claim C4, amended. On a blob smaller than the size that the operation checks, all of
  \<open>get_datetime\<close>, \<open>get_field\<close> and \<open>samples_foreach\<close> return
  \<open>DC_STATUS_DATAFORMAT\<close> for the Shearwater parsers (two blocks of 128 bytes, and
  three blocks for the fields and samples of a Petrel), the Oceanic Atom2 parser (8 bytes,
  32 for the F10 and F11, for the date; the header and footer size of the model for the
  fields and samples), the Oceanic VT Pro parser (8 and 56 bytes), the Uwatec Memomouse
  parser (15 and 18 bytes) and the Suunto Eon parser (11 bytes, and 13 bytes for the fields
  and samples when the cache is not populated). For the Cressi Leonardo, DiveSystem
  iDive, Reefnet Sensus Pro and Reefnet Sensus Ultra parsers, \<open>get_datetime\<close> and
  \<open>get_field\<close> return \<open>DC_STATUS_DATAFORMAT\<close> on such a blob (82 bytes; 0x32
  bytes; 10 and 12 bytes; 8 and 20 bytes), and so does \<open>get_datetime\<close> of the Uwatec
  Smart parser below the header size of the model; but \<open>samples_foreach\<close> has no such
  guard: below the header size it returns \<open>DC_STATUS_SUCCESS\<close> without a sample for
  Cressi Leonardo and iDive, and for the Sensus Pro below 10 bytes and the Sensus Ultra
  below 16 bytes it returns \<open>DC_STATUS_DATAFORMAT\<close> exactly when the blob holds the
  header marker of four zero bytes and \<open>DC_STATUS_SUCCESS\<close> without a sample
  otherwise. \<open>get_datetime\<close> of the Suunto EON Steel parser returns
  \<open>DC_STATUS_UNSUPPORTED\<close> on a blob of less than 4 bytes.
\<close>

theorem undersized_blob_guards:
  "(length data < 2 * SZ_BLOCK \<longrightarrow>
      shearwater_predator_parser_get_datetime gm data = Inl DC_STATUS_DATAFORMAT)
 \<and> (length data < 2 * SZ_BLOCK \<or> (sw_petrel sp \<and> length data < 3 * SZ_BLOCK) \<longrightarrow>
      fst (shearwater_predator_parser_get_field snprintf sp data type flags) =
        Inl DC_STATUS_DATAFORMAT
    \<and> shearwater_predator_parser_samples_foreach sp data = (DC_STATUS_DATAFORMAT, []))
 \<and> (length data < (if oa_model ap = F10 \<or> oa_model ap = F11 then 32 else 8) \<longrightarrow>
      oceanic_atom2_parser_get_datetime lt now ap data = Inl DC_STATUS_DATAFORMAT)
 \<and> (length data < oa_headersize ap + oa_footersize ap \<longrightarrow>
      fst (oceanic_atom2_parser_get_field PSI BAR stats snprintf ap data type flags) =
        Inl DC_STATUS_DATAFORMAT
    \<and> oceanic_atom2_parser_samples_foreach PSI BAR ap data = (DC_STATUS_DATAFORMAT, []))
 \<and> (length data < 8 \<longrightarrow>
      oceanic_vtpro_parser_get_datetime data = Inl DC_STATUS_DATAFORMAT)
 \<and> (length data < 7 * PAGESIZE div 2 \<longrightarrow>
      fst (oceanic_vtpro_parser_get_field stats vp data type) = Inl DC_STATUS_DATAFORMAT
    \<and> oceanic_vtpro_parser_samples_foreach data = (DC_STATUS_DATAFORMAT, []))
 \<and> (length data < 11 + 4 \<longrightarrow>
      uwatec_memomouse_parser_get_datetime lt mp data = Inl DC_STATUS_DATAFORMAT)
 \<and> (length data < 18 \<longrightarrow>
      uwatec_memomouse_parser_get_field data type = Inl DC_STATUS_DATAFORMAT
    \<and> uwatec_memomouse_parser_samples_foreach data = (DC_STATUS_DATAFORMAT, []))
 \<and> (length data < 6 + 5 \<longrightarrow>
      suunto_eon_parser_get_datetime ep data = Inl DC_STATUS_DATAFORMAT)
 \<and> (length data < 13 \<and> \<not> eon_cached ep \<longrightarrow>
      fst (suunto_eon_parser_get_field ep data type) = Inl DC_STATUS_DATAFORMAT
    \<and> fst (suunto_eon_parser_samples_foreach ep data) = DC_STATUS_DATAFORMAT
    \<and> fst (snd (suunto_eon_parser_samples_foreach ep data)) = [])
 \<and> (length data < cressi_SZ_HEADER \<longrightarrow>
      cressi_leonardo_parser_get_datetime data = Inl DC_STATUS_DATAFORMAT
    \<and> cressi_leonardo_parser_get_field data type = Inl DC_STATUS_DATAFORMAT
    \<and> cressi_leonardo_parser_samples_foreach data = (DC_STATUS_SUCCESS, []))
 \<and> (length data < idive_SZ_HEADER \<longrightarrow>
      divesystem_idive_parser_get_datetime lt data = Inl DC_STATUS_DATAFORMAT
    \<and> fst (divesystem_idive_parser_get_field ip data type flags) = Inl DC_STATUS_DATAFORMAT
    \<and> fst (divesystem_idive_parser_samples_foreach ip data) = DC_STATUS_SUCCESS
    \<and> fst (snd (divesystem_idive_parser_samples_foreach ip data)) = [])
 \<and> (length data < 10 \<longrightarrow>
      reefnet_sensuspro_parser_get_datetime lt rp data = Inl DC_STATUS_DATAFORMAT
    \<and> reefnet_sensuspro_parser_samples_foreach FSW rp data =
        (if \<exists>off. off + 4 \<le> length data \<and> take 4 (drop off data) = [0x00, 0x00, 0x00, 0x00]
         then DC_STATUS_DATAFORMAT else DC_STATUS_SUCCESS, []))
 \<and> (length data < 12 \<longrightarrow>
      fst (reefnet_sensuspro_parser_get_field FSW rp data type) = Inl DC_STATUS_DATAFORMAT)
 \<and> (length data < 4 + 4 \<longrightarrow>
      reefnet_sensusultra_parser_get_datetime lt ru data = Inl DC_STATUS_DATAFORMAT)
 \<and> (length data < 20 \<longrightarrow>
      fst (reefnet_sensusultra_parser_get_field BAR ru data type) = Inl DC_STATUS_DATAFORMAT)
 \<and> (length data < 16 \<longrightarrow>
      reefnet_sensusultra_parser_samples_foreach BAR ru data =
        (if \<exists>off. off + 4 \<le> length data \<and> take 4 (drop off data) = [0x00, 0x00, 0x00, 0x00]
         then DC_STATUS_DATAFORMAT else DC_STATUS_SUCCESS, []))
 \<and> (length data < us_headersize up \<longrightarrow>
      uwatec_smart_parser_get_datetime lt gm up data = Inl DC_STATUS_DATAFORMAT)
 \<and> (length edata < 4 \<longrightarrow>
      suunto_eonsteel_parser_get_datetime gm edata dt = Inl DC_STATUS_UNSUPPORTED)"
proof -
  have shearwater: "shearwater_predator_parser_get_datetime gm data = Inl DC_STATUS_DATAFORMAT"
    if "length data < 2 * SZ_BLOCK"
    using that by (simp add: shearwater_predator_parser_get_datetime_def)
  have shearwater': "fst (shearwater_predator_parser_get_field snprintf sp data type flags) =
        Inl DC_STATUS_DATAFORMAT
      \<and> shearwater_predator_parser_samples_foreach sp data = (DC_STATUS_DATAFORMAT, [])"
    if "length data < 2 * SZ_BLOCK \<or> (sw_petrel sp \<and> length data < 3 * SZ_BLOCK)"
    using that
    by (auto simp add: shearwater_predator_parser_get_field_def
        shearwater_predator_parser_samples_foreach_def shearwater_footer_def)
  have atom2: "oceanic_atom2_parser_get_datetime lt now ap data = Inl DC_STATUS_DATAFORMAT"
    if "length data < (if oa_model ap = F10 \<or> oa_model ap = F11 then 32 else 8)"
    using that by (simp add: oceanic_atom2_parser_get_datetime_def)
  have atom2': "fst (oceanic_atom2_parser_get_field PSI BAR stats snprintf ap data type flags) =
        Inl DC_STATUS_DATAFORMAT
      \<and> oceanic_atom2_parser_samples_foreach PSI BAR ap data = (DC_STATUS_DATAFORMAT, [])"
    if "length data < oa_headersize ap + oa_footersize ap"
    using that
    by (simp add: oceanic_atom2_parser_get_field_def oceanic_atom2_parser_samples_foreach_def)
  have vtpro: "oceanic_vtpro_parser_get_datetime data = Inl DC_STATUS_DATAFORMAT"
    if "length data < 8"
    using that by (simp add: oceanic_vtpro_parser_get_datetime_def)
  have vtpro': "fst (oceanic_vtpro_parser_get_field stats vp data type) = Inl DC_STATUS_DATAFORMAT
      \<and> oceanic_vtpro_parser_samples_foreach data = (DC_STATUS_DATAFORMAT, [])"
    if "length data < 7 * PAGESIZE div 2"
    using that
    by (simp add: oceanic_vtpro_parser_get_field_def oceanic_vtpro_parser_samples_foreach_def)
  have memomouse: "uwatec_memomouse_parser_get_datetime lt mp data = Inl DC_STATUS_DATAFORMAT"
    if "length data < 11 + 4"
    using that by (simp add: uwatec_memomouse_parser_get_datetime_def)
  have memomouse': "uwatec_memomouse_parser_get_field data type = Inl DC_STATUS_DATAFORMAT
      \<and> uwatec_memomouse_parser_samples_foreach data = (DC_STATUS_DATAFORMAT, [])"
    if "length data < 18"
    using that
    by (simp add: uwatec_memomouse_parser_get_field_def uwatec_memomouse_parser_samples_foreach_def)
  have eon: "suunto_eon_parser_get_datetime ep data = Inl DC_STATUS_DATAFORMAT"
    if "length data < 6 + 5"
    using that by (simp add: suunto_eon_parser_get_datetime_def)
  have eon': "fst (suunto_eon_parser_get_field ep data type) = Inl DC_STATUS_DATAFORMAT
      \<and> fst (suunto_eon_parser_samples_foreach ep data) = DC_STATUS_DATAFORMAT
      \<and> fst (snd (suunto_eon_parser_samples_foreach ep data)) = []"
    if "length data < 13 \<and> \<not> eon_cached ep"
    using that
    by (simp add: suunto_eon_parser_get_field_def suunto_eon_parser_samples_foreach_def
        suunto_eon_parser_cache_def)
  have cressi: "cressi_leonardo_parser_get_datetime data = Inl DC_STATUS_DATAFORMAT
      \<and> cressi_leonardo_parser_get_field data type = Inl DC_STATUS_DATAFORMAT
      \<and> cressi_leonardo_parser_samples_foreach data = (DC_STATUS_SUCCESS, [])"
    if a: "length data < cressi_SZ_HEADER"
  proof -
    from a have "\<not> cressi_SZ_HEADER + 2 \<le> length data" by simp
    then have "cressi_leonardo_parser_samples_foreach data = (DC_STATUS_SUCCESS, [])"
      by (simp add: cressi_leonardo_parser_samples_foreach_def cressi_leonardo_samples_end)
    with a show ?thesis
      by (simp add: cressi_leonardo_parser_get_datetime_def cressi_leonardo_parser_get_field_def)
  qed
  have idive: "divesystem_idive_parser_get_datetime lt data = Inl DC_STATUS_DATAFORMAT
      \<and> fst (divesystem_idive_parser_get_field ip data type flags) = Inl DC_STATUS_DATAFORMAT
      \<and> fst (divesystem_idive_parser_samples_foreach ip data) = DC_STATUS_SUCCESS
      \<and> fst (snd (divesystem_idive_parser_samples_foreach ip data)) = []"
    if a: "length data < idive_SZ_HEADER"
  proof -
    from a have "\<not> idive_SZ_HEADER + idive_SZ_SAMPLE \<le> length data" by simp
    then have e: "idive_samples data idive_locals_init idive_SZ_HEADER =
        (DC_STATUS_SUCCESS, [], idive_locals_init)"
      by (rule idive_samples_end)
    with a show ?thesis
      by (simp add: divesystem_idive_parser_get_datetime_def divesystem_idive_parser_get_field_def
          divesystem_idive_parser_samples_foreach_def)
  qed
  have sensuspro: "reefnet_sensuspro_parser_get_datetime lt rp data = Inl DC_STATUS_DATAFORMAT
      \<and> reefnet_sensuspro_parser_samples_foreach FSW rp data =
        (if \<exists>off. off + 4 \<le> length data \<and> take 4 (drop off data) = [0x00, 0x00, 0x00, 0x00]
         then DC_STATUS_DATAFORMAT else DC_STATUS_SUCCESS, [])"
    if "length data < 10"
    using that
    by (simp add: reefnet_sensuspro_parser_get_datetime_def
        reefnet_sensuspro_parser_samples_foreach_def reefnet_sensuspro_find_short)
  have sensuspro': "fst (reefnet_sensuspro_parser_get_field FSW rp data type) =
      Inl DC_STATUS_DATAFORMAT" if "length data < 12"
    using that by (simp add: reefnet_sensuspro_parser_get_field_def)
  have sensusultra: "reefnet_sensusultra_parser_get_datetime lt ru data =
      Inl DC_STATUS_DATAFORMAT" if "length data < 4 + 4"
    using that by (simp add: reefnet_sensusultra_parser_get_datetime_def)
  have sensusultra': "fst (reefnet_sensusultra_parser_get_field BAR ru data type) =
      Inl DC_STATUS_DATAFORMAT" if "length data < 20"
    using that by (simp add: reefnet_sensusultra_parser_get_field_def)
  have sensusultra'': "reefnet_sensusultra_parser_samples_foreach BAR ru data =
        (if \<exists>off. off + 4 \<le> length data \<and> take 4 (drop off data) = [0x00, 0x00, 0x00, 0x00]
         then DC_STATUS_DATAFORMAT else DC_STATUS_SUCCESS, [])"
    if "length data < 16"
    using that
    by (simp add: reefnet_sensusultra_parser_samples_foreach_def reefnet_sensusultra_find_short)
  have smart: "uwatec_smart_parser_get_datetime lt gm up data = Inl DC_STATUS_DATAFORMAT"
    if "length data < us_headersize up"
    using that by (simp add: uwatec_smart_parser_get_datetime_def)
  have eonsteel: "suunto_eonsteel_parser_get_datetime gm edata dt = Inl DC_STATUS_UNSUPPORTED"
    if "length edata < 4"
    using that by (simp add: suunto_eonsteel_parser_get_datetime_def)
  from shearwater shearwater' atom2 atom2' vtpro vtpro' memomouse memomouse' eon eon'
    cressi idive sensuspro sensuspro' sensusultra sensusultra' sensusultra'' smart eonsteel
  show ?thesis
    by (intro conjI) (rule impI, assumption)+
qed

text \<open>
  Claim C4 as stated fails: on the empty blob \<open>samples_foreach\<close> of the Cressi
  Leonardo, DiveSystem iDive, Reefnet Sensus Pro and Reefnet Sensus Ultra parsers
  returns \<open>DC_STATUS_SUCCESS\<close>, and \<open>get_datetime\<close> of the Suunto EON Steel parser
  returns \<open>DC_STATUS_UNSUPPORTED\<close>.
\<close>

theorem undersized_blob_accepted:
  "length ([] :: byte list) < cressi_SZ_HEADER
   \<and> fst (cressi_leonardo_parser_samples_foreach []) = DC_STATUS_SUCCESS
   \<and> fst (cressi_leonardo_parser_samples_foreach []) \<noteq> DC_STATUS_DATAFORMAT
   \<and> fst (divesystem_idive_parser_samples_foreach divesystem_idive_parser_create []) =
        DC_STATUS_SUCCESS
   \<and> fst (reefnet_sensuspro_parser_samples_foreach 3070 sensuspro_example_parser []) =
        DC_STATUS_SUCCESS
   \<and> fst (reefnet_sensusultra_parser_samples_foreach 100000 sensusultra_example_parser []) =
        DC_STATUS_SUCCESS
   \<and> suunto_eonsteel_parser_get_datetime epoch_seconds []
        \<lparr> year = 0, month = 0, day = 0, hour = 0, minute = 0, second = 0 \<rparr> =
        Inl DC_STATUS_UNSUPPORTED"
  by (simp add: cressi_leonardo_parser_samples_foreach_def cressi_SZ_HEADER_def
      divesystem_idive_parser_samples_foreach_def idive_samples.simps idive_SZ_HEADER_def
      idive_SZ_SAMPLE_def reefnet_sensuspro_parser_samples_foreach_def
      reefnet_sensuspro_find.simps reefnet_sensusultra_parser_samples_foreach_def
      reefnet_sensusultra_find.simps suunto_eonsteel_parser_get_datetime_def)

theorem undersized_blob_guards_witness:
  "shearwater_predator_parser_get_datetime epoch_seconds [0x01, 0x00, 0x00, 0x00, 0x00] =
        Inl DC_STATUS_DATAFORMAT
   \<and> fst (shearwater_predator_parser_get_field (\<lambda>n f a. []) (shearwater_petrel_parser_create 0)
        [0x01, 0x00, 0x00, 0x00, 0x00] DC_FIELD_DIVETIME 0) = Inl DC_STATUS_DATAFORMAT
   \<and> shearwater_predator_parser_samples_foreach (shearwater_petrel_parser_create 0)
        [0x01, 0x00, 0x00, 0x00, 0x00] = (DC_STATUS_DATAFORMAT, [])
   \<and> oceanic_atom2_parser_get_datetime epoch_seconds 0 (oceanic_atom2_parser_create ATOM2 0)
        [0x01, 0x00, 0x00, 0x00, 0x00] = Inl DC_STATUS_DATAFORMAT
   \<and> fst (oceanic_atom2_parser_get_field 6895 100000 (\<lambda>ss. (0, 0)) (\<lambda>n f a. [])
        (oceanic_atom2_parser_create ATOM2 0) [0x01, 0x00, 0x00, 0x00, 0x00]
        DC_FIELD_DIVETIME 0) = Inl DC_STATUS_DATAFORMAT
   \<and> oceanic_atom2_parser_samples_foreach 6895 100000 (oceanic_atom2_parser_create ATOM2 0)
        [0x01, 0x00, 0x00, 0x00, 0x00] = (DC_STATUS_DATAFORMAT, [])
   \<and> oceanic_vtpro_parser_get_datetime [0x01, 0x00, 0x00, 0x00, 0x00] = Inl DC_STATUS_DATAFORMAT
   \<and> fst (oceanic_vtpro_parser_get_field (\<lambda>ss. (0, 0)) oceanic_vtpro_parser_create
        [0x01, 0x00, 0x00, 0x00, 0x00] DC_FIELD_DIVETIME) = Inl DC_STATUS_DATAFORMAT
   \<and> oceanic_vtpro_parser_samples_foreach [0x01, 0x00, 0x00, 0x00, 0x00] =
        (DC_STATUS_DATAFORMAT, [])
   \<and> uwatec_memomouse_parser_get_datetime epoch_seconds (uwatec_memomouse_parser_create 10 100)
        [0x01, 0x00, 0x00, 0x00, 0x00] = Inl DC_STATUS_DATAFORMAT
   \<and> uwatec_memomouse_parser_get_field [0x01, 0x00, 0x00, 0x00, 0x00] DC_FIELD_DIVETIME =
        Inl DC_STATUS_DATAFORMAT
   \<and> uwatec_memomouse_parser_samples_foreach [0x01, 0x00, 0x00, 0x00, 0x00] =
        (DC_STATUS_DATAFORMAT, [])
   \<and> suunto_eon_parser_get_datetime (suunto_eon_parser_create False)
        [0x01, 0x00, 0x00, 0x00, 0x00] = Inl DC_STATUS_DATAFORMAT
   \<and> fst (suunto_eon_parser_get_field (suunto_eon_parser_create False)
        [0x01, 0x00, 0x00, 0x00, 0x00] DC_FIELD_DIVETIME) = Inl DC_STATUS_DATAFORMAT
   \<and> fst (suunto_eon_parser_samples_foreach (suunto_eon_parser_create False)
        [0x01, 0x00, 0x00, 0x00, 0x00]) = DC_STATUS_DATAFORMAT
   \<and> cressi_leonardo_parser_get_datetime [0x01, 0x00, 0x00, 0x00, 0x00] = Inl DC_STATUS_DATAFORMAT
   \<and> cressi_leonardo_parser_get_field [0x01, 0x00, 0x00, 0x00, 0x00] DC_FIELD_DIVETIME =
        Inl DC_STATUS_DATAFORMAT
   \<and> cressi_leonardo_parser_samples_foreach [0x01, 0x00, 0x00, 0x00, 0x00] = (DC_STATUS_SUCCESS, [])
   \<and> divesystem_idive_parser_get_datetime epoch_seconds [0x01, 0x00, 0x00, 0x00, 0x00] =
        Inl DC_STATUS_DATAFORMAT
   \<and> fst (divesystem_idive_parser_get_field divesystem_idive_parser_create
        [0x01, 0x00, 0x00, 0x00, 0x00] DC_FIELD_DIVETIME 0) = Inl DC_STATUS_DATAFORMAT
   \<and> fst (divesystem_idive_parser_samples_foreach divesystem_idive_parser_create
        [0x01, 0x00, 0x00, 0x00, 0x00]) = DC_STATUS_SUCCESS
   \<and> reefnet_sensuspro_parser_get_datetime epoch_seconds sensuspro_example_parser
        [0x01, 0x00, 0x00, 0x00, 0x00] = Inl DC_STATUS_DATAFORMAT
   \<and> reefnet_sensuspro_parser_samples_foreach 3070 sensuspro_example_parser
        [0x01, 0x00, 0x00, 0x00, 0x00] = (DC_STATUS_DATAFORMAT, [])
   \<and> fst (reefnet_sensuspro_parser_get_field 3070 sensuspro_example_parser
        [0x01, 0x00, 0x00, 0x00, 0x00] DC_FIELD_DIVETIME) = Inl DC_STATUS_DATAFORMAT
   \<and> reefnet_sensusultra_parser_get_datetime epoch_seconds sensusultra_example_parser
        [0x01, 0x00, 0x00, 0x00, 0x00] = Inl DC_STATUS_DATAFORMAT
   \<and> fst (reefnet_sensusultra_parser_get_field 100000 sensusultra_example_parser
        [0x01, 0x00, 0x00, 0x00, 0x00] DC_FIELD_DIVETIME) = Inl DC_STATUS_DATAFORMAT
   \<and> reefnet_sensusultra_parser_samples_foreach 100000 sensusultra_example_parser
        [0x01, 0x00, 0x00, 0x00, 0x00] = (DC_STATUS_DATAFORMAT, [])
   \<and> uwatec_smart_parser_get_datetime epoch_seconds epoch_seconds smart_example_parser
        [0x01, 0x00, 0x00, 0x00, 0x00] = Inl DC_STATUS_DATAFORMAT
   \<and> suunto_eonsteel_parser_get_datetime epoch_seconds [0x01, 0x00, 0x00]
        \<lparr> year = 0, month = 0, day = 0, hour = 0, minute = 0, second = 0 \<rparr> =
        Inl DC_STATUS_UNSUPPORTED"
proof -
  have z: "\<exists>off. off + 4 \<le> length ([0x01, 0x00, 0x00, 0x00, 0x00] :: byte list)
      \<and> take 4 (drop off ([0x01, 0x00, 0x00, 0x00, 0x00] :: byte list)) = [0x00, 0x00, 0x00, 0x00]"
    by (rule exI [of _ 1]) simp
  have sw: "sw_petrel (shearwater_petrel_parser_create 0)"
    by (simp add: shearwater_petrel_parser_create_def shearwater_common_parser_create_def)
  have m: "ATOM2 \<noteq> F10" "ATOM2 \<noteq> F11"
    by (simp_all add: atom2_models)
  have a2: "oa_model (oceanic_atom2_parser_create ATOM2 0) \<noteq> F10"
    "oa_model (oceanic_atom2_parser_create ATOM2 0) \<noteq> F11"
    "oa_headersize (oceanic_atom2_parser_create ATOM2 0) = 72"
    "oa_footersize (oceanic_atom2_parser_create ATOM2 0) = 16"
    by (simp_all add: atom2_example_parser m)
  have eo: "\<not> eon_cached (suunto_eon_parser_create False)"
    by (simp add: suunto_eon_parser_create_def)
  have sm: "us_headersize smart_example_parser = 92"
    by (rule smart_example_parser_fields)
  from undersized_blob_guards [where data = "[0x01, 0x00, 0x00, 0x00, 0x00]"
      and edata = "[0x01, 0x00, 0x00]" and type = DC_FIELD_DIVETIME and flags = 0
      and gm = epoch_seconds and lt = epoch_seconds and now = 0
      and snprintf = "\<lambda>n f a. []" and stats = "\<lambda>ss. (0, 0)"
      and PSI = 6895 and BAR = 100000 and FSW = 3070
      and sp = "shearwater_petrel_parser_create 0"
      and ap = "oceanic_atom2_parser_create ATOM2 0"
      and vp = oceanic_vtpro_parser_create
      and mp = "uwatec_memomouse_parser_create 10 100"
      and ep = "suunto_eon_parser_create False"
      and ip = divesystem_idive_parser_create
      and rp = sensuspro_example_parser and ru = sensusultra_example_parser
      and up = smart_example_parser
      and dt = "\<lparr> year = 0, month = 0, day = 0, hour = 0, minute = 0, second = 0 \<rparr>"]
    z sw a2 eo sm
  show ?thesis
    by (simp add: SZ_BLOCK_def PAGESIZE_def cressi_SZ_HEADER_def idive_SZ_HEADER_def)
qed


section \<open>Dive time and final sample time\<close>

lemma idive_samples_final_time:
  "idive_samples data st off = (DC_STATUS_SUCCESS, ss, st') \<Longrightarrow>
     l_time st' = last (l_time st # sample_times ss)"
proof (induction data st off arbitrary: ss st' rule: idive_samples.induct)
  case (1 data st offset)
  show ?case
  proof (cases "offset + idive_SZ_SAMPLE \<le> length data")
    case False
    from "1.prems" have "ss = []" "st' = st"
      unfolding idive_samples_end [OF False] by simp_all
    then show ?thesis by (simp add: sample_times_Nil)
  next
    case True
    obtain s1 r where s: "idive_sample data st offset = (s1, r)"
      by (cases "idive_sample data st offset")
    show ?thesis
    proof (cases r)
      case (Inl rc)
      with s have rc: "rc = DC_STATUS_DATAFORMAT" by (auto dest: idive_sample_status)
      from s Inl have "idive_sample data st offset = (s1, Inl rc)" by simp
      from "1.prems" [unfolded idive_samples_err [OF True this]] rc show ?thesis by simp
    next
      case (Inr st1)
      obtain rc s2 st2 where r: "idive_samples data st1 (offset + idive_SZ_SAMPLE) = (rc, s2, st2)"
        by (cases "idive_samples data st1 (offset + idive_SZ_SAMPLE)")
      from s Inr have s': "idive_sample data st offset = (s1, Inr st1)" by simp
      from "1.prems" [unfolded idive_samples_ok [OF True s'] r]
      have eq: "rc = DC_STATUS_SUCCESS" "ss = s1 @ s2" "st' = st2"
        by simp_all
      from s' have t: "sample_times s1 = [l_time st1]"
        by (auto dest: idive_sample_time)
      from r eq have r': "idive_samples data st1 (offset + idive_SZ_SAMPLE) = (DC_STATUS_SUCCESS, s2, st2)"
        by simp
      have "l_time st2 = last (l_time st1 # sample_times s2)"
        by (rule "1.IH" [OF True s [symmetric] Inr r'])
      with eq t show ?thesis by (simp add: sample_times_append)
    qed
  qed
qed


lemma cressi_example_run:
  "cressi_leonardo_parser_samples_foreach cressi_example_blob =
     (DC_STATUS_SUCCESS, [DC_SAMPLE_TIME 20, DC_SAMPLE_DEPTH 1])"
  by (simp add: cressi_leonardo_parser_samples_foreach_def cressi_example_blob_def
      cressi_example_header_def cressi_SZ_HEADER_def cressi_leonardo_samples.simps
      array_uint16_le_def nth_append Let_def)

text \<open>
  Claim C5 fails for the Cressi Leonardo parser: on the example header followed by one
  sample both operations succeed, the only TIME sample is 20 and the dive time is 1200.
\<close>

theorem final_time_differs_from_divetime:
  "fst (cressi_leonardo_parser_samples_foreach cressi_example_blob) = DC_STATUS_SUCCESS
   \<and> sample_times (snd (cressi_leonardo_parser_samples_foreach cressi_example_blob)) = [20]
   \<and> cressi_leonardo_parser_get_field cressi_example_blob DC_FIELD_DIVETIME = Inr (FieldUInt 1200)
   \<and> cressi_leonardo_parser_get_field cressi_example_blob DC_FIELD_DIVETIME \<noteq>
       Inr (FieldUInt (last (sample_times (snd (cressi_leonardo_parser_samples_foreach cressi_example_blob)))))"
proof -
  have f: "cressi_leonardo_parser_get_field cressi_example_blob DC_FIELD_DIVETIME = Inr (FieldUInt 1200)"
    by (simp add: cressi_leonardo_parser_get_field_def cressi_example_blob_def
        cressi_example_header_def cressi_SZ_HEADER_def array_uint16_le_def nth_append)
  show ?thesis
    by (simp add: cressi_example_run f sample_times_def)
qed

lemma vtpro_example_run:
  "oceanic_vtpro_parser_samples_foreach vtpro_example_blob =
     (DC_STATUS_SUCCESS,
      [DC_SAMPLE_TIME 2,
       DC_SAMPLE_VENDOR SAMPLE_VENDOR_OCEANIC_VTPRO [0x00, 0x00, 0x00, 0x0A, 0x00, 0x00, 0x50, 0x00],
       DC_SAMPLE_DEPTH (10 * FEET), DC_SAMPLE_TEMPERATURE ((80 - 32) * (5 / 9)),
       DC_SAMPLE_TIME 4,
       DC_SAMPLE_VENDOR SAMPLE_VENDOR_OCEANIC_VTPRO [0x00, 0x00, 0x00, 0x14, 0x00, 0x00, 0x50, 0x00],
       DC_SAMPLE_DEPTH (20 * FEET), DC_SAMPLE_TEMPERATURE ((80 - 32) * (5 / 9))])"
proof -
  have len: "length vtpro_example_blob = 72"
    by (simp add: vtpro_example_blob_def)
  have i: "vtpro_interval vtpro_example_blob = 2"
    by (simp add: vtpro_interval_def vtpro_example_blob_def nth_append)
  have ne: "\<not> array_isequal vtpro_example_blob offset 8 0x00" if "offset = 40 \<or> offset = 48"
    for offset
  proof -
    from that have "vtpro_example_blob ! (offset + 3) \<noteq> 0"
      by (auto simp add: vtpro_example_blob_def nth_append)
    moreover have "3 \<in> set [0..<8::nat]"
      by simp
    ultimately show ?thesis
      unfolding array_isequal_def list_all_iff by blast
  qed
  have t: "vtpro_timestamp vtpro_example_blob offset = 0" if "offset = 40 \<or> offset = 48"
    for offset
    using that by (auto simp add: vtpro_timestamp_def vtpro_example_blob_def nth_append bcd2dec_def)
  have m: "(2::nat) mod 4294967296 = 2" "(4::nat) mod 4294967296 = 4"
    by simp_all
  have v: "take 8 (drop 40 vtpro_example_blob) = [0x00, 0x00, 0x00, 0x0A, 0x00, 0x00, 0x50, 0x00]"
    "take 8 (drop 48 vtpro_example_blob) = [0x00, 0x00, 0x00, 0x14, 0x00, 0x00, 0x50, 0x00]"
    "vtpro_example_blob ! 43 = 0x0A" "vtpro_example_blob ! 46 = 0x50"
    "vtpro_example_blob ! 51 = 0x14" "vtpro_example_blob ! 54 = 0x50"
    by (simp_all add: vtpro_example_blob_def nth_append)
  have e: "vtpro_samples 2 vtpro_example_blob st 56 = (DC_STATUS_SUCCESS, [])" for st
    by (subst vtpro_samples.simps) (simp add: len PAGESIZE_def)
  have b: "vtpro_samples 2 vtpro_example_blob
      \<lparr> vt_time = tm, vt_timestamp = 0, vt_count = 30, vt_i = 0 \<rparr> 48 =
     (DC_STATUS_SUCCESS,
      [DC_SAMPLE_TIME (tm + 2),
       DC_SAMPLE_VENDOR SAMPLE_VENDOR_OCEANIC_VTPRO [0x00, 0x00, 0x00, 0x14, 0x00, 0x00, 0x50, 0x00],
       DC_SAMPLE_DEPTH (20 * FEET), DC_SAMPLE_TEMPERATURE ((80 - 32) * (5 / 9))])"
    if "tm + 2 < 2 ^ 32" for tm
  proof -
    from that have "(tm + 2) mod 2 ^ 32 = tm + 2"
      by (rule mod_less)
    then have k: "(tm + 2) mod 4294967296 = tm + 2" "Suc (Suc tm) mod 4294967296 = Suc (Suc tm)"
      by simp_all
    show ?thesis
      by (subst vtpro_samples.simps) (simp add: len PAGESIZE_def ne t e k v Let_def)
  qed
  have a: "vtpro_samples 2 vtpro_example_blob
      \<lparr> vt_time = 0, vt_timestamp = 0, vt_count = 0, vt_i = 0 \<rparr> 40 =
     (DC_STATUS_SUCCESS,
      [DC_SAMPLE_TIME 2,
       DC_SAMPLE_VENDOR SAMPLE_VENDOR_OCEANIC_VTPRO [0x00, 0x00, 0x00, 0x0A, 0x00, 0x00, 0x50, 0x00],
       DC_SAMPLE_DEPTH (10 * FEET), DC_SAMPLE_TEMPERATURE ((80 - 32) * (5 / 9)),
       DC_SAMPLE_TIME 4,
       DC_SAMPLE_VENDOR SAMPLE_VENDOR_OCEANIC_VTPRO [0x00, 0x00, 0x00, 0x14, 0x00, 0x00, 0x50, 0x00],
       DC_SAMPLE_DEPTH (20 * FEET), DC_SAMPLE_TEMPERATURE ((80 - 32) * (5 / 9))])"
    by (subst vtpro_samples.simps) (simp add: len PAGESIZE_def ne t b m v Let_def)
  show ?thesis
    by (simp add: oceanic_vtpro_parser_samples_foreach_def len PAGESIZE_def i a)
qed

lemma idive_foreach_success:
  assumes "divesystem_idive_parser_samples_foreach parser data = (DC_STATUS_SUCCESS, ss, parser')"
  shows "\<exists>st. idive_samples data idive_locals_init idive_SZ_HEADER = (DC_STATUS_SUCCESS, ss, st)
           \<and> idive_divetime parser' = l_time st \<and> idive_cached parser'"
proof -
  obtain rc ss0 st where r: "idive_samples data idive_locals_init idive_SZ_HEADER = (rc, ss0, st)"
    by (cases "idive_samples data idive_locals_init idive_SZ_HEADER")
  from assms r have "rc = DC_STATUS_SUCCESS"
    by (cases "rc = DC_STATUS_SUCCESS") (simp_all add: divesystem_idive_parser_samples_foreach_def)
  with assms r show ?thesis
    by (auto simp: divesystem_idive_parser_samples_foreach_def)
qed

text \<open>
  Claim C5, amended. For the DiveSystem iDive parser, whose dive time is computed by the
  sample walk: when \<open>samples_foreach\<close> succeeds on a parser whose cache is not populated
  and emits at least one TIME sample, \<open>get_field (DIVETIME)\<close> returns the final TIME
  value, before and after the cache is populated. The same holds for the Oceanic VT Pro
  parser and for the Oceanic Atom2 parser of a model other than the F10 and F11, as far
  as it depends on the sources: their \<open>get_field\<close> fills the cache by running
  \<open>samples_foreach\<close> with the callback \<open>sample_statistics_cb\<close> of
  \<open>parser.c\<close>, here the parameter \<open>stats\<close>, and returns the final TIME value
  provided that this callback yields the value of the last TIME sample as the dive time. For the Cressi Leonardo parser the
  final TIME value is 20 times the number of two-byte samples after the header, modulo
  \<open>2 ^ 32\<close> as the counter is an \<open>unsigned int\<close>, while the dive time is 20 times
  the header field at offset 6.
\<close>

theorem divetime_is_final_time:
  assumes "\<not> idive_cached parser"
    and "divesystem_idive_parser_samples_foreach parser data = (DC_STATUS_SUCCESS, ss, parser')"
    and "sample_times ss \<noteq> []"
  shows "fst (divesystem_idive_parser_get_field parser data DC_FIELD_DIVETIME flags) =
           Inr (FieldUInt (last (sample_times ss)))
       \<and> fst (divesystem_idive_parser_get_field parser' data DC_FIELD_DIVETIME flags) =
           Inr (FieldUInt (last (sample_times ss)))
       \<and> (\<not> vp_cached vp
            \<and> oceanic_vtpro_parser_samples_foreach vdata = (DC_STATUS_SUCCESS, vs)
            \<and> sample_times vs \<noteq> []
            \<and> fst (stats vs) = last (sample_times vs) \<longrightarrow>
            fst (oceanic_vtpro_parser_get_field stats vp vdata DC_FIELD_DIVETIME) =
              Inr (FieldUInt (last (sample_times vs))))
       \<and> (\<not> oa_cached ap \<and> oa_model ap \<noteq> F10 \<and> oa_model ap \<noteq> F11
            \<and> oceanic_atom2_parser_samples_foreach PSI BAR ap adata = (DC_STATUS_SUCCESS, as)
            \<and> sample_times as \<noteq> []
            \<and> fst (stats as) = last (sample_times as) \<longrightarrow>
            fst (oceanic_atom2_parser_get_field PSI BAR stats snprintf ap adata
                   DC_FIELD_DIVETIME aflags) =
              Inr (FieldUInt (last (sample_times as))))
       \<and> (84 \<le> length cdata \<longrightarrow>
            last (sample_times (snd (cressi_leonardo_parser_samples_foreach cdata))) =
              (20 * ((length cdata - 82) div 2)) mod 2 ^ 32
          \<and> cressi_leonardo_parser_get_field cdata DC_FIELD_DIVETIME =
              Inr (FieldUInt (20 * array_uint16_le cdata 6)))"
proof -
  from assms(2) obtain st where
    r: "idive_samples data idive_locals_init idive_SZ_HEADER = (DC_STATUS_SUCCESS, ss, st)"
    and d: "idive_divetime parser' = l_time st" and c: "idive_cached parser'"
    by (auto dest: idive_foreach_success)
  have "l_time st = last (l_time idive_locals_init # sample_times ss)"
    using r by (rule idive_samples_final_time)
  with assms(3) have t: "l_time st = last (sample_times ss)"
    by simp
  have len: "\<not> length data < idive_SZ_HEADER"
  proof
    assume "length data < idive_SZ_HEADER"
    then have "\<not> idive_SZ_HEADER + idive_SZ_SAMPLE \<le> length data" by simp
    then have "idive_samples data idive_locals_init idive_SZ_HEADER =
        (DC_STATUS_SUCCESS, [], idive_locals_init)"
      by (rule idive_samples_end)
    with r assms(3) show False by (simp add: sample_times_Nil)
  qed
  have g1: "fst (divesystem_idive_parser_get_field parser data DC_FIELD_DIVETIME flags) =
           Inr (FieldUInt (last (sample_times ss)))"
    using len assms(1,2) d t by (simp add: divesystem_idive_parser_get_field_def)
  have g2: "fst (divesystem_idive_parser_get_field parser' data DC_FIELD_DIVETIME flags) =
           Inr (FieldUInt (last (sample_times ss)))"
    using len c d t by (simp add: divesystem_idive_parser_get_field_def)
  have g3: "last (sample_times (snd (cressi_leonardo_parser_samples_foreach cdata))) =
              (20 * ((length cdata - 82) div 2)) mod 2 ^ 32
          \<and> cressi_leonardo_parser_get_field cdata DC_FIELD_DIVETIME =
              Inr (FieldUInt (20 * array_uint16_le cdata 6))" if "84 \<le> length cdata"
  proof -
    from that have "cressi_SZ_HEADER + 2 \<le> length cdata"
      by (simp add: cressi_SZ_HEADER_def)
    then have "last (sample_times (cressi_leonardo_samples cdata 0 cressi_SZ_HEADER)) =
       (0 + 20 * ((length cdata - cressi_SZ_HEADER) div 2)) mod 2 ^ 32"
      by (rule cressi_leonardo_samples_last_time)
    with that show ?thesis
      by (simp add: cressi_leonardo_parser_samples_foreach_def cressi_leonardo_parser_get_field_def
          cressi_SZ_HEADER_def)
  qed
  have g4: "fst (oceanic_vtpro_parser_get_field stats vp vdata DC_FIELD_DIVETIME) =
      Inr (FieldUInt (last (sample_times vs)))"
    if "\<not> vp_cached vp \<and> oceanic_vtpro_parser_samples_foreach vdata = (DC_STATUS_SUCCESS, vs)
        \<and> sample_times vs \<noteq> [] \<and> fst (stats vs) = last (sample_times vs)"
  proof -
    from that have "\<not> length vdata < 7 * PAGESIZE div 2"
      by (auto simp add: oceanic_vtpro_parser_samples_foreach_def)
    with that show ?thesis
      by (simp add: oceanic_vtpro_parser_get_field_def)
  qed
  have g5: "fst (oceanic_atom2_parser_get_field PSI BAR stats snprintf ap adata
        DC_FIELD_DIVETIME aflags) = Inr (FieldUInt (last (sample_times as)))"
    if "\<not> oa_cached ap \<and> oa_model ap \<noteq> F10 \<and> oa_model ap \<noteq> F11
        \<and> oceanic_atom2_parser_samples_foreach PSI BAR ap adata = (DC_STATUS_SUCCESS, as)
        \<and> sample_times as \<noteq> [] \<and> fst (stats as) = last (sample_times as)"
  proof -
    from that have "\<not> length adata < oa_headersize ap + oa_footersize ap"
      by (auto simp add: oceanic_atom2_parser_samples_foreach_def)
    with that show ?thesis
      by (simp add: oceanic_atom2_parser_get_field_def Let_def)
  qed
  from g1 g2 g3 g4 g5 show ?thesis by blast
qed

lemma idive_example_run:
  "idive_samples (idive_example_blob 10 20) idive_locals_init idive_SZ_HEADER =
     (DC_STATUS_SUCCESS,
      [DC_SAMPLE_TIME 10, DC_SAMPLE_DEPTH 10, DC_SAMPLE_TEMPERATURE 20,
       DC_SAMPLE_EVENT SAMPLE_EVENT_GASCHANGE2 0 0 21, DC_SAMPLE_CNS (5 / 100),
       DC_SAMPLE_TIME 20, DC_SAMPLE_DEPTH 10, DC_SAMPLE_TEMPERATURE 20, DC_SAMPLE_CNS (5 / 100)],
      \<lparr> l_time = 20, l_maxdepth = 100, l_ngasmixes = 1,
        l_oxygen = (replicate 8 0)[0 := 21], l_helium = (replicate 8 0)[0 := 0],
        l_o2_previous = 21, l_he_previous = 0 \<rparr>)"
  by (simp add: idive_samples.simps idive_sample_def idive_gaschange_def idive_find_gasmix.simps
      idive_example_blob_def idive_example_sample_def idive_locals_init_def
      idive_SZ_HEADER_def idive_SZ_SAMPLE_def idive_NGASMIXES_def
      array_uint32_le_def array_uint16_le_def nth_append Let_def)


theorem divetime_is_final_time_witness:
  "\<not> idive_cached divesystem_idive_parser_create
   \<and> fst (divesystem_idive_parser_samples_foreach divesystem_idive_parser_create
          (idive_example_blob 10 20)) = DC_STATUS_SUCCESS
   \<and> sample_times (fst (snd (divesystem_idive_parser_samples_foreach divesystem_idive_parser_create
          (idive_example_blob 10 20)))) = [10, 20]
   \<and> fst (divesystem_idive_parser_get_field divesystem_idive_parser_create
          (idive_example_blob 10 20) DC_FIELD_DIVETIME 0) = Inr (FieldUInt 20)
   \<and> fst (divesystem_idive_parser_get_field
          (snd (snd (divesystem_idive_parser_samples_foreach divesystem_idive_parser_create
             (idive_example_blob 10 20))))
          (idive_example_blob 10 20) DC_FIELD_DIVETIME 0) = Inr (FieldUInt 20)
   \<and> sample_times (snd (oceanic_vtpro_parser_samples_foreach vtpro_example_blob)) = [2, 4]
   \<and> fst (oceanic_vtpro_parser_get_field (\<lambda>ss. (last (0 # sample_times ss), 0))
          oceanic_vtpro_parser_create vtpro_example_blob DC_FIELD_DIVETIME) = Inr (FieldUInt 4)
   \<and> sample_times (snd (oceanic_atom2_parser_samples_foreach 6895 100000
          (oceanic_atom2_parser_create ATOM2 0) atom2_example_dive)) = [30, 60, 90, 120, 150]
   \<and> fst (oceanic_atom2_parser_get_field 6895 100000 (\<lambda>ss. (last (0 # sample_times ss), 0))
          (\<lambda>n f a. []) (oceanic_atom2_parser_create ATOM2 0) atom2_example_dive
          DC_FIELD_DIVETIME 0) = Inr (FieldUInt 150)
   \<and> 84 \<le> length cressi_example_blob
   \<and> last (sample_times (snd (cressi_leonardo_parser_samples_foreach cressi_example_blob))) = 20
   \<and> cressi_leonardo_parser_get_field cressi_example_blob DC_FIELD_DIVETIME = Inr (FieldUInt 1200)"
proof -
  let ?p = divesystem_idive_parser_create
  let ?r = "divesystem_idive_parser_samples_foreach ?p (idive_example_blob 10 20)"
  have c: "\<not> idive_cached ?p"
    by (simp add: divesystem_idive_parser_create_def)
  have ok: "fst ?r = DC_STATUS_SUCCESS"
    by (simp add: divesystem_idive_parser_samples_foreach_def idive_example_run)
  have ts: "sample_times (fst (snd ?r)) = [10, 20]"
    by (simp add: divesystem_idive_parser_samples_foreach_def idive_example_run sample_times_def)
  from ok have r: "?r = (DC_STATUS_SUCCESS, fst (snd ?r), snd (snd ?r))"
    by (metis prod.collapse)
  have ne: "sample_times (fst (snd ?r)) \<noteq> []"
    using ts by simp
  have len: "84 \<le> length cressi_example_blob"
    by (simp add: cressi_example_blob_def cressi_example_header_def)
  have h: "array_uint16_le cressi_example_blob 6 = 60"
    by (simp add: cressi_example_blob_def cressi_example_header_def array_uint16_le_def nth_append)
  let ?stats = "\<lambda>ss. (last (0 # sample_times ss), 0 :: real)"
  have vc: "\<not> vp_cached oceanic_vtpro_parser_create"
    by (simp add: oceanic_vtpro_parser_create_def)
  have vt: "sample_times (snd (oceanic_vtpro_parser_samples_foreach vtpro_example_blob)) = [2, 4]"
    by (simp add: vtpro_example_run sample_times_def)
  have vr: "oceanic_vtpro_parser_samples_foreach vtpro_example_blob =
      (DC_STATUS_SUCCESS, snd (oceanic_vtpro_parser_samples_foreach vtpro_example_blob))"
    by (simp add: vtpro_example_run)
  have ac: "\<not> oa_cached (oceanic_atom2_parser_create ATOM2 0)"
    "oa_model (oceanic_atom2_parser_create ATOM2 0) = ATOM2"
    by (simp_all add: oceanic_atom2_parser_create_def Let_def)
  have am: "ATOM2 \<noteq> F10" "ATOM2 \<noteq> F11"
    by (simp_all add: atom2_models)
  have at: "sample_times (snd (oceanic_atom2_parser_samples_foreach 6895 100000
      (oceanic_atom2_parser_create ATOM2 0) atom2_example_dive)) = [30, 60, 90, 120, 150]"
    by (simp add: atom2_example_dive_run sample_times_def)
  have ar: "oceanic_atom2_parser_samples_foreach 6895 100000
      (oceanic_atom2_parser_create ATOM2 0) atom2_example_dive =
      (DC_STATUS_SUCCESS, snd (oceanic_atom2_parser_samples_foreach 6895 100000
        (oceanic_atom2_parser_create ATOM2 0) atom2_example_dive))"
    by (simp add: atom2_example_dive_run)
  from divetime_is_final_time [OF c r ne, where flags = 0 and cdata = cressi_example_blob
      and stats = ?stats and vp = oceanic_vtpro_parser_create and vdata = vtpro_example_blob
      and vs = "snd (oceanic_vtpro_parser_samples_foreach vtpro_example_blob)"
      and ap = "oceanic_atom2_parser_create ATOM2 0" and adata = atom2_example_dive
      and PSI = 6895 and BAR = 100000 and snprintf = "\<lambda>n f a. []" and aflags = 0
      and as = "snd (oceanic_atom2_parser_samples_foreach 6895 100000
        (oceanic_atom2_parser_create ATOM2 0) atom2_example_dive)"]
    c ok ts len h vc vt vr [symmetric] ac am at ar [symmetric]
  show ?thesis
    by (simp add: cressi_example_blob_def cressi_example_header_def)
qed

end
